theory Spec2Isabelle
  imports Complex_Main
begin

section \<open>Errors, events and results\<close>

text \<open>
  The model of \<^verbatim>\<open>dlkcnet_arch.py\<close>. Every Python exception is a value of type
  \<open>error\<close>. A formatted message keeps its literal parts and the interpolated numbers
  apart, so that no decimal printing is needed.
\<close>

datatype msg_part = Str string | Num nat

datatype error =
    AssertionError "msg_part list"
  | RuntimeError string
  | ValueError string
  | IndexError string
  | KeyError string
  | NameError string
  | AttributeError string

text \<open>
  A tensor is its shape together with its elements as nested lists, outermost dimension
  first. The shape is kept beside the elements because a tensor with an empty dimension
  still has a full shape in torch (the flows of a one-frame sequence have shape
  \<open>(n, 0, 2, h, w)\<close>, and \<open>propagate\<close> reads \<open>h\<close> and \<open>w\<close> from it). Every shape
  check of the source is decided on the shape.

  A value of a tensor is a finite number, one of the two infinities, or not a number.
  On finite values the arithmetic is that of the real numbers: rounding, overflow and
  underflow are not modelled. On the other values it is that of IEEE 754, which decides
  the comparison of the mirror check (an infinity minus itself is not a number, and not a
  number is not equal to zero).
\<close>

datatype fval = Fin real | PInf | NInf | NaN

fun is_fin :: "fval \<Rightarrow> bool" where
  "is_fin (Fin x) = True"
| "is_fin v = False"

fun fneg :: "fval \<Rightarrow> fval" where
  "fneg (Fin x) = Fin (- x)"
| "fneg PInf = NInf"
| "fneg NInf = PInf"
| "fneg NaN = NaN"

fun fadd :: "fval \<Rightarrow> fval \<Rightarrow> fval" where
  "fadd (Fin x) (Fin y) = Fin (x + y)"
| "fadd NaN v = NaN"
| "fadd v NaN = NaN"
| "fadd PInf NInf = NaN"
| "fadd NInf PInf = NaN"
| "fadd PInf v = PInf"
| "fadd v PInf = PInf"
| "fadd NInf v = NInf"
| "fadd v NInf = NInf"

definition fsub :: "fval \<Rightarrow> fval \<Rightarrow> fval" where
  "fsub u v = fadd u (fneg v)"

text \<open>The sign of a value that is not \<open>NaN\<close>, and the product.\<close>

fun fsgn :: "fval \<Rightarrow> real" where
  "fsgn (Fin x) = sgn x"
| "fsgn PInf = 1"
| "fsgn NInf = - 1"
| "fsgn NaN = 0"

definition fmul :: "fval \<Rightarrow> fval \<Rightarrow> fval" where
  "fmul u v =
     (case (u, v) of
        (Fin x, Fin y) \<Rightarrow> Fin (x * y)
      | (NaN, _) \<Rightarrow> NaN
      | (_, NaN) \<Rightarrow> NaN
      | _ \<Rightarrow> (if fsgn u * fsgn v = 0 then NaN
              else if 0 < fsgn u * fsgn v then PInf else NInf))"

fun ftanh :: "fval \<Rightarrow> fval" where
  "ftanh (Fin x) = Fin (tanh x)"
| "ftanh PInf = Fin 1"
| "ftanh NInf = Fin (- 1)"
| "ftanh NaN = NaN"

text \<open>
  \<^verbatim>\<open>torch.norm\<close> of the values of a tensor: the square root of the sum of the squares.
\<close>

definition fnorm :: "fval list \<Rightarrow> fval" where
  "fnorm vs =
     (if NaN \<in> set vs then NaN
      else if PInf \<in> set vs \<or> NInf \<in> set vs then PInf
      else Fin (sqrt (sum_list (map (\<lambda>v. case v of Fin x \<Rightarrow> x * x | _ \<Rightarrow> 0) vs))))"

record 'a tensor =
  shape :: "nat list"
  elems :: 'a

type_synonym plane = "fval list list"
type_synonym image = "plane list"
type_synonym t4 = "image list tensor"
type_synonym t5 = "image list list tensor"

text \<open>
  The calls the claims speak about are recorded as events: a warning, a call of the flow
  estimator with its two arguments, a call of the alignment module of a branch at a
  loop step, and a call of the fusion block of a branch at a loop step together with the
  propagated state that enters the stage.
\<close>

datatype event =
    Warn string
  | Spynet_call t4 t4
  | Align_call string nat
  | Fusion_call string nat t4

text \<open>
  A computation returns the events it emitted and either the exception it raised or its
  value. The events emitted before an exception are kept.
\<close>

type_synonym 'a res = "event list \<times> (error + 'a)"

definition ret :: "'a \<Rightarrow> 'a res" where
  "ret x = ([], Inr x)"

definition raise :: "error \<Rightarrow> 'a res" where
  "raise e = ([], Inl e)"

definition emit :: "event \<Rightarrow> unit res" where
  "emit ev = ([ev], Inr ())"

definition rbind :: "'a res \<Rightarrow> ('a \<Rightarrow> 'b res) \<Rightarrow> 'b res" where
  "rbind m f =
     (case m of
        (l, Inl e) \<Rightarrow> (l, Inl e)
      | (l, Inr x) \<Rightarrow> (case f x of (l', r) \<Rightarrow> (l @ l', r)))"

definition lift :: "error + 'a \<Rightarrow> 'a res" where
  "lift r = ([], r)"

definition events :: "'a res \<Rightarrow> event list" where
  "events m = fst m"

definition outcome :: "'a res \<Rightarrow> error + 'a" where
  "outcome m = snd m"

definition returns :: "'a res \<Rightarrow> 'a \<Rightarrow> bool" where
  "returns m x = (outcome m = Inr x)"

definition fails :: "'a res \<Rightarrow> bool" where
  "fails m = isl (outcome m)"

text \<open>A computation that emits no event.\<close>

definition quiet :: "'a res \<Rightarrow> bool" where
  "quiet m = (events m = [])"

fun is_spynet_call :: "event \<Rightarrow> bool" where
  "is_spynet_call (Spynet_call a b) = True"
| "is_spynet_call ev = False"

definition spynet_calls :: "event list \<Rightarrow> nat" where
  "spynet_calls l = length (filter is_spynet_call l)"

section \<open>Python lists and dictionaries\<close>

text \<open>\<^verbatim>\<open>xs[i]\<close>: a negative index counts from the end, an index out of range raises.\<close>

definition py_index :: "'a list \<Rightarrow> int \<Rightarrow> 'a res" where
  "py_index xs i =
     (let n = int (length xs); j = (if i < 0 then n + i else i)
      in if 0 \<le> j \<and> j < n then ret (xs ! nat j)
         else raise (IndexError ''list index out of range''))"

text \<open>\<^verbatim>\<open>xs.pop(0)\<close>: the first element and the rest.\<close>

definition pop0 :: "'a list \<Rightarrow> ('a \<times> 'a list) res" where
  "pop0 xs = (case xs of [] \<Rightarrow> raise (IndexError ''pop from empty list'')
              | x # rest \<Rightarrow> ret (x, rest))"

text \<open>
  A dictionary keeps its keys in insertion order (the source iterates over \<open>feats\<close>), so
  it is an association list with distinct keys.
\<close>

type_synonym 'v dict = "(string \<times> 'v) list"

definition dict_get :: "'v dict \<Rightarrow> string \<Rightarrow> 'v res" where
  "dict_get d k = (case map_of d k of None \<Rightarrow> raise (KeyError k) | Some v \<Rightarrow> ret v)"

fun dict_set :: "'v dict \<Rightarrow> string \<Rightarrow> 'v \<Rightarrow> 'v dict" where
  "dict_set [] k v = [(k, v)]"
| "dict_set ((k', v') # d) k v =
     (if k' = k then (k, v) # d else (k', v') # dict_set d k v)"

text \<open>\<^verbatim>\<open>pat in s\<close> on strings.\<close>

fun contains :: "string \<Rightarrow> string \<Rightarrow> bool" where
  "contains pat [] = (pat = [])"
| "contains pat (c # cs) = (take (length pat) (c # cs) = pat \<or> contains pat cs)"

text \<open>\<^verbatim>\<open>enumerate(xs)\<close> with \<open>nat\<close> counters.\<close>

definition enumerate_from :: "nat \<Rightarrow> 'a list \<Rightarrow> (nat \<times> 'a) list" where
  "enumerate_from k xs = zip [k..<k + length xs] xs"

section \<open>Tensor operations of torch\<close>

definition numel :: "nat list \<Rightarrow> nat" where
  "numel s = prod_list s"

text \<open>
  The size inference of \<^verbatim>\<open>view\<close> and \<^verbatim>\<open>reshape\<close>: at most one dimension is \<open>-1\<close>; it is
  inferred from the number of elements, which fails when the other dimensions multiply
  to zero or do not divide it.
\<close>

definition infer_size :: "int list \<Rightarrow> nat \<Rightarrow> error + nat list" where
  "infer_size dims n =
     (if list_ex (\<lambda>d. d < - 1) dims \<or> 1 < length (filter (\<lambda>d. d = - 1) dims)
      then Inl (RuntimeError ''invalid shape dimension'')
      else if list_ex (\<lambda>d. d = - 1) dims then
        (let p = nat (prod_list (filter (\<lambda>d. d \<noteq> - 1) dims))
         in if p = 0 then Inl (RuntimeError ''cannot infer the unspecified dimension'')
            else if n mod p \<noteq> 0 then Inl (RuntimeError ''shape is invalid for input size'')
            else Inr (map (\<lambda>d. if d = - 1 then n div p else nat d) dims))
      else if nat (prod_list dims) = n then Inr (map nat dims)
      else Inl (RuntimeError ''shape is invalid for input size''))"

definition chop :: "nat \<Rightarrow> nat \<Rightarrow> 'a list \<Rightarrow> 'a list list" where
  "chop n k xs = map (\<lambda>i. take k (drop (i * k) xs)) [0..<n]"

definition flat3 :: "image \<Rightarrow> fval list" where
  "flat3 x = concat (concat x)"

definition flat4 :: "image list \<Rightarrow> fval list" where
  "flat4 x = concat (map flat3 x)"

definition flat5 :: "image list list \<Rightarrow> fval list" where
  "flat5 x = concat (map flat4 x)"

definition unflat3 :: "nat \<Rightarrow> nat \<Rightarrow> nat \<Rightarrow> fval list \<Rightarrow> image" where
  "unflat3 c h w xs = map (chop h w) (chop c (h * w) xs)"

definition unflat4 :: "nat \<Rightarrow> nat \<Rightarrow> nat \<Rightarrow> nat \<Rightarrow> fval list \<Rightarrow> image list" where
  "unflat4 n c h w xs = map (unflat3 c h w) (chop n (c * h * w) xs)"

definition unflat5 ::
  "nat \<Rightarrow> nat \<Rightarrow> nat \<Rightarrow> nat \<Rightarrow> nat \<Rightarrow> fval list \<Rightarrow> image list list" where
  "unflat5 n t c h w xs = map (unflat4 t c h w) (chop n (t * c * h * w) xs)"

text \<open>\<^verbatim>\<open>x.view(d0, d1, d2, d3)\<close> of a five-dimensional tensor.\<close>

definition view54 :: "int list \<Rightarrow> t5 \<Rightarrow> t4 res" where
  "view54 dims x =
     (case infer_size dims (numel (shape x)) of
        Inl e \<Rightarrow> raise e
      | Inr s \<Rightarrow>
          (case s of
             [a, b, c, d] \<Rightarrow> ret \<lparr>shape = s, elems = unflat4 a b c d (flat5 (elems x))\<rparr>
           | _ \<Rightarrow> raise (RuntimeError ''view54: four sizes expected'')))"

text \<open>\<^verbatim>\<open>x.view(d0, d1, d2, d3, d4)\<close> of a four-dimensional tensor.\<close>

definition view45 :: "int list \<Rightarrow> t4 \<Rightarrow> t5 res" where
  "view45 dims x =
     (case infer_size dims (numel (shape x)) of
        Inl e \<Rightarrow> raise e
      | Inr s \<Rightarrow>
          (case s of
             [a, b, c, d, e] \<Rightarrow>
               ret \<lparr>shape = s, elems = unflat5 a b c d e (flat4 (elems x))\<rparr>
           | _ \<Rightarrow> raise (RuntimeError ''view45: five sizes expected'')))"

text \<open>\<^verbatim>\<open>x[:, :-1]\<close> and \<^verbatim>\<open>x[:, 1:]\<close>: slices never raise on a tensor of rank two or more.\<close>

definition slice_butlast1 :: "'a list list tensor \<Rightarrow> 'a list list tensor res" where
  "slice_butlast1 x =
     (case shape x of
        n # t # r \<Rightarrow> ret \<lparr>shape = n # (t - 1) # r, elems = map butlast (elems x)\<rparr>
      | _ \<Rightarrow> raise (IndexError ''too many indices for tensor''))"

definition slice_tl1 :: "'a list list tensor \<Rightarrow> 'a list list tensor res" where
  "slice_tl1 x =
     (case shape x of
        n # t # r \<Rightarrow> ret \<lparr>shape = n # (t - 1) # r, elems = map tl (elems x)\<rparr>
      | _ \<Rightarrow> raise (IndexError ''too many indices for tensor''))"

text \<open>\<^verbatim>\<open>x[:, i]\<close> for an integer \<open>i\<close>.\<close>

definition select_elems :: "nat \<Rightarrow> 'a list list \<Rightarrow> 'a list" where
  "select_elems j ds = map (\<lambda>s. s ! j) ds"

definition select1 :: "int \<Rightarrow> 'a list list tensor \<Rightarrow> 'a list tensor res" where
  "select1 i x =
     (case shape x of
        n # t # r \<Rightarrow>
          (let j = (if i < 0 then int t + i else i)
           in if 0 \<le> j \<and> j < int t
              then ret \<lparr>shape = n # r, elems = select_elems (nat j) (elems x)\<rparr>
              else raise (IndexError ''index out of range''))
      | _ \<Rightarrow> raise (IndexError ''too many indices for tensor''))"

text \<open>\<^verbatim>\<open>x.flip(1)\<close>.\<close>

definition flip1 :: "'a list list tensor \<Rightarrow> 'a list list tensor res" where
  "flip1 x =
     (case shape x of
        n # t # r \<Rightarrow> ret \<lparr>shape = shape x, elems = map rev (elems x)\<rparr>
      | _ \<Rightarrow> raise (IndexError ''dimension out of range''))"

text \<open>
  \<^verbatim>\<open>torch.chunk(x, k, dim=1)\<close>: pieces of \<open>ceil(c / k)\<close> entries, the last one shorter,
  and as many as are needed; \<open>k\<close> empty pieces when the dimension is empty.
\<close>

definition chunk_elems :: "nat \<Rightarrow> nat \<Rightarrow> 'a list list \<Rightarrow> 'a list list" where
  "chunk_elems sz j ds = map (\<lambda>s. take sz (drop (j * sz) s)) ds"

definition chunk1 :: "nat \<Rightarrow> 'a list list tensor \<Rightarrow> 'a list list tensor list res" where
  "chunk1 k x =
     (case shape x of
        n # c # r \<Rightarrow>
          (if k = 0 then raise (RuntimeError ''chunk expects chunks to be greater than 0'')
           else
             (let sz = (c + k - 1) div k
              in if c = 0 then ret (replicate k x)
                 else ret (map (\<lambda>j. \<lparr>shape = n # min sz (c - j * sz) # r,
                                       elems = chunk_elems sz j (elems x)\<rparr>)
                               [0..<(c + sz - 1) div sz])))
      | _ \<Rightarrow> raise (IndexError ''dimension out of range''))"

text \<open>\<^verbatim>\<open>torch.cat(xs, dim=1)\<close>: all sizes but the one of dimension 1 must agree.\<close>

definition cat_elems :: "nat \<Rightarrow> 'a list list list \<Rightarrow> 'a list list" where
  "cat_elems n ds = map (\<lambda>b. concat (map (\<lambda>d. d ! b) ds)) [0..<n]"

definition cat1 :: "'a list list tensor list \<Rightarrow> 'a list list tensor res" where
  "cat1 xs =
     (case xs of
        [] \<Rightarrow> raise (RuntimeError ''cat expects a non-empty list of tensors'')
      | x # rest \<Rightarrow>
          (case shape x of
             n # c # r \<Rightarrow>
               (if list_all (\<lambda>y. case shape y of n' # c' # r' \<Rightarrow> n' = n \<and> r' = r
                                   | _ \<Rightarrow> False) rest
                then ret \<lparr>shape = n # sum_list (map (\<lambda>y. shape y ! 1) xs) # r,
                          elems = cat_elems n (map elems xs)\<rparr>
                else raise (RuntimeError ''sizes of tensors must match except in dimension 1''))
           | _ \<Rightarrow> raise (IndexError ''dimension out of range'')))"

text \<open>\<^verbatim>\<open>torch.stack(xs, dim=1)\<close>: all shapes must be equal.\<close>

definition stack_elems :: "nat \<Rightarrow> 'a list list \<Rightarrow> 'a list list" where
  "stack_elems n ds = map (\<lambda>b. map (\<lambda>d. d ! b) ds) [0..<n]"

definition stack1 :: "'a list tensor list \<Rightarrow> 'a list list tensor res" where
  "stack1 xs =
     (case xs of
        [] \<Rightarrow> raise (RuntimeError ''stack expects a non-empty list of tensors'')
      | x # rest \<Rightarrow>
          (case shape x of
             n # r \<Rightarrow>
               (if list_all (\<lambda>y. shape y = shape x) rest
                then ret \<lparr>shape = n # length xs # r,
                          elems = stack_elems n (map elems xs)\<rparr>
                else raise (RuntimeError ''stack expects each tensor to be equal size''))
           | _ \<Rightarrow> raise (IndexError ''dimension out of range'')))"

text \<open>Broadcasting of two shapes, aligned at the last dimension.\<close>

fun bshape_rev :: "nat list \<Rightarrow> nat list \<Rightarrow> error + nat list" where
  "bshape_rev [] ys = Inr ys"
| "bshape_rev (x # xs) [] = Inr (x # xs)"
| "bshape_rev (x # xs) (y # ys) =
     (case bshape_rev xs ys of
        Inl e \<Rightarrow> Inl e
      | Inr s \<Rightarrow>
          (if x = y \<or> y = 1 then Inr (x # s)
           else if x = 1 then Inr (y # s)
           else Inl (RuntimeError ''the sizes of the tensors must match'')))"

definition bshape :: "nat list \<Rightarrow> nat list \<Rightarrow> error + nat list" where
  "bshape a b = (case bshape_rev (rev a) (rev b) of Inl e \<Rightarrow> Inl e | Inr s \<Rightarrow> Inr (rev s))"

text \<open>One level of an elementwise operation with broadcasting.\<close>

definition bzip :: "('a \<Rightarrow> 'b \<Rightarrow> 'c) \<Rightarrow> 'a list \<Rightarrow> 'b list \<Rightarrow> 'c list" where
  "bzip f xs ys =
     (if length xs = length ys then map2 f xs ys
      else if length xs = 1 then map (f (hd xs)) ys
      else map (\<lambda>x. f x (hd ys)) xs)"

definition ew4 :: "(fval \<Rightarrow> fval \<Rightarrow> fval) \<Rightarrow> image list \<Rightarrow> image list \<Rightarrow> image list" where
  "ew4 f = bzip (bzip (bzip (bzip f)))"

definition ew5 ::
  "(fval \<Rightarrow> fval \<Rightarrow> fval) \<Rightarrow> image list list \<Rightarrow> image list list \<Rightarrow> image list list" where
  "ew5 f = bzip (ew4 f)"

text \<open>\<^verbatim>\<open>x + y\<close> on four-dimensional tensors.\<close>

definition add4 :: "t4 \<Rightarrow> t4 \<Rightarrow> t4 res" where
  "add4 x y =
     (case bshape (shape x) (shape y) of
        Inl e \<Rightarrow> raise e
      | Inr s \<Rightarrow> ret \<lparr>shape = s, elems = ew4 fadd (elems x) (elems y)\<rparr>)"

text \<open>\<^verbatim>\<open>x += y\<close>: the broadcast shape must be the shape of \<open>x\<close>.\<close>

definition iadd4 :: "t4 \<Rightarrow> t4 \<Rightarrow> t4 res" where
  "iadd4 x y =
     (case bshape (shape x) (shape y) of
        Inl e \<Rightarrow> raise e
      | Inr s \<Rightarrow>
          (if s = shape x then ret \<lparr>shape = s, elems = ew4 fadd (elems x) (elems y)\<rparr>
           else raise (RuntimeError ''output shape does not match the broadcast shape'')))"

text \<open>\<^verbatim>\<open>x - y\<close> on five-dimensional tensors.\<close>

definition sub5 :: "t5 \<Rightarrow> t5 \<Rightarrow> t5 res" where
  "sub5 x y =
     (case bshape (shape x) (shape y) of
        Inl e \<Rightarrow> raise e
      | Inr s \<Rightarrow> ret \<lparr>shape = s, elems = ew5 fsub (elems x) (elems y)\<rparr>)"

text \<open>\<^verbatim>\<open>torch.norm(x)\<close>.\<close>

definition norm5 :: "t5 \<Rightarrow> fval" where
  "norm5 x = fnorm (flat5 (elems x))"

text \<open>The tensors all of whose values are finite.\<close>

definition finite5 :: "t5 \<Rightarrow> bool" where
  "finite5 x = list_all is_fin (flat5 (elems x))"

definition zeros3 :: "nat \<Rightarrow> nat \<Rightarrow> nat \<Rightarrow> image" where
  "zeros3 c h w = replicate c (replicate h (replicate w (Fin 0)))"

text \<open>\<^verbatim>\<open>x.new_zeros(n, c, h, w)\<close>.\<close>

definition zeros4 :: "nat \<Rightarrow> nat \<Rightarrow> nat \<Rightarrow> nat \<Rightarrow> t4" where
  "zeros4 n c h w = \<lparr>shape = [n, c, h, w], elems = replicate n (zeros3 c h w)\<rparr>"

text \<open>\<^verbatim>\<open>torch.zeros_like(x)\<close> for a four-dimensional tensor.\<close>

definition zeros_like4 :: "t4 \<Rightarrow> t4 res" where
  "zeros_like4 x =
     (case shape x of
        [n, c, h, w] \<Rightarrow> ret (zeros4 n c h w)
      | _ \<Rightarrow> raise (RuntimeError ''zeros_like4: four dimensions expected''))"

text \<open>\<^verbatim>\<open>x.permute(0, 2, 3, 1)\<close>.\<close>

definition permute_image :: "nat \<Rightarrow> nat \<Rightarrow> image \<Rightarrow> image" where
  "permute_image h w img = map (\<lambda>i. map (\<lambda>j. map (\<lambda>ch. ch ! i ! j) img) [0..<w]) [0..<h]"

definition permute0231 :: "t4 \<Rightarrow> t4 res" where
  "permute0231 x =
     (case shape x of
        [n, c, h, w] \<Rightarrow> ret \<lparr>shape = [n, h, w, c], elems = map (permute_image h w) (elems x)\<rparr>
      | _ \<Rightarrow> raise (RuntimeError ''permute: number of dimensions does not match''))"

text \<open>\<^verbatim>\<open>x.repeat(1, k, 1, 1)\<close>.\<close>

definition repeat_elems :: "nat \<Rightarrow> image list \<Rightarrow> image list" where
  "repeat_elems k ds = map (\<lambda>s. concat (replicate k s)) ds"

definition repeat1 :: "nat \<Rightarrow> t4 \<Rightarrow> t4 res" where
  "repeat1 k x =
     (case shape x of
        [n, c, h, w] \<Rightarrow>
          ret \<lparr>shape = [n, c * k, h, w], elems = repeat_elems k (elems x)\<rparr>
      | _ \<Rightarrow> raise (RuntimeError ''repeat: number of dimensions does not match''))"

text \<open>An elementwise function on a four-dimensional tensor.\<close>

definition map_elems :: "(fval \<Rightarrow> fval) \<Rightarrow> image list \<Rightarrow> image list" where
  "map_elems f ds = map (map (map (map f))) ds"

definition map4 :: "(fval \<Rightarrow> fval) \<Rightarrow> t4 \<Rightarrow> t4" where
  "map4 f x = \<lparr>shape = shape x, elems = map_elems f (elems x)\<rparr>"

section \<open>Sub-networks\<close>

text \<open>
  The convolutional sub-networks and the functional operators of torch, torchvision and
  basicsr are parameters of the model. Each acts on the samples of a batch one by one:
  \<open>oshape\<close> gives the shape of the result for one sample from the shapes of the
  arguments for one sample (or the exception the operator raises), \<open>ofun\<close> the values.
  The batch size is kept, and the arguments of an operator with several arguments must
  have the same batch size. A sub-network returns a four-dimensional tensor.
\<close>

record ('i, 'o) net =
  oshape :: "nat list list \<Rightarrow> error + nat list"
  ofun :: "'i \<Rightarrow> 'o"

type_synonym net1 = "(image, image) net"
type_synonym net2 = "(image \<times> image, image) net"
type_synonym net3 = "(image \<times> image \<times> image, image) net"
type_synonym netF = "(image list, image) net"

definition net_result :: "nat \<Rightarrow> error + nat list \<Rightarrow> image list \<Rightarrow> t4 res" where
  "net_result n r xs =
     (case r of
        Inl e \<Rightarrow> raise e
      | Inr s \<Rightarrow>
          (case s of
             [c, h, w] \<Rightarrow> ret \<lparr>shape = n # s, elems = xs\<rparr>
           | _ \<Rightarrow> raise (RuntimeError ''a sub-network returns a four-dimensional tensor'')))"

definition apply_net1 :: "net1 \<Rightarrow> t4 \<Rightarrow> t4 res" where
  "apply_net1 f x =
     (case shape x of
        n # s \<Rightarrow> net_result n (oshape f [s]) (map (ofun f) (elems x))
      | [] \<Rightarrow> raise (RuntimeError ''a batch is expected''))"

definition apply_net2 :: "net2 \<Rightarrow> t4 \<Rightarrow> t4 \<Rightarrow> t4 res" where
  "apply_net2 f x y =
     (case (shape x, shape y) of
        (n # s, n' # s') \<Rightarrow>
          (if n = n' then net_result n (oshape f [s, s']) (map (ofun f) (zip (elems x) (elems y)))
           else raise (RuntimeError ''batch sizes differ''))
      | _ \<Rightarrow> raise (RuntimeError ''a batch is expected''))"

definition apply_net3 :: "net3 \<Rightarrow> t4 \<Rightarrow> t4 \<Rightarrow> t4 \<Rightarrow> t4 res" where
  "apply_net3 f x y z =
     (case (shape x, shape y, shape z) of
        (n # s, n' # s', n'' # s'') \<Rightarrow>
          (if n = n' \<and> n = n''
           then net_result n (oshape f [s, s', s''])
                  (map (ofun f) (zip (elems x) (zip (elems y) (elems z))))
           else raise (RuntimeError ''batch sizes differ''))
      | _ \<Rightarrow> raise (RuntimeError ''a batch is expected''))"

definition apply_netF :: "netF \<Rightarrow> t5 \<Rightarrow> t4 res" where
  "apply_netF f x =
     (case shape x of
        n # s \<Rightarrow> net_result n (oshape f [s]) (map (ofun f) (elems x))
      | [] \<Rightarrow> raise (RuntimeError ''a batch is expected''))"

text \<open>
  What the module imports: the constructors of the sub-networks (their weights are
  whatever the constructor gives), the functional operators, and whether CUDA is there.
\<close>

record library =
  torch_cuda_is_available :: bool
  mk_SpyNet :: "string option \<Rightarrow> error + net2"
  mk_feat_extract1 :: "nat \<Rightarrow> net1"
  mk_feat_extract2 :: "nat \<Rightarrow> net1"
  mk_conv_offset :: "nat \<Rightarrow> nat \<Rightarrow> net1"
  deform_conv2d :: "nat \<Rightarrow> nat \<Rightarrow> nat \<Rightarrow> net3"
  mk_ConvResidualBlocks :: "nat \<Rightarrow> nat \<Rightarrow> nat \<Rightarrow> net1"
  mk_TSAFusion :: "nat \<Rightarrow> nat \<Rightarrow> nat \<Rightarrow> netF"
  mk_Conv2d :: "nat \<Rightarrow> nat \<Rightarrow> nat \<Rightarrow> nat \<Rightarrow> nat \<Rightarrow> net1"
  mk_PixelShuffle :: "nat \<Rightarrow> net1"
  mk_Upsample :: "nat \<Rightarrow> net1"
  mk_LeakyReLU :: net1
  flow_warp :: net2
  interpolate_size :: "nat list \<Rightarrow> net1"
  interpolate_quarter :: net1

text \<open>\<^verbatim>\<open>x.cuda()\<close> raises without CUDA; where a tensor resides is not modelled.\<close>

definition cuda :: "library \<Rightarrow> 'a \<Rightarrow> 'a res" where
  "cuda L x = (if torch_cuda_is_available L then ret x
               else raise (RuntimeError ''CUDA is not available''))"

definition cuda_if :: "library \<Rightarrow> bool \<Rightarrow> 'a \<Rightarrow> 'a res" where
  "cuda_if L c x = (if c then cuda L x else ret x)"

fun mapM :: "('a \<Rightarrow> 'b res) \<Rightarrow> 'a list \<Rightarrow> 'b list res" where
  "mapM f [] = ret []"
| "mapM f (x # xs) = rbind (f x) (\<lambda>y. rbind (mapM f xs) (\<lambda>ys. ret (y # ys)))"

section \<open>SecondOrderDeformableAlignment\<close>

record soda =
  max_residue_magnitude :: real
  conv_offset :: net1
  dcn :: net3

text \<open>\<^verbatim>\<open>SecondOrderDeformableAlignment.__init__\<close> with the arguments \<open>MFRSR\<close> gives it.\<close>

definition soda_init :: "library \<Rightarrow> nat \<Rightarrow> nat \<Rightarrow> nat \<Rightarrow> real \<Rightarrow> soda" where
  "soda_init L in_channels out_channels deformable_groups mrm =
     \<lparr>max_residue_magnitude = mrm,
      conv_offset = mk_conv_offset L out_channels deformable_groups,
      dcn = deform_conv2d L in_channels out_channels deformable_groups\<rparr>"

definition unpack2 :: "'a list \<Rightarrow> ('a \<times> 'a) res" where
  "unpack2 xs = (case xs of [a, b] \<Rightarrow> ret (a, b)
                 | _ \<Rightarrow> raise (ValueError ''wrong number of values to unpack''))"

definition unpack3 :: "'a list \<Rightarrow> ('a \<times> 'a \<times> 'a) res" where
  "unpack3 xs = (case xs of [a, b, c] \<Rightarrow> ret (a, b, c)
                 | _ \<Rightarrow> raise (ValueError ''wrong number of values to unpack''))"

text \<open>Lines 487 to 493: the offset residuals, bounded by the scaled hyperbolic tangent.\<close>

definition soda_residual :: "soda \<Rightarrow> t4 \<Rightarrow> t4 \<Rightarrow> t4 \<Rightarrow> (t4 \<times> t4 \<times> t4) res" where
  "soda_residual al extra_feat flow_1 flow_2 =
     rbind (cat1 [extra_feat, flow_1, flow_2]) (\<lambda>extra_feat.
     rbind (apply_net1 (conv_offset al) extra_feat) (\<lambda>out.
     rbind (chunk1 3 out) (\<lambda>cs.
     rbind (unpack3 cs) (\<lambda>(o1, o2, mask).
     rbind (cat1 [o1, o2]) (\<lambda>o12.
     rbind (chunk1 2 (map4 (\<lambda>v. fmul (Fin (max_residue_magnitude al)) (ftanh v)) o12)) (\<lambda>cs'.
     rbind (unpack2 cs') (\<lambda>(offset_1, offset_2).
     ret (offset_1, offset_2, mask))))))))"

text \<open>Lines 494 and 495: \<^verbatim>\<open>offset + flow.flip(1).repeat(1, offset.size(1) // 2, 1, 1)\<close>.\<close>

definition add_flow :: "t4 \<Rightarrow> t4 \<Rightarrow> t4 res" where
  "add_flow offset flow =
     (case shape offset of
        n # c # r \<Rightarrow>
          rbind (flip1 flow) (\<lambda>fl.
          rbind (repeat1 (c div 2) fl) (\<lambda>rp.
          add4 offset rp))
      | _ \<Rightarrow> raise (IndexError ''dimension out of range''))"

text \<open>Lines 486 to 496: the sampling offsets and the mask logits.\<close>

definition soda_offsets :: "soda \<Rightarrow> t4 \<Rightarrow> t4 \<Rightarrow> t4 \<Rightarrow> (t4 \<times> t4) res" where
  "soda_offsets al extra_feat flow_1 flow_2 =
     rbind (soda_residual al extra_feat flow_1 flow_2) (\<lambda>(offset_1, offset_2, mask).
     rbind (add_flow offset_1 flow_1) (\<lambda>offset_1.
     rbind (add_flow offset_2 flow_2) (\<lambda>offset_2.
     rbind (cat1 [offset_1, offset_2]) (\<lambda>offset.
     ret (offset, mask)))))"

fun sigmoid :: "fval \<Rightarrow> fval" where
  "sigmoid (Fin x) = Fin (1 / (1 + exp (- x)))"
| "sigmoid PInf = Fin 1"
| "sigmoid NInf = Fin 0"
| "sigmoid NaN = NaN"

definition soda_forward :: "soda \<Rightarrow> t4 \<Rightarrow> t4 \<Rightarrow> t4 \<Rightarrow> t4 \<Rightarrow> t4 res" where
  "soda_forward al x extra_feat flow_1 flow_2 =
     rbind (soda_offsets al extra_feat flow_1 flow_2) (\<lambda>(offset, mask).
     apply_net3 (dcn al) x offset (map4 sigmoid mask))"

section \<open>MFRSR\<close>

text \<open>
  An instance: its configuration, its sub-networks (the module dictionaries keyed by
  branch name), and the attributes the methods write: \<open>is_mirror_extended\<close>, and
  \<open>cpu_cache\<close>, which does not exist before the first call of \<open>forward\<close>.
  \<open>feat_extract1\<close> and \<open>feat_extract2\<close> exist only on an instance built for
  low-resolution input.
\<close>

record mfrsr =
  mid_channels :: nat
  is_low_res_input :: bool
  cpu_cache_length :: int
  spynet :: net2
  feat_extract1 :: "net1 option"
  feat_extract2 :: "net1 option"
  deform_align :: "soda dict"
  backbone :: "net1 dict"
  fusion :: "netF dict"
  reconstruction :: net1
  upconv1 :: net1
  upconv2 :: net1
  pixel_shuffle :: net1
  conv_hr :: net1
  conv_last :: net1
  img_upsample :: net1
  lrelu :: net1
  is_mirror_extended :: bool
  is_with_alignment :: bool
  cpu_cache :: "bool option"

subsection \<open>Construction\<close>

text \<open>
  The names bound at module level: the imports of lines 1 to 13 and the four classes.
  A name that is not among them (nor a builtin) raises \<open>NameError\<close> when it is evaluated.
\<close>

definition module_names :: "string list" where
  "module_names =
     [''torch'', ''nn'', ''F'', ''torchvision'', ''warnings'', ''flow_warp'',
      ''ConvResidualBlocks'', ''ConvResidualBlocksModified'', ''SpyNet'',
      ''ModulatedDeformConvPack'', ''ARCH_REGISTRY'', ''TSAFusion'', ''DeformConv2d'',
      ''MultiScaleSmallKernelConvAndAttention'', ''MultiScaleLargeKernelConvAndAttention'',
      ''MFRSR'', ''SecondOrderDeformableAlignment'']"

definition resolve :: "string \<Rightarrow> unit res" where
  "resolve name = (if name \<in> set module_names then ret () else raise (NameError name))"

definition alignment_warning :: string where
  "alignment_warning = ''Deformable alignment module is not added. '' @
     ''Probably your CUDA is not configured correctly. DCN can only '' @
     ''be used with CUDA enabled. Alignment is skipped now.''"

text \<open>
  Lines 135 to 151. The branch for high-resolution input evaluates, in this order,
  \<open>nn.Conv2d\<close>, \<open>nn.LeakyReLU\<close>, \<open>nn.Conv2d\<close>, \<open>nn.LeakyReLU\<close>, \<open>ConvResidualBlocks\<close> and
  \<open>MultiScaleAttention\<close>; it would set \<open>feat_extract\<close> and \<open>feat_extract_2\<close>, which no
  method reads, and leaves \<open>feat_extract1\<close> and \<open>feat_extract2\<close> unset.
\<close>

definition init_feat_extract :: "library \<Rightarrow> nat \<Rightarrow> bool \<Rightarrow> (net1 option \<times> net1 option) res" where
  "init_feat_extract L mid low_res =
     (if low_res then
        rbind (resolve ''nn'') (\<lambda>_.
        rbind (resolve ''ConvResidualBlocks'') (\<lambda>_.
        rbind (resolve ''MultiScaleSmallKernelConvAndAttention'') (\<lambda>_.
        rbind (resolve ''nn'') (\<lambda>_.
        rbind (resolve ''ConvResidualBlocksModified'') (\<lambda>_.
        rbind (resolve ''MultiScaleLargeKernelConvAndAttention'') (\<lambda>_.
        ret (Some (mk_feat_extract1 L mid), Some (mk_feat_extract2 L mid))))))))
      else
        rbind (resolve ''nn'') (\<lambda>_.
        rbind (resolve ''ConvResidualBlocks'') (\<lambda>_.
        rbind (resolve ''MultiScaleAttention'') (\<lambda>_.
        rbind (resolve ''nn'') (\<lambda>_.
        rbind (resolve ''ConvResidualBlocks'') (\<lambda>_.
        rbind (resolve ''MultiScaleAttention'') (\<lambda>_.
        ret (None, None))))))))"

text \<open>\<^verbatim>\<open>MFRSR.__init__\<close>, lines 118 to 194.\<close>

definition init ::
  "library \<Rightarrow> nat \<Rightarrow> nat \<Rightarrow> real \<Rightarrow> bool \<Rightarrow> string option \<Rightarrow> int \<Rightarrow> mfrsr res" where
  "init L mid num_blocks mrm low_res spynet_path ccl =
     rbind (resolve ''SpyNet'') (\<lambda>_.
     rbind (lift (mk_SpyNet L spynet_path)) (\<lambda>spy.
     rbind (init_feat_extract L mid low_res) (\<lambda>(fe1, fe2).
     (let modules = [''backward_1'', ''forward_1''];
          da = (if torch_cuda_is_available L
                then map (\<lambda>module. (module, soda_init L (2 * mid) mid 16 mrm)) modules
                else []);
          bb = map (\<lambda>(i, module). (module, mk_ConvResidualBlocks L ((1 + i) * mid) mid num_blocks))
                 (enumerate_from 0 modules);
          fu = map (\<lambda>module. (module, mk_TSAFusion L mid 2 0)) modules
      in rbind (if 0 < length da then ret True
                else rbind (emit (Warn alignment_warning)) (\<lambda>_. ret False)) (\<lambda>with_alignment.
         ret \<lparr>mid_channels = mid,
              is_low_res_input = low_res,
              cpu_cache_length = ccl,
              spynet = spy,
              feat_extract1 = fe1,
              feat_extract2 = fe2,
              deform_align = da,
              backbone = bb,
              fusion = fu,
              reconstruction = mk_ConvResidualBlocks L (3 * mid) mid 5,
              upconv1 = mk_Conv2d L mid (mid * 4) 3 1 1,
              upconv2 = mk_Conv2d L mid (64 * 4) 3 1 1,
              pixel_shuffle = mk_PixelShuffle L 2,
              conv_hr = mk_Conv2d L 64 64 3 1 1,
              conv_last = mk_Conv2d L 64 3 3 1 1,
              img_upsample = mk_Upsample L 4,
              lrelu = mk_LeakyReLU L,
              is_mirror_extended = False,
              is_with_alignment = with_alignment,
              cpu_cache = None\<rparr>)))))"

subsection \<open>Attributes\<close>

definition get_cpu_cache :: "mfrsr \<Rightarrow> bool res" where
  "get_cpu_cache m =
     (case cpu_cache m of
        None \<Rightarrow> raise (AttributeError ''cpu_cache'')
      | Some b \<Rightarrow> ret b)"

definition get_attr :: "string \<Rightarrow> 'a option \<Rightarrow> 'a res" where
  "get_attr name v = (case v of None \<Rightarrow> raise (AttributeError name) | Some x \<Rightarrow> ret x)"

subsection \<open>check_if_mirror_extended\<close>

text \<open>
  Lines 196 to 208. The method returns the instance as it leaves it: the flag is set when
  the norm of the difference is zero and is left as it was otherwise.
\<close>

definition check_if_mirror_extended :: "mfrsr \<Rightarrow> t5 \<Rightarrow> mfrsr res" where
  "check_if_mirror_extended m lqs =
     (case shape lqs of
        n # t # r \<Rightarrow>
          (if t mod 2 = 0 then
             rbind (chunk1 2 lqs) (\<lambda>cs.
             rbind (unpack2 cs) (\<lambda>(lqs_1, lqs_2).
             rbind (flip1 lqs_2) (\<lambda>fl.
             rbind (sub5 lqs_1 fl) (\<lambda>d.
             ret (if norm5 d = Fin 0 then m\<lparr>is_mirror_extended := True\<rparr> else m)))))
           else ret m)
      | _ \<Rightarrow> raise (IndexError ''dimension out of range''))"

subsection \<open>compute_flow\<close>

definition call_spynet :: "mfrsr \<Rightarrow> t4 \<Rightarrow> t4 \<Rightarrow> t4 res" where
  "call_spynet m a b = rbind (emit (Spynet_call a b)) (\<lambda>_. apply_net2 (spynet m) a b)"

text \<open>Lines 210 to 239. The result is \<open>(flows_forward, flows_backward)\<close>.\<close>

definition compute_flow :: "mfrsr \<Rightarrow> t5 \<Rightarrow> (t5 \<times> t5) res" where
  "compute_flow m lqs =
     (case shape lqs of
        [n, t, c, h, w] \<Rightarrow>
          rbind (slice_butlast1 lqs) (\<lambda>a.
          rbind (view54 [- 1, int c, int h, int w] a) (\<lambda>lqs_1.
          rbind (slice_tl1 lqs) (\<lambda>b.
          rbind (view54 [- 1, int c, int h, int w] b) (\<lambda>lqs_2.
          rbind (call_spynet m lqs_1 lqs_2) (\<lambda>fb.
          rbind (view45 [int n, int t - 1, 2, int h, int w] fb) (\<lambda>flows_backward.
          rbind (if is_mirror_extended m then flip1 flows_backward
                 else rbind (call_spynet m lqs_2 lqs_1) (\<lambda>ff.
                      view45 [int n, int t - 1, 2, int h, int w] ff)) (\<lambda>flows_forward.
          rbind (get_cpu_cache m) (\<lambda>cache.
          ret (flows_forward, flows_backward)))))))))
      | _ \<Rightarrow> raise (ValueError ''wrong number of values to unpack''))"

text \<open>
  Lines 226 and 227 alone: \<open>lqs_1\<close>, the frames but the last, and \<open>lqs_2\<close>, the frames but
  the first, each as one batch.
\<close>

definition frame_pairs :: "t5 \<Rightarrow> nat \<Rightarrow> nat \<Rightarrow> nat \<Rightarrow> (t4 \<times> t4) res" where
  "frame_pairs lqs c h w =
     rbind (slice_butlast1 lqs) (\<lambda>a.
     rbind (view54 [- 1, int c, int h, int w] a) (\<lambda>lqs_1.
     rbind (slice_tl1 lqs) (\<lambda>b.
     rbind (view54 [- 1, int c, int h, int w] b) (\<lambda>lqs_2.
     ret (lqs_1, lqs_2)))))"

subsection \<open>propagate\<close>

type_synonym feats = "t4 list dict"

text \<open>Lines 285 to 295: the second-order features, for a step after the second.\<close>

definition second_order ::
  "library \<Rightarrow> bool \<Rightarrow> feats \<Rightarrow> t5 \<Rightarrow> string \<Rightarrow> int list \<Rightarrow> nat \<Rightarrow> t4 \<Rightarrow> (t4 \<times> t4 \<times> t4) res" where
  "second_order L cache fs flows module_name flow_idx i flow_n1 =
     rbind (dict_get fs module_name) (\<lambda>own.
     rbind (py_index own (- 2)) (\<lambda>feat_n2.
     rbind (cuda_if L cache feat_n2) (\<lambda>feat_n2.
     rbind (py_index flow_idx (int i - 1)) (\<lambda>fi.
     rbind (select1 fi flows) (\<lambda>flow_n2.
     rbind (cuda_if L cache flow_n2) (\<lambda>flow_n2.
     rbind (permute0231 flow_n1) (\<lambda>p1.
     rbind (apply_net2 (flow_warp L) flow_n2 p1) (\<lambda>wp.
     rbind (add4 flow_n1 wp) (\<lambda>flow_n2.
     rbind (permute0231 flow_n2) (\<lambda>p2.
     rbind (apply_net2 (flow_warp L) feat_n2 p2) (\<lambda>cond_n2.
     ret (feat_n2, flow_n2, cond_n2))))))))))))"

text \<open>
  Lines 273 to 300: the alignment of the propagated state, skipped at the first step of
  the loop and on an instance without alignment modules.
\<close>

definition align_stage ::
  "library \<Rightarrow> mfrsr \<Rightarrow> bool \<Rightarrow> feats \<Rightarrow> t5 \<Rightarrow> string \<Rightarrow> int list \<Rightarrow> nat \<Rightarrow> t4 \<Rightarrow> t4 \<Rightarrow> t4 res" where
  "align_stage L m cache fs flows module_name flow_idx i feat_current feat_prop =
     (if 0 < i \<and> is_with_alignment m then
        rbind (py_index flow_idx (int i)) (\<lambda>fi.
        rbind (select1 fi flows) (\<lambda>flow_n1.
        rbind (cuda_if L cache flow_n1) (\<lambda>flow_n1.
        rbind (permute0231 flow_n1) (\<lambda>p1.
        rbind (apply_net2 (flow_warp L) feat_prop p1) (\<lambda>cond_n1.
        rbind (if 1 < i then second_order L cache fs flows module_name flow_idx i flow_n1
               else ret (map4 (\<lambda>_. Fin 0) feat_prop, map4 (\<lambda>_. Fin 0) flow_n1, map4 (\<lambda>_. Fin 0) cond_n1))
          (\<lambda>(feat_n2, flow_n2, cond_n2).
        rbind (cat1 [cond_n1, feat_current, cond_n2]) (\<lambda>cond.
        rbind (cat1 [feat_prop, feat_n2]) (\<lambda>feat_prop2.
        rbind (dict_get (deform_align m) module_name) (\<lambda>al.
        rbind (emit (Align_call module_name i)) (\<lambda>_.
        soda_forward al feat_prop2 cond flow_n1 flow_n2))))))))))
      else ret feat_prop)"

text \<open>
  Line 303: the features of the other branches at this frame, in the order of the keys.
\<close>

definition last_feats :: "feats \<Rightarrow> string \<Rightarrow> int \<Rightarrow> t4 list res" where
  "last_feats fs module_name idx =
     mapM (\<lambda>(k, v). py_index v idx)
       (filter (\<lambda>(k, v). k \<notin> set [''spatial'', module_name]) fs)"

text \<open>
  Lines 302 to 320: backbone, fusion and the new propagated state, appended to the list of
  the branch.
\<close>

definition fuse_stage ::
  "library \<Rightarrow> mfrsr \<Rightarrow> bool \<Rightarrow> feats \<Rightarrow> string \<Rightarrow> int \<Rightarrow> nat \<Rightarrow> t4 \<Rightarrow> t4 \<Rightarrow> (feats \<times> t4) res" where
  "fuse_stage L m cache fs module_name idx i feat_current feat_prop =
     rbind (last_feats fs module_name idx) (\<lambda>last_feat.
     rbind (cat1 (feat_current # last_feat)) (\<lambda>fc.
     rbind (dict_get (backbone m) module_name) (\<lambda>bb.
     rbind (apply_net1 bb fc) (\<lambda>fc.
     rbind (cuda_if L cache fc) (\<lambda>fc.
     rbind (cuda_if L cache feat_prop) (\<lambda>fp.
     rbind (stack1 [fc, fp]) (\<lambda>feat.
     rbind (dict_get (fusion m) module_name) (\<lambda>fu.
     rbind (emit (Fusion_call module_name i feat_prop)) (\<lambda>_.
     rbind (apply_netF fu feat) (\<lambda>r.
     rbind (add4 feat_prop r) (\<lambda>feat_prop'.
     rbind (dict_get fs module_name) (\<lambda>own.
     ret (dict_set fs module_name (own @ [feat_prop']), feat_prop')))))))))))))"

text \<open>Lines 268 to 320: one step of the loop, at counter \<open>i\<close> and frame index \<open>idx\<close>.\<close>

definition prop_step ::
  "library \<Rightarrow> mfrsr \<Rightarrow> t5 \<Rightarrow> string \<Rightarrow> int list \<Rightarrow> int list \<Rightarrow> nat \<times> int \<Rightarrow> feats \<times> t4 \<Rightarrow>
   (feats \<times> t4) res" where
  "prop_step L m flows module_name mapping_idx flow_idx ii st =
     (case (ii, st) of ((i, idx), (fs, feat_prop)) \<Rightarrow>
        rbind (dict_get fs ''spatial'') (\<lambda>sp.
        rbind (py_index mapping_idx idx) (\<lambda>mi.
        rbind (py_index sp mi) (\<lambda>feat_current.
        rbind (get_cpu_cache m) (\<lambda>cache.
        rbind (cuda_if L cache feat_current) (\<lambda>feat_current.
        rbind (cuda_if L cache feat_prop) (\<lambda>feat_prop.
        rbind (align_stage L m cache fs flows module_name flow_idx i feat_current feat_prop)
          (\<lambda>feat_prop.
        fuse_stage L m cache fs module_name idx i feat_current feat_prop))))))))"

fun prop_loop ::
  "library \<Rightarrow> mfrsr \<Rightarrow> t5 \<Rightarrow> string \<Rightarrow> int list \<Rightarrow> int list \<Rightarrow> (nat \<times> int) list \<Rightarrow> feats \<times> t4 \<Rightarrow>
   (feats \<times> t4) res" where
  "prop_loop L m flows module_name mapping_idx flow_idx [] st = ret st"
| "prop_loop L m flows module_name mapping_idx flow_idx (ii # rest) st =
     rbind (prop_step L m flows module_name mapping_idx flow_idx ii st)
       (prop_loop L m flows module_name mapping_idx flow_idx rest)"

text \<open>\<^verbatim>\<open>list(range(0, k))\<close> followed by its reversal.\<close>

definition mapping_index :: "nat \<Rightarrow> int list" where
  "mapping_index k = map int [0..<k] @ rev (map int [0..<k])"

text \<open>\<^verbatim>\<open>MFRSR.propagate\<close>, lines 241 to 325.\<close>

definition propagate :: "library \<Rightarrow> mfrsr \<Rightarrow> feats \<Rightarrow> t5 \<Rightarrow> string \<Rightarrow> feats res" where
  "propagate L m fs flows module_name =
     (case shape flows of
        [n, t, c, h, w] \<Rightarrow>
          rbind (dict_get fs ''spatial'') (\<lambda>sp.
          (let frame_idx0 = map int [0..<t + 1];
               flow_idx0 = map (\<lambda>k. int k - 1) [0..<t + 1];
               mapping_idx = mapping_index (length sp);
               backward = contains ''backward'' module_name;
               frame_idx = (if backward then rev frame_idx0 else frame_idx0);
               flow_idx = (if backward then frame_idx else flow_idx0)
           in rbind (prop_loop L m flows module_name mapping_idx flow_idx
                       (enumerate_from 0 frame_idx) (fs, zeros4 n (mid_channels m) h w))
                (\<lambda>(fs', feat_prop).
              if backward
              then rbind (dict_get fs' module_name) (\<lambda>own. ret (dict_set fs' module_name (rev own)))
              else ret fs')))
      | _ \<Rightarrow> raise (ValueError ''wrong number of values to unpack''))"

subsection \<open>upsample\<close>

text \<open>
  Line 344: \<^verbatim>\<open>[feats[k].pop(0) for k in feats if k != 'spatial']\<close>; the lists lose their
  first elements.
\<close>

fun pop_all :: "feats \<Rightarrow> (t4 list \<times> feats) res" where
  "pop_all [] = ret ([], [])"
| "pop_all ((k, v) # d) =
     (if k \<noteq> ''spatial'' then
        rbind (pop0 v) (\<lambda>(x, v').
        rbind (pop_all d) (\<lambda>(xs, d').
        ret (x # xs, (k, v') # d')))
      else rbind (pop_all d) (\<lambda>(xs, d'). ret (xs, (k, v) # d')))"

text \<open>Lines 350 to 355: the reconstruction head on one frame.\<close>

definition reconstruct :: "mfrsr \<Rightarrow> t4 \<Rightarrow> t4 res" where
  "reconstruct m hr =
     rbind (apply_net1 (reconstruction m) hr) (\<lambda>hr.
     rbind (apply_net1 (upconv1 m) hr) (\<lambda>hr.
     rbind (apply_net1 (pixel_shuffle m) hr) (\<lambda>hr.
     rbind (apply_net1 (lrelu m) hr) (\<lambda>hr.
     rbind (apply_net1 (upconv2 m) hr) (\<lambda>hr.
     rbind (apply_net1 (pixel_shuffle m) hr) (\<lambda>hr.
     rbind (apply_net1 (lrelu m) hr) (\<lambda>hr.
     rbind (apply_net1 (conv_hr m) hr) (\<lambda>hr.
     rbind (apply_net1 (lrelu m) hr) (\<lambda>hr.
     apply_net1 (conv_last m) hr)))))))))"

text \<open>Lines 344 to 365: one step of the loop, for frame \<open>i\<close>.\<close>

definition up_step ::
  "library \<Rightarrow> mfrsr \<Rightarrow> t5 \<Rightarrow> int list \<Rightarrow> nat \<Rightarrow> feats \<times> t4 list \<Rightarrow> (feats \<times> t4 list) res" where
  "up_step L m lqs mapping_idx i st =
     (case st of (fs, outputs) \<Rightarrow>
        rbind (pop_all fs) (\<lambda>(hr, fs').
        rbind (dict_get fs' ''spatial'') (\<lambda>sp.
        rbind (py_index mapping_idx (int i)) (\<lambda>mi.
        rbind (py_index sp mi) (\<lambda>s0.
        rbind (cat1 (s0 # hr)) (\<lambda>hr.
        rbind (get_cpu_cache m) (\<lambda>cache.
        rbind (cuda_if L cache hr) (\<lambda>hr.
        rbind (reconstruct m hr) (\<lambda>hr.
        rbind (select1 (int i) lqs) (\<lambda>frame.
        rbind (if is_low_res_input m
               then rbind (apply_net1 (img_upsample m) frame) (\<lambda>up. iadd4 hr up)
               else iadd4 hr frame) (\<lambda>hr.
        ret (fs', outputs @ [hr]))))))))))))"

fun up_loop ::
  "library \<Rightarrow> mfrsr \<Rightarrow> t5 \<Rightarrow> int list \<Rightarrow> nat list \<Rightarrow> feats \<times> t4 list \<Rightarrow> (feats \<times> t4 list) res" where
  "up_loop L m lqs mapping_idx [] st = ret st"
| "up_loop L m lqs mapping_idx (i # rest) st =
     rbind (up_step L m lqs mapping_idx i st) (up_loop L m lqs mapping_idx rest)"

text \<open>
  \<^verbatim>\<open>MFRSR.upsample\<close>, lines 327 to 367. The result is the output together with \<open>feats\<close> as
  the pops leave it.
\<close>

definition upsample :: "library \<Rightarrow> mfrsr \<Rightarrow> t5 \<Rightarrow> feats \<Rightarrow> (t5 \<times> feats) res" where
  "upsample L m lqs fs =
     rbind (dict_get fs ''spatial'') (\<lambda>sp.
     (case shape lqs of
        n # t # r \<Rightarrow>
          rbind (up_loop L m lqs (mapping_index (length sp)) [0..<t] (fs, [])) (\<lambda>(fs', outputs).
          rbind (stack1 outputs) (\<lambda>out.
          ret (out, fs')))
      | _ \<Rightarrow> raise (IndexError ''dimension out of range'')))"

subsection \<open>forward\<close>

text \<open>
  Lines 399 to 402 and 406 to 409: the two feature branches on all frames of all
  sequences, the second resized to the first, and their sum.
\<close>

definition spatial_feature :: "library \<Rightarrow> mfrsr \<Rightarrow> t5 \<Rightarrow> nat \<Rightarrow> nat \<Rightarrow> nat \<Rightarrow> t4 res" where
  "spatial_feature L m lqs c h w =
     rbind (get_attr ''feat_extract1'' (feat_extract1 m)) (\<lambda>fe1.
     rbind (view54 [- 1, int c, int h, int w] lqs) (\<lambda>x1.
     rbind (apply_net1 fe1 x1) (\<lambda>feats_1.
     rbind (get_attr ''feat_extract2'' (feat_extract2 m)) (\<lambda>fe2.
     rbind (view54 [- 1, int c, int h, int w] lqs) (\<lambda>x2.
     rbind (apply_net1 fe2 x2) (\<lambda>feats_2.
     rbind (apply_net1 (interpolate_size L (drop 2 (shape feats_1))) feats_2) (\<lambda>feats_2.
     add4 feats_1 feats_2)))))))"

text \<open>
  Lines 396 to 412: the list of spatial features, and \<open>h\<close> and \<open>w\<close> as they are bound
  afterwards (the branch without the cache rebinds them to the size of the features).
\<close>

definition spatial_features ::
  "library \<Rightarrow> mfrsr \<Rightarrow> bool \<Rightarrow> t5 \<Rightarrow> nat \<Rightarrow> nat \<Rightarrow> nat \<Rightarrow> nat \<Rightarrow> nat \<Rightarrow> (t4 list \<times> nat \<times> nat) res" where
  "spatial_features L m cache lqs n t c h w =
     (if cache then
        rbind (mapM (\<lambda>i. spatial_feature L m lqs c h w) [0..<t]) (\<lambda>sp.
        ret (sp, h, w))
      else
        rbind (spatial_feature L m lqs c h w) (\<lambda>feats_sum.
        rbind (unpack2 (drop 2 (shape feats_sum))) (\<lambda>(h', w').
        rbind (view45 [int n, int t, - 1, int h', int w'] feats_sum) (\<lambda>feats5.
        rbind (mapM (\<lambda>i. select1 (int i) feats5) [0..<t]) (\<lambda>sp.
        ret (sp, h', w'))))))"

definition low_res_message :: "nat \<Rightarrow> nat \<Rightarrow> msg_part list" where
  "low_res_message h w =
     [Str ''The height and width of low-res inputs must be at least 64, but got '',
      Num h, Str '' and '', Num w, Str ''.'']"

text \<open>Lines 415 to 417.\<close>

definition assert_low_res :: "t5 \<Rightarrow> nat \<Rightarrow> nat \<Rightarrow> unit res" where
  "assert_low_res lqs_downsample h w =
     (case shape lqs_downsample of
        [n', t', c', h3, w4] \<Rightarrow>
          (if 64 \<le> h3 \<and> 64 \<le> w4 then ret ()
           else raise (AssertionError (low_res_message h w)))
      | _ \<Rightarrow> raise (IndexError ''dimension out of range''))"

text \<open>
  Lines 421 to 437: the two branches in their fixed order. \<open>flows_forward\<close> is never
  \<open>None\<close>, so the forward branch always takes it.
\<close>

definition propagate_all :: "library \<Rightarrow> mfrsr \<Rightarrow> feats \<Rightarrow> t5 \<Rightarrow> t5 \<Rightarrow> feats res" where
  "propagate_all L m fs flows_forward flows_backward =
     rbind (propagate L m (dict_set fs ''backward_1'' []) flows_backward ''backward_1'') (\<lambda>fs1.
     propagate L m (dict_set fs1 ''forward_1'' []) flows_forward ''forward_1'')"

text \<open>Lines 394 to 434: everything between the mirror check and the reconstruction.\<close>

definition forward_feats ::
  "library \<Rightarrow> mfrsr \<Rightarrow> t5 \<Rightarrow> t5 \<Rightarrow> nat \<Rightarrow> nat \<Rightarrow> nat \<Rightarrow> nat \<Rightarrow> nat \<Rightarrow> feats res" where
  "forward_feats L m lqs lqs_downsample n t c h w =
     rbind (get_cpu_cache m) (\<lambda>cache.
     rbind (spatial_features L m cache lqs n t c h w) (\<lambda>(sp, h', w').
     rbind (assert_low_res lqs_downsample h' w') (\<lambda>_.
     rbind (compute_flow m lqs_downsample) (\<lambda>(flows_forward, flows_backward).
     propagate_all L m [(''spatial'', sp)] flows_forward flows_backward))))"

text \<open>Lines 385 to 389.\<close>

definition downsample :: "library \<Rightarrow> mfrsr \<Rightarrow> t5 \<Rightarrow> nat \<Rightarrow> nat \<Rightarrow> nat \<Rightarrow> nat \<Rightarrow> nat \<Rightarrow> t5 res" where
  "downsample L m lqs n t c h w =
     (if is_low_res_input m then ret lqs
      else
        rbind (view54 [- 1, int c, int h, int w] lqs) (\<lambda>x.
        rbind (apply_net1 (interpolate_quarter L) x) (\<lambda>y.
        view45 [int n, int t, int c, int (h div 4), int (w div 4)] y)))"

text \<open>
  \<^verbatim>\<open>MFRSR.forward\<close>, lines 369 to 439. The first component is the instance as the call
  leaves it, also when the call raises: \<open>cpu_cache\<close> is written first, and the mirror flag
  when the check returns.
\<close>

definition forward :: "library \<Rightarrow> mfrsr \<Rightarrow> t5 \<Rightarrow> mfrsr \<times> t5 res" where
  "forward L m lqs =
     (case shape lqs of
        [n, t, c, h, w] \<Rightarrow>
          (let m1 = m\<lparr>cpu_cache := Some (cpu_cache_length m < int t)\<rparr>
           in case downsample L m1 lqs n t c h w of
                (l, Inl e) \<Rightarrow> (m1, (l, Inl e))
              | (l, Inr lqs_downsample) \<Rightarrow>
                  (case check_if_mirror_extended m1 lqs of
                     (l', Inl e) \<Rightarrow> (m1, (l @ l', Inl e))
                   | (l', Inr m2) \<Rightarrow>
                       (m2, rbind (l @ l', Inr ())
                              (\<lambda>_. rbind (forward_feats L m2 lqs lqs_downsample n t c h w) (\<lambda>fs.
                                   rbind (upsample L m2 lqs fs) (\<lambda>(out, fs'). ret out))))))
      | _ \<Rightarrow> (m, raise (ValueError ''wrong number of values to unpack'')))"

section \<open>An example library and instance\<close>

text \<open>
  A library whose operators follow the shape rules of the torch documentation and return
  zeros, and the instance \<open>init\<close> builds from it. The theorems below hold for every
  library; this one shows that their hypotheses can be met.
\<close>

definition channel_rule :: "nat \<Rightarrow> nat \<Rightarrow> nat list list \<Rightarrow> error + nat list" where
  "channel_rule cin cout ss =
     (case ss of
        [[c, h, w]] \<Rightarrow> (if c = cin then Inr [cout, h, w]
                        else Inl (RuntimeError ''wrong number of input channels''))
      | _ \<Rightarrow> Inl (RuntimeError ''one three-dimensional sample expected''))"

definition conv2d_rule :: "nat \<Rightarrow> nat \<Rightarrow> nat \<Rightarrow> nat \<Rightarrow> nat \<Rightarrow> nat list list \<Rightarrow> error + nat list" where
  "conv2d_rule cin cout k s p ss =
     (case ss of
        [[c, h, w]] \<Rightarrow>
          (if c = cin \<and> k \<le> h + 2 * p \<and> k \<le> w + 2 * p \<and> 0 < s
           then Inr [cout, (h + 2 * p - k) div s + 1, (w + 2 * p - k) div s + 1]
           else Inl (RuntimeError ''convolution: wrong input size''))
      | _ \<Rightarrow> Inl (RuntimeError ''one three-dimensional sample expected''))"

definition pixel_shuffle_rule :: "nat \<Rightarrow> nat list list \<Rightarrow> error + nat list" where
  "pixel_shuffle_rule r ss =
     (case ss of
        [[c, h, w]] \<Rightarrow> (if c mod (r * r) = 0 then Inr [c div (r * r), h * r, w * r]
                        else Inl (RuntimeError ''pixel_shuffle: channels not divisible''))
      | _ \<Rightarrow> Inl (RuntimeError ''one three-dimensional sample expected''))"

definition upsample_rule :: "nat \<Rightarrow> nat list list \<Rightarrow> error + nat list" where
  "upsample_rule k ss =
     (case ss of
        [[c, h, w]] \<Rightarrow> Inr [c, k * h, k * w]
      | _ \<Rightarrow> Inl (RuntimeError ''one three-dimensional sample expected''))"

definition same_rule :: "nat list list \<Rightarrow> error + nat list" where
  "same_rule ss =
     (case ss of
        [[c, h, w]] \<Rightarrow> Inr [c, h, w]
      | _ \<Rightarrow> Inl (RuntimeError ''one three-dimensional sample expected''))"

definition resize_rule :: "nat list \<Rightarrow> nat list list \<Rightarrow> error + nat list" where
  "resize_rule sz ss =
     (case (sz, ss) of
        ([h', w'], [[c, h, w]]) \<Rightarrow> Inr [c, h', w']
      | _ \<Rightarrow> Inl (RuntimeError ''interpolate: size and input do not match''))"

definition quarter_rule :: "nat list list \<Rightarrow> error + nat list" where
  "quarter_rule ss =
     (case ss of
        [[c, h, w]] \<Rightarrow> Inr [c, h div 4, w div 4]
      | _ \<Rightarrow> Inl (RuntimeError ''one three-dimensional sample expected''))"

definition spynet_rule :: "nat list list \<Rightarrow> error + nat list" where
  "spynet_rule ss =
     (case ss of
        [[c, h, w], s'] \<Rightarrow> (if s' = [c, h, w] \<and> c = 3 then Inr [2, h, w]
                            else Inl (AssertionError [Str ''ref and supp differ'']))
      | _ \<Rightarrow> Inl (RuntimeError ''two three-dimensional samples expected''))"

definition flow_warp_rule :: "nat list list \<Rightarrow> error + nat list" where
  "flow_warp_rule ss =
     (case ss of
        [[c, h, w], [h', w', k]] \<Rightarrow> (if h' = h \<and> w' = w \<and> k = 2 then Inr [c, h, w]
                                     else Inl (AssertionError [Str ''sizes of x and flow differ'']))
      | _ \<Rightarrow> Inl (RuntimeError ''two three-dimensional samples expected''))"

definition dcn_rule :: "nat \<Rightarrow> nat \<Rightarrow> nat \<Rightarrow> nat list list \<Rightarrow> error + nat list" where
  "dcn_rule cin cout dg ss =
     (case ss of
        [[c, h, w], [co, ho, wo], [cm, hm, wm]] \<Rightarrow>
          (if c = cin \<and> 0 < dg \<and> cin mod dg = 0 \<and> co = 18 * dg \<and> cm = 9 * dg \<and>
              ho = h \<and> hm = h \<and> wo = w \<and> wm = w
           then Inr [cout, h, w]
           else Inl (RuntimeError ''deform_conv2d: wrong input size''))
      | _ \<Rightarrow> Inl (RuntimeError ''three three-dimensional samples expected''))"

definition fusion_rule :: "nat \<Rightarrow> nat \<Rightarrow> nat list list \<Rightarrow> error + nat list" where
  "fusion_rule num_feat num_frame ss =
     (case ss of
        [[t, c, h, w]] \<Rightarrow> (if t = num_frame \<and> c = num_feat then Inr [c, h, w]
                           else Inl (RuntimeError ''fusion: wrong input size''))
      | _ \<Rightarrow> Inl (RuntimeError ''one four-dimensional sample expected''))"

definition img_dims :: "image \<Rightarrow> nat list" where
  "img_dims x =
     [length x,
      (case x of [] \<Rightarrow> 0 | p # _ \<Rightarrow> length p),
      (case x of (r # _) # _ \<Rightarrow> length r | _ \<Rightarrow> 0)]"

definition zero_image :: "error + nat list \<Rightarrow> image" where
  "zero_image r = (case r of Inr [c, h, w] \<Rightarrow> zeros3 c h w | _ \<Rightarrow> [])"

definition zero_net1 :: "(nat list list \<Rightarrow> error + nat list) \<Rightarrow> net1" where
  "zero_net1 rule = \<lparr>oshape = rule, ofun = (\<lambda>x. zero_image (rule [img_dims x]))\<rparr>"

definition zero_net2 :: "(nat list list \<Rightarrow> error + nat list) \<Rightarrow> net2" where
  "zero_net2 rule =
     \<lparr>oshape = rule, ofun = (\<lambda>(x, y). zero_image (rule [img_dims x, img_dims y]))\<rparr>"

definition zero_net3 :: "(nat list list \<Rightarrow> error + nat list) \<Rightarrow> net3" where
  "zero_net3 rule =
     \<lparr>oshape = rule,
      ofun = (\<lambda>(x, y, z). zero_image (rule [img_dims x, img_dims y, img_dims z]))\<rparr>"

definition zero_netF :: "(nat list list \<Rightarrow> error + nat list) \<Rightarrow> netF" where
  "zero_netF rule =
     \<lparr>oshape = rule,
      ofun = (\<lambda>xs. zero_image (rule [length xs # (case xs of [] \<Rightarrow> [0, 0, 0] | x # _ \<Rightarrow> img_dims x)]))\<rparr>"

definition ex_library :: "bool \<Rightarrow> library" where
  "ex_library with_cuda =
     \<lparr>torch_cuda_is_available = with_cuda,
      mk_SpyNet = (\<lambda>path. Inr (zero_net2 spynet_rule)),
      mk_feat_extract1 = (\<lambda>mid. zero_net1 (channel_rule 3 mid)),
      mk_feat_extract2 = (\<lambda>mid. zero_net1 (channel_rule 3 mid)),
      mk_conv_offset = (\<lambda>out_channels dg. zero_net1 (channel_rule (3 * out_channels + 4) (27 * dg))),
      deform_conv2d = (\<lambda>cin cout dg. zero_net3 (dcn_rule cin cout dg)),
      mk_ConvResidualBlocks = (\<lambda>num_in num_out num_block. zero_net1 (channel_rule num_in num_out)),
      mk_TSAFusion = (\<lambda>num_feat num_frame center. zero_netF (fusion_rule num_feat num_frame)),
      mk_Conv2d = (\<lambda>cin cout k s p. zero_net1 (conv2d_rule cin cout k s p)),
      mk_PixelShuffle = (\<lambda>r. zero_net1 (pixel_shuffle_rule r)),
      mk_Upsample = (\<lambda>k. zero_net1 (upsample_rule k)),
      mk_LeakyReLU = zero_net1 same_rule,
      flow_warp = zero_net2 flow_warp_rule,
      interpolate_size = (\<lambda>sz. zero_net1 (resize_rule sz)),
      interpolate_quarter = zero_net1 quarter_rule\<rparr>"

text \<open>A sequence of \<open>t\<close> frames of zeros, in a batch of \<open>n\<close>.\<close>

definition zero_frames :: "nat \<Rightarrow> nat \<Rightarrow> nat \<Rightarrow> nat \<Rightarrow> nat \<Rightarrow> image list list" where
  "zero_frames n t c h w = replicate n (replicate t (zeros3 c h w))"

definition zero_seq :: "nat \<Rightarrow> nat \<Rightarrow> nat \<Rightarrow> nat \<Rightarrow> nat \<Rightarrow> t5" where
  "zero_seq n t c h w = \<lparr>shape = [n, t, c, h, w], elems = zero_frames n t c h w\<rparr>"

text \<open>
  Sequences of frames of three channels and 64 by 64 pixels, each frame of one value: in
  the first, of four frames, the second half is the first half reversed; the four frames
  of the second are all different; the third has two equal frames of infinite values.
\<close>

definition const_image :: "fval \<Rightarrow> nat \<Rightarrow> nat \<Rightarrow> nat \<Rightarrow> image" where
  "const_image v c h w = replicate c (replicate h (replicate w v))"

definition ex_frame :: "real \<Rightarrow> image" where
  "ex_frame v = const_image (Fin v) 3 64 64"

definition ex_mirror_seq :: t5 where
  "ex_mirror_seq =
     \<lparr>shape = [1, 4, 3, 64, 64],
      elems = [[ex_frame 1, ex_frame 5, ex_frame 5, ex_frame 1]]\<rparr>"

definition ex_plain_seq :: t5 where
  "ex_plain_seq =
     \<lparr>shape = [1, 4, 3, 64, 64],
      elems = [[ex_frame 1, ex_frame 2, ex_frame 3, ex_frame 4]]\<rparr>"

definition ex_inf_seq :: t5 where
  "ex_inf_seq =
     \<lparr>shape = [1, 2, 3, 64, 64],
      elems = [[const_image PInf 3 64 64, const_image PInf 3 64 64]]\<rparr>"

text \<open>The instance \<open>init\<close> returns for the example library.\<close>

definition ex_model :: "bool \<Rightarrow> nat \<Rightarrow> int \<Rightarrow> mfrsr" where
  "ex_model with_cuda mid ccl =
     (let L = ex_library with_cuda in
      \<lparr>mid_channels = mid,
       is_low_res_input = True,
       cpu_cache_length = ccl,
       spynet = zero_net2 spynet_rule,
       feat_extract1 = Some (mk_feat_extract1 L mid),
       feat_extract2 = Some (mk_feat_extract2 L mid),
       deform_align =
         (if with_cuda
          then [(''backward_1'', soda_init L (2 * mid) mid 16 10),
                (''forward_1'', soda_init L (2 * mid) mid 16 10)]
          else []),
       backbone =
         [(''backward_1'', mk_ConvResidualBlocks L mid mid 7),
          (''forward_1'', mk_ConvResidualBlocks L (2 * mid) mid 7)],
       fusion =
         [(''backward_1'', mk_TSAFusion L mid 2 0), (''forward_1'', mk_TSAFusion L mid 2 0)],
       reconstruction = mk_ConvResidualBlocks L (3 * mid) mid 5,
       upconv1 = mk_Conv2d L mid (mid * 4) 3 1 1,
       upconv2 = mk_Conv2d L mid (64 * 4) 3 1 1,
       pixel_shuffle = mk_PixelShuffle L 2,
       conv_hr = mk_Conv2d L 64 64 3 1 1,
       conv_last = mk_Conv2d L 64 3 3 1 1,
       img_upsample = mk_Upsample L 4,
       lrelu = mk_LeakyReLU L,
       is_mirror_extended = False,
       is_with_alignment = with_cuda,
       cpu_cache = None\<rparr>)"

section \<open>The entries of a tensor\<close>

text \<open>
  The set of the values of a four-dimensional tensor, the entry at an index, and the
  tensors whose nested lists have the lengths their shape gives.
\<close>

definition vals4 :: "t4 \<Rightarrow> fval set" where
  "vals4 x = (\<Union>s \<in> set (elems x). \<Union>p \<in> set s. \<Union>r \<in> set p. set r)"

definition at4 :: "t4 \<Rightarrow> nat \<Rightarrow> nat \<Rightarrow> nat \<Rightarrow> nat \<Rightarrow> fval" where
  "at4 x b k i j = elems x ! b ! k ! i ! j"

definition wf4 :: "t4 \<Rightarrow> bool" where
  "wf4 x =
     (case shape x of
        [n, c, h, w] \<Rightarrow>
          length (elems x) = n \<and>
          list_all (\<lambda>s. length s = c \<and>
            list_all (\<lambda>p. length p = h \<and> list_all (\<lambda>r. length r = w) p) s) (elems x)
      | _ \<Rightarrow> False)"

text \<open>
  An alignment module whose offset network returns the twelve channels 1 to 12 of one
  pixel, and the tensors of one call: a feature of one channel and two flows.
\<close>

definition ex_conv_offset :: net1 where
  "ex_conv_offset =
     \<lparr>oshape = (\<lambda>ss. Inr [12, 1, 1]),
      ofun = (\<lambda>x. map (\<lambda>v. [[Fin v]]) [1, 2, 3, 4, 5, 6, 7, 8, 9, 10, 11, 12])\<rparr>"

definition ex_soda :: soda where
  "ex_soda =
     \<lparr>max_residue_magnitude = 10, conv_offset = ex_conv_offset,
      dcn = zero_net3 (dcn_rule 2 1 1)\<rparr>"

text \<open>The same module with an offset network whose first channel is not a number.\<close>

definition ex_conv_offset_nan :: net1 where
  "ex_conv_offset_nan =
     \<lparr>oshape = (\<lambda>ss. Inr [12, 1, 1]),
      ofun = (\<lambda>x. [[NaN]] # map (\<lambda>v. [[Fin v]]) [2, 3, 4, 5, 6, 7, 8, 9, 10, 11, 12])\<rparr>"

definition ex_soda_nan :: soda where
  "ex_soda_nan =
     \<lparr>max_residue_magnitude = 10, conv_offset = ex_conv_offset_nan,
      dcn = zero_net3 (dcn_rule 2 1 1)\<rparr>"

definition ex_feat :: t4 where
  "ex_feat = \<lparr>shape = [1, 1, 1, 1], elems = [[[[Fin 0]]]]\<rparr>"

definition ex_flow_1 :: t4 where
  "ex_flow_1 = \<lparr>shape = [1, 2, 1, 1], elems = [[[[Fin 13]], [[Fin 14]]]]\<rparr>"

definition ex_flow_2 :: t4 where
  "ex_flow_2 = \<lparr>shape = [1, 2, 1, 1], elems = [[[[Fin 15]], [[Fin 16]]]]\<rparr>"

section \<open>Laws of the result type\<close>

lemma rbind_ret [simp]: "rbind (ret x) f = f x"
  by (simp add: rbind_def ret_def split: prod.splits)

lemma rbind_raise [simp]: "rbind (raise e) f = raise e"
  by (simp add: rbind_def raise_def)

lemma rbind_Inl [simp]: "rbind (l, Inl e) f = (l, Inl e)"
  by (simp add: rbind_def)

lemma rbind_Inr [simp]: "rbind (l, Inr x) f = (l @ fst (f x), snd (f x))"
  by (simp add: rbind_def split: prod.splits)

lemma returns_ret [simp]: "returns (ret x) y \<longleftrightarrow> y = x"
  by (auto simp: returns_def outcome_def ret_def)

lemma returns_raise [simp]: "\<not> returns (raise e) y"
  by (simp add: returns_def outcome_def raise_def)

lemma returns_rbind [simp]: "returns (rbind m f) y \<longleftrightarrow> (\<exists>x. returns m x \<and> returns (f x) y)"
  by (cases m) (auto simp: returns_def outcome_def rbind_def split: sum.splits prod.splits)

lemma returns_lift [simp]: "returns (lift r) y \<longleftrightarrow> r = Inr y"
  by (simp add: returns_def outcome_def lift_def)

lemma returns_emit [simp]: "returns (emit ev) u"
  by (simp add: returns_def outcome_def emit_def)

lemma returns_fun: "returns m x \<Longrightarrow> returns m y \<Longrightarrow> x = y"
  by (simp add: returns_def)

lemma fails_iff: "fails m \<longleftrightarrow> (\<forall>x. \<not> returns m x)"
  by (cases "outcome m") (auto simp: fails_def returns_def)

lemma events_ret [simp]: "events (ret x) = []"
  by (simp add: events_def ret_def)

lemma events_raise [simp]: "events (raise e) = []"
  by (simp add: events_def raise_def)

lemma events_emit [simp]: "events (emit ev) = [ev]"
  by (simp add: events_def emit_def)

lemma events_lift [simp]: "events (lift r) = []"
  by (simp add: events_def lift_def)

lemma events_rbind:
  "events (rbind m f) = events m @ (case outcome m of Inl e \<Rightarrow> [] | Inr x \<Rightarrow> events (f x))"
  by (cases m) (auto simp: events_def outcome_def rbind_def split: sum.splits prod.splits)

lemma set_events_rbind:
  "ev \<in> set (events (rbind m f)) \<Longrightarrow>
   ev \<in> set (events m) \<or> (\<exists>x. returns m x \<and> ev \<in> set (events (f x)))"
  by (auto simp: events_rbind returns_def split: sum.splits)

lemma quiet_ret [simp]: "quiet (ret x)"
  by (simp add: quiet_def)

lemma quiet_raise [simp]: "quiet (raise e)"
  by (simp add: quiet_def)

lemma quiet_lift [simp]: "quiet (lift r)"
  by (simp add: quiet_def)

lemma quiet_rbind: "quiet m \<Longrightarrow> (\<And>x. returns m x \<Longrightarrow> quiet (f x)) \<Longrightarrow> quiet (rbind m f)"
  by (auto simp: quiet_def events_rbind returns_def split: sum.splits)

lemma quiet_events_rbind: "quiet m \<Longrightarrow> returns m x \<Longrightarrow> events (rbind m f) = events (f x)"
  by (simp add: quiet_def events_rbind returns_def)

lemma quiet_fails_rbind: "quiet m \<Longrightarrow> fails m \<Longrightarrow> events (rbind m f) = []"
  by (cases "outcome m") (auto simp: quiet_def events_rbind fails_def)

section \<open>The primitives emit no event\<close>

named_theorems quiet_intros

lemma quiet_py_index [quiet_intros]: "quiet (py_index xs i)"
  by (simp add: py_index_def Let_def)

lemma quiet_pop0 [quiet_intros]: "quiet (pop0 xs)"
  by (simp add: pop0_def split: list.splits)

lemma quiet_dict_get [quiet_intros]: "quiet (dict_get d k)"
  by (simp add: dict_get_def split: option.splits)

lemma quiet_view54 [quiet_intros]: "quiet (view54 dims x)"
  by (simp add: view54_def split: sum.splits list.splits)

lemma quiet_view45 [quiet_intros]: "quiet (view45 dims x)"
  by (simp add: view45_def split: sum.splits list.splits)

lemma quiet_slice_butlast1 [quiet_intros]: "quiet (slice_butlast1 x)"
  by (simp add: slice_butlast1_def split: list.splits)

lemma quiet_slice_tl1 [quiet_intros]: "quiet (slice_tl1 x)"
  by (simp add: slice_tl1_def split: list.splits)

lemma quiet_select1 [quiet_intros]: "quiet (select1 i x)"
  by (simp add: select1_def Let_def split: list.splits)

lemma quiet_flip1 [quiet_intros]: "quiet (flip1 x)"
  by (simp add: flip1_def split: list.splits)

lemma quiet_chunk1 [quiet_intros]: "quiet (chunk1 k x)"
  by (simp add: chunk1_def Let_def split: list.splits)

lemma quiet_cat1 [quiet_intros]: "quiet (cat1 xs)"
  by (simp add: cat1_def split: list.splits)

lemma quiet_stack1 [quiet_intros]: "quiet (stack1 xs)"
  by (simp add: stack1_def split: list.splits)

lemma quiet_add4 [quiet_intros]: "quiet (add4 x y)"
  by (simp add: add4_def split: sum.splits)

lemma quiet_iadd4 [quiet_intros]: "quiet (iadd4 x y)"
  by (simp add: iadd4_def split: sum.splits)

lemma quiet_sub5 [quiet_intros]: "quiet (sub5 x y)"
  by (simp add: sub5_def split: sum.splits)

lemma quiet_zeros_like4 [quiet_intros]: "quiet (zeros_like4 x)"
  by (simp add: zeros_like4_def split: list.splits)

lemma quiet_permute0231 [quiet_intros]: "quiet (permute0231 x)"
  by (simp add: permute0231_def split: list.splits)

lemma quiet_repeat1 [quiet_intros]: "quiet (repeat1 k x)"
  by (simp add: repeat1_def split: list.splits)

lemma quiet_net_result [quiet_intros]: "quiet (net_result n r xs)"
  by (simp add: net_result_def split: sum.splits list.splits)

lemma quiet_apply_net1 [quiet_intros]: "quiet (apply_net1 f x)"
  by (simp add: apply_net1_def quiet_net_result split: list.splits)

lemma quiet_apply_net2 [quiet_intros]: "quiet (apply_net2 f x y)"
  by (simp add: apply_net2_def quiet_net_result split: list.splits)

lemma quiet_apply_net3 [quiet_intros]: "quiet (apply_net3 f x y z)"
  by (simp add: apply_net3_def quiet_net_result split: list.splits)

lemma quiet_apply_netF [quiet_intros]: "quiet (apply_netF f x)"
  by (simp add: apply_netF_def quiet_net_result split: list.splits)

lemma quiet_cuda [quiet_intros]: "quiet (cuda L x)"
  by (simp add: cuda_def)

lemma quiet_cuda_if [quiet_intros]: "quiet (cuda_if L c x)"
  by (simp add: cuda_if_def quiet_cuda)

lemma quiet_unpack2 [quiet_intros]: "quiet (unpack2 xs)"
  by (simp add: unpack2_def split: list.splits)

lemma quiet_unpack3 [quiet_intros]: "quiet (unpack3 xs)"
  by (simp add: unpack3_def split: list.splits)

lemma quiet_get_cpu_cache [quiet_intros]: "quiet (get_cpu_cache m)"
  by (simp add: get_cpu_cache_def split: option.splits)

lemma quiet_get_attr [quiet_intros]: "quiet (get_attr name v)"
  by (simp add: get_attr_def split: option.splits)

lemma quiet_resolve [quiet_intros]: "quiet (resolve name)"
  by (simp add: resolve_def)

lemma quiet_mapM: "(\<And>x. x \<in> set xs \<Longrightarrow> quiet (f x)) \<Longrightarrow> quiet (mapM f xs)"
  by (induction xs) (auto intro!: quiet_rbind)

lemma quiet_soda_residual [quiet_intros]: "quiet (soda_residual al e f1 f2)"
  unfolding soda_residual_def
  by (auto intro!: quiet_rbind quiet_intros split: prod.splits)

lemma quiet_add_flow [quiet_intros]: "quiet (add_flow offset flow)"
  unfolding add_flow_def
  by (simp split: list.splits) (intro allI impI quiet_rbind quiet_intros)

lemma quiet_soda_offsets [quiet_intros]: "quiet (soda_offsets al e f1 f2)"
  unfolding soda_offsets_def
  by (auto intro!: quiet_rbind quiet_intros split: prod.splits)

lemma quiet_soda_forward [quiet_intros]: "quiet (soda_forward al x e f1 f2)"
  unfolding soda_forward_def
  by (auto intro!: quiet_rbind quiet_intros split: prod.splits)

lemma init_ex: "init (ex_library cu) mid 7 10 True None ccl =
   ((if cu then [] else [Warn alignment_warning]), Inr (ex_model cu mid ccl))"
  by (simp add: init_def init_feat_extract_def resolve_def module_names_def ex_library_def
       ex_model_def lift_def enumerate_from_def emit_def ret_def Let_def mult_2)

lemma init_high: "outcome (init L mid nb mrm False sp ccl) =
   (case mk_SpyNet L sp of Inl e \<Rightarrow> Inl e | Inr spy \<Rightarrow> Inl (NameError ''MultiScaleAttention''))"
  by (simp add: init_def init_feat_extract_def resolve_def module_names_def lift_def outcome_def raise_def ret_def split: sum.splits)

section \<open>The mirror check\<close>

lemma bshape_rev_same: "bshape_rev s s = Inr s"
  by (induction s) auto

lemma bshape_same [simp]: "bshape s s = Inr s"
  by (simp add: bshape_def bshape_rev_same)

lemma chunk1_two_even:
  assumes "shape x = n # t # r" "even t" "0 < t"
  shows "chunk1 2 x =
     ret [\<lparr>shape = n # t div 2 # r, elems = map (take (t div 2)) (elems x)\<rparr>,
          \<lparr>shape = n # t div 2 # r,
           elems = map (\<lambda>s. take (t div 2) (drop (t div 2) s)) (elems x)\<rparr>]"
proof -
  from assms obtain k where k: "t = 2 * k" "0 < k" by (auto elim!: evenE)
  have cnt: "(3 * k - Suc 0) div k = 2"
    using k by (intro div_nat_eqI) auto
  have upt2: "[0..<2] = [0, Suc 0]" by (simp add: upt_rec)
  show ?thesis
    using assms k unfolding chunk1_def
    by (simp add: Let_def cnt upt2 chunk_elems_def del: upt_rec_numeral)
qed

lemma chunk1_two_zero:
  assumes "shape x = n # 0 # r"
  shows "chunk1 2 x = ret [x, x]"
  using assms unfolding chunk1_def by (simp add: Let_def numeral_2_eq_2)

lemma check_rank2:
  assumes "shape lqs = n # t # r"
  shows "\<exists>b. \<forall>m. check_if_mirror_extended m lqs =
           ret (if b then m\<lparr>is_mirror_extended := True\<rparr> else m)"
proof (cases "even t")
  case False
  then have "\<forall>m. check_if_mirror_extended m lqs = ret (if False then m\<lparr>is_mirror_extended := True\<rparr> else m)"
    using assms by (simp add: check_if_mirror_extended_def even_iff_mod_2_eq_zero)
  then show ?thesis by blast
next
  case True
  show ?thesis
  proof (cases "t = 0")
    case False
    then show ?thesis using assms True
      by (simp add: check_if_mirror_extended_def chunk1_two_even
          unpack2_def flip1_def sub5_def even_iff_mod_2_eq_zero) metis
  next
    case t0: True
    then show ?thesis using assms True
      by (simp add: check_if_mirror_extended_def chunk1_two_zero
          unpack2_def flip1_def sub5_def) metis
  qed
qed

lemma check_low_rank:
  assumes "length (shape lqs) < 2"
  shows "check_if_mirror_extended m lqs = raise (IndexError ''dimension out of range'')"
proof (cases "shape lqs")
  case Nil
  then show ?thesis by (simp add: check_if_mirror_extended_def)
next
  case (Cons a s)
  then have "s = []" using assms by simp
  then show ?thesis using Cons by (simp add: check_if_mirror_extended_def)
qed

section \<open>forward and the attributes it writes\<close>

lemma downsample_attrs [simp]:
  "downsample L (m\<lparr>cpu_cache := x\<rparr>) = downsample L m"
  "downsample L (m\<lparr>is_mirror_extended := y\<rparr>) = downsample L m"
  by (simp_all add: downsample_def fun_eq_iff)

lemma forward_rank5:
  assumes "shape lqs = [n, t, c, h, w]"
  obtains b where
    "\<And>m. check_if_mirror_extended m lqs =
       ret (if b then m\<lparr>is_mirror_extended := True\<rparr> else m)"
    "\<And>m. forward L m lqs =
       (let m1 = m\<lparr>cpu_cache := Some (cpu_cache_length m < int t)\<rparr>;
            m2 = (if b then m1\<lparr>is_mirror_extended := True\<rparr> else m1)
        in case downsample L m lqs n t c h w of
             (l, Inl e) \<Rightarrow> (m1, (l, Inl e))
           | (l, Inr lqs_downsample) \<Rightarrow>
               (m2, rbind (l, Inr ())
                      (\<lambda>_. rbind (forward_feats L m2 lqs lqs_downsample n t c h w) (\<lambda>fs.
                           rbind (upsample L m2 lqs fs) (\<lambda>(out, fs'). ret out)))))"
proof -
  from check_rank2 [OF assms] obtain b where
    b: "\<And>m. check_if_mirror_extended m lqs = ret (if b then m\<lparr>is_mirror_extended := True\<rparr> else m)"
    by blast
  have "forward L m lqs =
       (let m1 = m\<lparr>cpu_cache := Some (cpu_cache_length m < int t)\<rparr>;
            m2 = (if b then m1\<lparr>is_mirror_extended := True\<rparr> else m1)
        in case downsample L m lqs n t c h w of
             (l, Inl e) \<Rightarrow> (m1, (l, Inl e))
           | (l, Inr lqs_downsample) \<Rightarrow>
               (m2, rbind (l, Inr ())
                      (\<lambda>_. rbind (forward_feats L m2 lqs lqs_downsample n t c h w) (\<lambda>fs.
                           rbind (upsample L m2 lqs fs) (\<lambda>(out, fs'). ret out)))))" for m
    unfolding forward_def using assms
    by (simp add: b Let_def ret_def split: prod.splits sum.splits)
  then show ?thesis using that b by blast
qed

lemma forward_other_rank:
  assumes "\<not> (\<exists>n t c h w. shape lqs = [n, t, c, h, w])"
  shows "forward L m lqs = (m, raise (ValueError ''wrong number of values to unpack''))"
  using assms unfolding forward_def by (auto split: list.splits)

section \<open>Events of the propagation and of the reconstruction\<close>

lemma events_subset_rbind:
  assumes "set (events m) \<subseteq> A" "\<And>x. returns m x \<Longrightarrow> set (events (f x)) \<subseteq> A"
  shows "set (events (rbind m f)) \<subseteq> A"
proof (cases "outcome m")
  case (Inl e)
  then show ?thesis using assms(1) by (simp add: events_rbind)
next
  case (Inr x)
  then show ?thesis using assms(1) assms(2) [of x] by (simp add: events_rbind returns_def)
qed

lemma quiet_subset: "quiet m \<Longrightarrow> set (events m) \<subseteq> A"
  by (simp add: quiet_def)

lemma quiet_second_order [quiet_intros]:
  "quiet (second_order L cache fs flows module_name flow_idx i flow_n1)"
  unfolding second_order_def
  by (auto intro!: quiet_rbind quiet_intros split: prod.splits)

lemma quiet_last_feats [quiet_intros]: "quiet (last_feats fs module_name idx)"
  unfolding last_feats_def by (auto intro!: quiet_mapM quiet_intros)

lemma quiet_pop_all [quiet_intros]: "quiet (pop_all fs)"
  by (induction fs rule: pop_all.induct) (auto intro!: quiet_rbind quiet_intros split: prod.splits)

lemma quiet_reconstruct [quiet_intros]: "quiet (reconstruct m x)"
  unfolding reconstruct_def by (auto intro!: quiet_rbind quiet_intros)

lemma quiet_up_step [quiet_intros]: "quiet (up_step L m lqs mapping_idx i st)"
  unfolding up_step_def
  by (auto intro!: quiet_rbind quiet_intros split: prod.splits)

lemma quiet_up_loop [quiet_intros]: "quiet (up_loop L m lqs mapping_idx is st)"
  by (induction "is" arbitrary: st) (auto intro!: quiet_rbind quiet_intros)

lemma quiet_upsample [quiet_intros]: "quiet (upsample L m lqs fs)"
  unfolding upsample_def
  by (auto intro!: quiet_rbind quiet_intros split: prod.splits list.splits)

lemma quiet_spatial_feature [quiet_intros]: "quiet (spatial_feature L m lqs c h w)"
  unfolding spatial_feature_def by (auto intro!: quiet_rbind quiet_intros)

lemma quiet_spatial_features [quiet_intros]: "quiet (spatial_features L m cache lqs n t c h w)"
  unfolding spatial_features_def
  by (auto intro!: quiet_rbind quiet_intros quiet_mapM split: prod.splits)

lemma quiet_assert_low_res [quiet_intros]: "quiet (assert_low_res x h w)"
  unfolding assert_low_res_def by (auto split: list.splits)

lemma quiet_downsample [quiet_intros]: "quiet (downsample L m lqs n t c h w)"
  unfolding downsample_def by (auto intro!: quiet_rbind quiet_intros)

lemma events_subset_case_prod:
  "(\<And>a b. set (events (f a b)) \<subseteq> A) \<Longrightarrow> set (events (case_prod f p)) \<subseteq> A"
  by (cases p) simp

lemma events_subset_if:
  "(c \<Longrightarrow> set (events x) \<subseteq> A) \<Longrightarrow> (\<not> c \<Longrightarrow> set (events y) \<subseteq> A) \<Longrightarrow>
   set (events (if c then x else y)) \<subseteq> A"
  by simp

lemmas events_subset_intros = events_subset_rbind events_subset_case_prod events_subset_if

lemma events_align_stage:
  "set (events (align_stage L m cache fs flows module_name flow_idx i feat_current feat_prop))
     \<subseteq> {ev. ev = Align_call module_name i \<and> 0 < i \<and> is_with_alignment m}"
  unfolding align_stage_def
  by (rule events_subset_intros | (rule quiet_subset, rule quiet_intros) | simp)+

lemma align_stage_skipped:
  "i = 0 \<or> \<not> is_with_alignment m \<Longrightarrow>
   align_stage L m cache fs flows module_name flow_idx i feat_current feat_prop = ret feat_prop"
  unfolding align_stage_def by auto

lemma events_fuse_stage:
  "set (events (fuse_stage L m cache fs module_name idx i feat_current feat_prop))
     \<subseteq> {Fusion_call module_name i feat_prop}"
  unfolding fuse_stage_def
  by (rule events_subset_intros | (rule quiet_subset, rule quiet_intros) | simp)+

lemma returns_cuda_if: "returns (cuda_if L c x) y \<Longrightarrow> y = x"
  by (auto simp: cuda_if_def cuda_def split: if_splits)

lemma events_prop_step:
  "set (events (prop_step L m flows name mi fi (i, idx) (fs, fp)))
     \<subseteq> {ev. (ev = Align_call name i \<and> 0 < i \<and> is_with_alignment m) \<or>
             (\<exists>fp'. ev = Fusion_call name i fp' \<and> (i = 0 \<longrightarrow> fp' = fp))}"
  (is "_ \<subseteq> ?A")
  unfolding prop_step_def prod.case
proof ((rule events_subset_rbind, (rule quiet_subset, rule quiet_intros))+, rule events_subset_rbind)
  fix sp mia fc cache fc' fp'
  assume c: "returns (cuda_if L cache fp) fp'"
  then have fp': "fp' = fp" by (rule returns_cuda_if)
  show "set (events (align_stage L m cache fs flows name fi i fc' fp')) \<subseteq> ?A"
    using events_align_stage [of L m cache fs flows name fi i fc' fp'] by blast
  fix fp2
  assume a: "returns (align_stage L m cache fs flows name fi i fc' fp') fp2"
  have "i = 0 \<Longrightarrow> fp2 = fp"
    using a fp' by (simp add: align_stage_skipped)
  then show "set (events (fuse_stage L m cache fs name idx i fc' fp2)) \<subseteq> ?A"
    using events_fuse_stage [of L m cache fs name idx i fc' fp2] by blast
qed

lemma enumerate_from_Cons:
  "enumerate_from k (x # xs) = (k, x) # enumerate_from (Suc k) xs"
proof -
  have "[k..<k + length (x # xs)] = k # [Suc k..<Suc k + length xs]"
    by (simp add: upt_conv_Cons del: upt_Suc)
  then show ?thesis by (simp add: enumerate_from_def del: upt_Suc)
qed

lemma enumerate_from_Nil [simp]: "enumerate_from k [] = []"
  by (simp add: enumerate_from_def)

lemma events_prop_loop:
  "set (events (prop_loop L m flows name mi fi (enumerate_from k idxs) (fs, fp)))
     \<subseteq> {ev. (\<exists>i. ev = Align_call name i \<and> 0 < i \<and> is_with_alignment m) \<or>
             (\<exists>i fp'. ev = Fusion_call name i fp' \<and> k \<le> i \<and> (i = 0 \<longrightarrow> fp' = fp))}"
proof (induction idxs arbitrary: k fs fp)
  case Nil
  then show ?case by simp
next
  case (Cons idx idxs)
  let ?A = "\<lambda>k fp. {ev. (\<exists>i. ev = Align_call name i \<and> 0 < i \<and> is_with_alignment m) \<or>
             (\<exists>i fp'. ev = Fusion_call name i fp' \<and> k \<le> i \<and> (i = 0 \<longrightarrow> fp' = fp))}"
  show ?case
    unfolding enumerate_from_Cons prop_loop.simps
  proof (rule events_subset_rbind)
    have "{ev. (ev = Align_call name k \<and> 0 < k \<and> is_with_alignment m) \<or>
             (\<exists>fp'. ev = Fusion_call name k fp' \<and> (k = 0 \<longrightarrow> fp' = fp))} \<subseteq> ?A k fp"
      by auto
    then show "set (events (prop_step L m flows name mi fi (k, idx) (fs, fp))) \<subseteq> ?A k fp"
      by (rule subset_trans [OF events_prop_step])
  next
    fix st :: "feats \<times> t4"
    obtain fs' fp' where st: "st = (fs', fp')" by (cases st)
    have "?A (Suc k) fp' \<subseteq> ?A k fp" by auto
    then show "set (events (prop_loop L m flows name mi fi (enumerate_from (Suc k) idxs) st))
      \<subseteq> ?A k fp"
      unfolding st by (rule subset_trans [OF Cons.IH])
  qed
qed

lemma propagate_other_rank:
  assumes "\<not> (\<exists>n t c h w. shape flows = [n, t, c, h, w])"
  shows "propagate L m fs flows name = raise (ValueError ''wrong number of values to unpack'')"
  using assms unfolding propagate_def by (auto split: list.splits)

lemma events_propagate:
  assumes s: "shape flows = [n, t, c, h, w]"
  shows "set (events (propagate L m fs flows name))
     \<subseteq> {ev. (\<exists>i. ev = Align_call name i \<and> 0 < i \<and> is_with_alignment m) \<or>
             (\<exists>i fp'. ev = Fusion_call name i fp' \<and>
                (i = 0 \<longrightarrow> fp' = zeros4 n (mid_channels m) h w))}"
  (is "_ \<subseteq> ?A")
proof -
  have sub: "{ev. (\<exists>i. ev = Align_call name i \<and> 0 < i \<and> is_with_alignment m) \<or>
             (\<exists>i fp'. ev = Fusion_call name i fp' \<and> 0 \<le> i \<and>
                (i = 0 \<longrightarrow> fp' = zeros4 n (mid_channels m) h w))} \<subseteq> ?A"
    by auto
  have loop: "set (events (prop_loop L m flows name mi fi (enumerate_from 0 idxs)
                    (fs, zeros4 n (mid_channels m) h w))) \<subseteq> ?A" for mi fi idxs
    using events_prop_loop [of L m flows name mi fi 0 idxs fs "zeros4 n (mid_channels m) h w"] sub
    by (rule subset_trans)
  have r: "set (events (ret x)) \<subseteq> ?A" for x :: feats
    by simp
  show ?thesis
    unfolding propagate_def s list.case Let_def
    by (rule events_subset_intros loop r | (rule quiet_subset, rule quiet_intros))+
qed

lemma spynet_calls_rbind:
  "spynet_calls (events (rbind m f)) =
     spynet_calls (events m) +
     (case outcome m of Inl e \<Rightarrow> 0 | Inr x \<Rightarrow> spynet_calls (events (f x)))"
  by (simp add: events_rbind spynet_calls_def split: sum.splits)

lemma spynet_calls_quiet: "quiet m \<Longrightarrow> spynet_calls (events m) = 0"
  by (simp add: quiet_def spynet_calls_def)

lemma spynet_calls_propagate: "spynet_calls (events (propagate L m fs flows name)) = 0"
proof (cases "\<exists>n t c h w. shape flows = [n, t, c, h, w]")
  case False
  then show ?thesis by (simp add: propagate_other_rank spynet_calls_def)
next
  case True
  then obtain n t c h w where s: "shape flows = [n, t, c, h, w]" by blast
  have "\<forall>ev \<in> set (events (propagate L m fs flows name)). \<not> is_spynet_call ev"
    using events_propagate [OF s, of L m fs name] by auto
  then show ?thesis by (simp add: spynet_calls_def filter_empty_conv)
qed

lemma spynet_calls_propagate_all:
  "spynet_calls (events (propagate_all L m fs ff fb)) = 0"
  unfolding propagate_all_def
  by (simp add: spynet_calls_rbind spynet_calls_propagate split: sum.splits)

lemma outcome_emit [simp]: "outcome (emit ev) = Inr ()"
  by (simp add: outcome_def emit_def)

lemma call_spynet_events [simp]: "events (call_spynet m a b) = [Spynet_call a b]"
  unfolding call_spynet_def
  by (simp add: events_rbind quiet_apply_net2 [unfolded quiet_def])

lemma spynet_calls_call_spynet [simp]: "spynet_calls (events (call_spynet m a b)) = 1"
  by (simp add: spynet_calls_def)

lemma spynet_calls_Nil [simp]: "spynet_calls [] = 0"
  by (simp add: spynet_calls_def)

lemma spynet_calls_Cons [simp]:
  "spynet_calls (ev # l) = (if is_spynet_call ev then 1 else 0) + spynet_calls l"
  by (simp add: spynet_calls_def)

lemma spynet_calls_append [simp]:
  "spynet_calls (l @ l') = spynet_calls l + spynet_calls l'"
  by (simp add: spynet_calls_def)

lemma spynet_calls_compute_flow:
  "is_mirror_extended m \<Longrightarrow> spynet_calls (events (compute_flow m lqs)) \<le> 1"
  unfolding compute_flow_def
  by (auto simp: spynet_calls_rbind spynet_calls_quiet quiet_intros
      split: list.splits sum.splits prod.splits)

lemma compute_flow_mirrored:
  "is_mirror_extended m \<Longrightarrow> returns (compute_flow m lqs) (ff, fb) \<Longrightarrow> returns (flip1 fb) ff"
  unfolding compute_flow_def by (auto split: list.splits)

section \<open>A palindrome in time passes the mirror check\<close>

lemma bzip_self: "bzip f xs xs = map (\<lambda>x. f x x) xs"
  by (simp add: bzip_def zip_same_conv_map)

lemma ew5_self: "ew5 f A A = map (map (map (map (map (\<lambda>v. f v v))))) A"
  by (simp add: ew5_def ew4_def bzip_self)

lemma flat5_map: "flat5 (map (map (map (map (map f)))) A) = map f (flat5 A)"
  by (simp add: flat5_def flat4_def flat3_def map_concat comp_def)

lemma fsub_self: "fsub v v = (if is_fin v then Fin 0 else NaN)"
  by (cases v) (simp_all add: fsub_def)

lemma fnorm_eq_zero_iff: "fnorm vs = Fin 0 \<longleftrightarrow> (\<forall>v \<in> set vs. v = Fin 0)"
proof (cases "NaN \<in> set vs \<or> PInf \<in> set vs \<or> NInf \<in> set vs")
  case True
  then show ?thesis by (auto simp: fnorm_def)
next
  case False
  let ?sq = "\<lambda>v. case v of Fin x \<Rightarrow> x * x | _ \<Rightarrow> 0"
  have fin: "\<exists>x. v = Fin x" if "v \<in> set vs" for v
  proof (cases v)
  qed (use that False in auto)
  have nn: "\<forall>y \<in> set (map ?sq vs). 0 \<le> y"
    by (auto split: fval.splits)
  have "sum_list (map ?sq vs) = 0 \<longleftrightarrow> (\<forall>y \<in> set (map ?sq vs). y = 0)"
    using nn by (intro sum_list_nonneg_eq_0_iff) auto
  also have "\<dots> \<longleftrightarrow> (\<forall>v \<in> set vs. v = Fin 0)"
    using fin by (auto split: fval.splits)
  finally show ?thesis using False by (simp add: fnorm_def)
qed

lemma norm5_diff_self:
  "norm5 \<lparr>shape = s, elems = ew5 fsub A A\<rparr> = Fin 0 \<longleftrightarrow> list_all is_fin (flat5 A)"
  by (auto simp: norm5_def ew5_self flat5_map fnorm_eq_zero_iff fsub_self list_all_iff
      split: if_splits)

lemma set_flat4_append: "set (flat4 (xs @ ys)) = set (flat4 xs) \<union> set (flat4 ys)"
  by (simp add: flat4_def)

lemma set_flat4_rev: "set (flat4 (rev xs)) = set (flat4 xs)"
  by (auto simp: flat4_def)

lemma set_flat5_half:
  assumes "\<forall>x \<in> set X. drop k x = rev (take k x)"
  shows "set (flat5 (map (take k) X)) = set (flat5 X)"
proof -
  have "set (flat4 (take k x)) = set (flat4 x)" if "x \<in> set X" for x
  proof -
    have "set (flat4 x) = set (flat4 (take k x @ drop k x))" by simp
    also have "\<dots> = set (flat4 (take k x))"
      using assms that by (simp add: set_flat4_append set_flat4_rev)
    finally show ?thesis by simp
  qed
  then show ?thesis by (auto simp: flat5_def)
qed

text \<open>
  On a palindrome in time the check sets the flag exactly when every value is finite.
\<close>

lemma check_palindrome_iff:
  assumes s: "shape lqs = n # t # r" and e: "even t"
    and p: "\<forall>s \<in> set (elems lqs). length s = t \<and> drop (t div 2) s = rev (take (t div 2) s)"
  shows "check_if_mirror_extended m lqs =
     ret (if finite5 lqs then m\<lparr>is_mirror_extended := True\<rparr> else m)"
proof (cases "t = 0")
  case True
  have eq: "map rev (elems lqs) = elems lqs"
    using p True by (intro map_idI) auto
  show ?thesis
    using s True
    by (simp add: check_if_mirror_extended_def chunk1_two_zero unpack2_def flip1_def sub5_def
        norm5_diff_self eq finite5_def)
next
  case False
  have "rev (take (t div 2) (drop (t div 2) x)) = take (t div 2) x" if "x \<in> set (elems lqs)" for x
  proof -
    from p that have l: "length x = t" and d: "drop (t div 2) x = rev (take (t div 2) x)"
      by auto
    have "take (t div 2) (drop (t div 2) x) = drop (t div 2) x"
      using l e by (intro take_all) (auto elim!: evenE)
    then show ?thesis using d by simp
  qed
  then have eq: "map (rev \<circ> (\<lambda>s. take (t div 2) (drop (t div 2) s))) (elems lqs) =
             map (take (t div 2)) (elems lqs)"
    by simp
  have h: "list_all is_fin (flat5 (map (take (t div 2)) (elems lqs))) = finite5 lqs"
    using set_flat5_half [of "elems lqs" "t div 2"] p by (simp add: finite5_def list_all_iff)
  show ?thesis
    using s e False
    by (simp add: check_if_mirror_extended_def chunk1_two_even unpack2_def flip1_def sub5_def
        norm5_diff_self even_iff_mod_2_eq_zero eq h)
qed

lemma check_palindrome:
  assumes s: "shape lqs = n # t # r" and e: "even t"
    and p: "\<forall>s \<in> set (elems lqs). length s = t \<and> drop (t div 2) s = rev (take (t div 2) s)"
    and f: "finite5 lqs"
  shows "check_if_mirror_extended m lqs = ret (m\<lparr>is_mirror_extended := True\<rparr>)"
  using check_palindrome_iff [OF s e p] f by simp

section \<open>forward: the calls of the flow estimator\<close>

lemma spynet_calls_forward_feats:
  "is_mirror_extended m \<Longrightarrow> spynet_calls (events (forward_feats L m lqs d n t c h w)) \<le> 1"
  unfolding forward_feats_def
  using spynet_calls_compute_flow [of m d]
  by (auto simp: spynet_calls_rbind spynet_calls_quiet quiet_intros spynet_calls_propagate_all
      split: sum.splits prod.splits)

lemma spynet_calls_forward:
  assumes "is_mirror_extended m \<or>
           (\<exists>m'. returns (check_if_mirror_extended m lqs) m' \<and> is_mirror_extended m')"
  shows "spynet_calls (events (snd (forward L m lqs))) \<le> 1"
proof (cases "\<exists>n t c h w. shape lqs = [n, t, c, h, w]")
  case False
  then show ?thesis by (simp add: forward_other_rank)
next
  case True
  then obtain n t c h w where s: "shape lqs = [n, t, c, h, w]" by blast
  from forward_rank5 [OF s, of L] obtain b where
    chk: "\<And>m. check_if_mirror_extended m lqs =
       ret (if b then m\<lparr>is_mirror_extended := True\<rparr> else m)" and
    f: "\<And>m. forward L m lqs =
       (let m1 = m\<lparr>cpu_cache := Some (cpu_cache_length m < int t)\<rparr>;
            m2 = (if b then m1\<lparr>is_mirror_extended := True\<rparr> else m1)
        in case downsample L m lqs n t c h w of
             (l, Inl e) \<Rightarrow> (m1, (l, Inl e))
           | (l, Inr lqs_downsample) \<Rightarrow>
               (m2, rbind (l, Inr ())
                      (\<lambda>_. rbind (forward_feats L m2 lqs lqs_downsample n t c h w) (\<lambda>fs.
                           rbind (upsample L m2 lqs fs) (\<lambda>(out, fs'). ret out)))))"
    by blast
  obtain l r where d: "downsample L m lqs n t c h w = (l, r)" by (cases "downsample L m lqs n t c h w")
  have l: "l = []"
    using quiet_downsample [of L m lqs n t c h w] d by (simp add: quiet_def events_def)
  let ?m1 = "m\<lparr>cpu_cache := Some (cpu_cache_length m < int t)\<rparr>"
  let ?m2 = "if b then ?m1\<lparr>is_mirror_extended := True\<rparr> else ?m1"
  have "b \<or> is_mirror_extended m"
    using assms by (auto simp: chk split: if_splits)
  then have fl: "is_mirror_extended ?m2" by auto
  show ?thesis
  proof (cases r)
    case (Inl e)
    then show ?thesis using d l by (simp add: f Let_def events_def)
  next
    case (Inr x)
    have "spynet_calls (events (rbind (forward_feats L ?m2 lqs x n t c h w) (\<lambda>fs.
                           rbind (upsample L ?m2 lqs fs) (\<lambda>(out, fs'). ret out)))) \<le> 1"
      using spynet_calls_forward_feats [OF fl, of L lqs x n t c h w]
      by (auto simp: spynet_calls_rbind spynet_calls_quiet quiet_intros
          split: sum.splits prod.splits)
    then show ?thesis using d l Inr by (simp add: f Let_def events_def)
  qed
qed

lemma rbind_assoc: "rbind (rbind m f) g = rbind m (\<lambda>x. rbind (f x) g)"
  by (cases m) (auto simp: rbind_def split: sum.splits prod.splits)

lemma returns_emit_rbind [simp]: "returns (rbind (emit ev) f) y \<longleftrightarrow> returns (f ()) y"
  by simp

lemma events_emit_rbind [simp]: "events (rbind (emit ev) f) = ev # events (f ())"
  by (simp add: events_rbind)

lemma outcome_emit_rbind [simp]: "outcome (rbind (emit ev) f) = outcome (f ())"
  by (simp add: outcome_def emit_def)

lemma outcome_ret [simp]: "outcome (ret x) = Inr x"
  by (simp add: outcome_def ret_def)

lemma outcome_raise [simp]: "outcome (raise e) = Inl e"
  by (simp add: outcome_def raise_def)

lemmas tensor_defs =
  py_index_def pop0_def dict_get_def numel_def infer_size_def
  view54_def view45_def slice_butlast1_def slice_tl1_def select1_def flip1_def chunk1_def
  cat1_def stack1_def bshape_def add4_def iadd4_def sub5_def zeros4_def zeros_like4_def
  permute0231_def repeat1_def map4_def net_result_def apply_net1_def apply_net2_def
  apply_net3_def apply_netF_def cuda_def cuda_if_def unpack2_def unpack3_def

lemma oshape_zero_net [simp]:
  "oshape (zero_net1 r) = r" "oshape (zero_net2 r) = r" "oshape (zero_net3 r) = r"
  "oshape (zero_netF r) = r"
  by (simp_all add: zero_net1_def zero_net2_def zero_net3_def zero_netF_def)

lemma ex_model_simps [simp]:
  "mid_channels (ex_model cu mid ccl) = mid"
  "is_low_res_input (ex_model cu mid ccl) = True"
  "cpu_cache_length (ex_model cu mid ccl) = ccl"
  "spynet (ex_model cu mid ccl) = zero_net2 spynet_rule"
  "feat_extract1 (ex_model cu mid ccl) = Some (zero_net1 (channel_rule 3 mid))"
  "feat_extract2 (ex_model cu mid ccl) = Some (zero_net1 (channel_rule 3 mid))"
  "is_mirror_extended (ex_model cu mid ccl) = False"
  "is_with_alignment (ex_model cu mid ccl) = cu"
  "cpu_cache (ex_model cu mid ccl) = None"
  by (simp_all add: ex_model_def ex_library_def Let_def)

lemma set_flat3_const_image:
  "0 < c \<Longrightarrow> 0 < h \<Longrightarrow> 0 < w \<Longrightarrow> set (flat3 (const_image v c h w)) = {v}"
  by (auto simp: flat3_def const_image_def)

lemma bzip_const_image:
  "bzip (bzip (bzip f)) (const_image a c h w) (const_image b c h w) = const_image (f a b) c h w"
  by (simp add: bzip_def const_image_def)

lemma bzip_one: "bzip f [x] [y] = [f x y]"
  by (simp add: bzip_def)

lemma bzip_two: "bzip f [x, x'] [y, y'] = [f x y, f x' y']"
  by (simp add: bzip_def)

lemma ex_plain_not_mirrored:
  "check_if_mirror_extended m ex_plain_seq = ret m"
  by (simp add: check_if_mirror_extended_def ex_plain_seq_def ex_frame_def chunk1_two_even
      unpack2_def flip1_def sub5_def norm5_def ew5_def ew4_def bzip_one bzip_two
      bzip_const_image flat5_def flat4_def set_flat3_const_image fnorm_eq_zero_iff fsub_def)

lemma ex_mirror_palindrome:
  "\<forall>s \<in> set (elems ex_mirror_seq). length s = 4 \<and> drop (4 div 2) s = rev (take (4 div 2) s)"
  by (simp add: ex_mirror_seq_def)

lemma ex_mirror_finite: "finite5 ex_mirror_seq"
  by (simp add: finite5_def ex_mirror_seq_def ex_frame_def flat5_def flat4_def list_all_iff
      set_flat3_const_image)

lemma ex_inf_palindrome:
  "\<forall>s \<in> set (elems ex_inf_seq). length s = 2 \<and> drop (2 div 2) s = rev (take (2 div 2) s)"
  by (simp add: ex_inf_seq_def)

lemma ex_inf_not_finite: "\<not> finite5 ex_inf_seq"
  by (simp add: finite5_def ex_inf_seq_def flat5_def flat4_def list_all_iff
      set_flat3_const_image)

lemma finite5_zero_seq: "finite5 (zero_seq n t c h w)"
  by (auto simp: finite5_def zero_seq_def zero_frames_def flat5_def flat4_def flat3_def
      zeros3_def list_all_iff)

lemma ex_library_simps [simp]:
  "torch_cuda_is_available (ex_library cu) = cu"
  "flow_warp (ex_library cu) = zero_net2 flow_warp_rule"
  "interpolate_size (ex_library cu) sz = zero_net1 (resize_rule sz)"
  "interpolate_quarter (ex_library cu) = zero_net1 quarter_rule"
  by (simp_all add: ex_library_def)

lemma ex_model_modules [simp]:
  "deform_align (ex_model True mid ccl) =
     [(''backward_1'', \<lparr>max_residue_magnitude = 10,
         conv_offset = zero_net1 (channel_rule (3 * mid + 4) (27 * 16)),
         dcn = zero_net3 (dcn_rule (2 * mid) mid 16)\<rparr>),
      (''forward_1'', \<lparr>max_residue_magnitude = 10,
         conv_offset = zero_net1 (channel_rule (3 * mid + 4) (27 * 16)),
         dcn = zero_net3 (dcn_rule (2 * mid) mid 16)\<rparr>)]"
  "deform_align (ex_model False mid ccl) = []"
  "backbone (ex_model cu mid ccl) =
     [(''backward_1'', zero_net1 (channel_rule mid mid)),
      (''forward_1'', zero_net1 (channel_rule (2 * mid) mid))]"
  "fusion (ex_model cu mid ccl) =
     [(''backward_1'', zero_netF (fusion_rule mid 2)), (''forward_1'', zero_netF (fusion_rule mid 2))]"
  "reconstruction (ex_model cu mid ccl) = zero_net1 (channel_rule (3 * mid) mid)"
  "upconv1 (ex_model cu mid ccl) = zero_net1 (conv2d_rule mid (mid * 4) 3 1 1)"
  "upconv2 (ex_model cu mid ccl) = zero_net1 (conv2d_rule mid (64 * 4) 3 1 1)"
  "pixel_shuffle (ex_model cu mid ccl) = zero_net1 (pixel_shuffle_rule 2)"
  "conv_hr (ex_model cu mid ccl) = zero_net1 (conv2d_rule 64 64 3 1 1)"
  "conv_last (ex_model cu mid ccl) = zero_net1 (conv2d_rule 64 3 3 1 1)"
  "img_upsample (ex_model cu mid ccl) = zero_net1 (upsample_rule 4)"
  "lrelu (ex_model cu mid ccl) = zero_net1 same_rule"
  by (simp_all add: ex_model_def ex_library_def Let_def soda_init_def)

lemmas rule_defs =
  channel_rule_def conv2d_rule_def pixel_shuffle_rule_def upsample_rule_def same_rule_def
  resize_rule_def quarter_rule_def spynet_rule_def flow_warp_rule_def dcn_rule_def
  fusion_rule_def

lemmas stage_defs =
  soda_residual_def add_flow_def soda_offsets_def soda_forward_def get_cpu_cache_def
  get_attr_def call_spynet_def second_order_def align_stage_def
  last_feats_def fuse_stage_def prop_step_def mapping_index_def propagate_def

lemmas eval_simps = stage_defs tensor_defs rule_defs rbind_assoc enumerate_from_Cons Let_def
  upt_conv_Cons

lemma ex_propagate_events:
  assumes "shape s0 = [1, 8, 64, 64]" "shape s1 = [1, 8, 64, 64]" "shape fl = [1, 1, 2, 64, 64]"
  shows "\<exists>y. events (propagate (ex_library True)
                   ((ex_model True 8 100)\<lparr>cpu_cache := Some False\<rparr>)
                   [(''spatial'', [s0, s1]), (''backward_1'', [])] fl ''backward_1'') =
     [Fusion_call ''backward_1'' 0 (zeros4 1 8 64 64), Align_call ''backward_1'' 1,
      Fusion_call ''backward_1'' 1 y]"
  using assms by (simp add: eval_simps)

lemma init_low_res:
  "init L mid nb mrm True sp ccl =
     (case mk_SpyNet L sp of
        Inl e \<Rightarrow> raise e
      | Inr spy \<Rightarrow>
          ((if torch_cuda_is_available L then [] else [Warn alignment_warning]),
           Inr \<lparr>mid_channels = mid,
              is_low_res_input = True,
              cpu_cache_length = ccl,
              spynet = spy,
              feat_extract1 = Some (mk_feat_extract1 L mid),
              feat_extract2 = Some (mk_feat_extract2 L mid),
              deform_align =
                (if torch_cuda_is_available L
                 then [(''backward_1'', soda_init L (2 * mid) mid 16 mrm),
                       (''forward_1'', soda_init L (2 * mid) mid 16 mrm)]
                 else []),
              backbone =
                [(''backward_1'', mk_ConvResidualBlocks L mid mid nb),
                 (''forward_1'', mk_ConvResidualBlocks L (2 * mid) mid nb)],
              fusion =
                [(''backward_1'', mk_TSAFusion L mid 2 0), (''forward_1'', mk_TSAFusion L mid 2 0)],
              reconstruction = mk_ConvResidualBlocks L (3 * mid) mid 5,
              upconv1 = mk_Conv2d L mid (mid * 4) 3 1 1,
              upconv2 = mk_Conv2d L mid (64 * 4) 3 1 1,
              pixel_shuffle = mk_PixelShuffle L 2,
              conv_hr = mk_Conv2d L 64 64 3 1 1,
              conv_last = mk_Conv2d L 64 3 3 1 1,
              img_upsample = mk_Upsample L 4,
              lrelu = mk_LeakyReLU L,
              is_mirror_extended = False,
              is_with_alignment = torch_cuda_is_available L,
              cpu_cache = None\<rparr>))"
  by (simp add: init_def init_feat_extract_def resolve_def module_names_def
       lift_def enumerate_from_def emit_def ret_def raise_def Let_def mult_2 split: sum.splits)

lemma init_without_cuda:
  assumes c: "\<not> torch_cuda_is_available L" and r: "returns (init L mid nb mrm lr sp ccl) m0"
  shows "\<not> is_with_alignment m0 \<and> deform_align m0 = [] \<and>
         events (init L mid nb mrm lr sp ccl) = [Warn alignment_warning]"
proof -
  have lr: lr
  proof (rule ccontr)
    assume "\<not> lr"
    then have "fails (init L mid nb mrm lr sp ccl)"
      by (simp add: fails_def init_high split: sum.splits)
    with r show False by (simp add: fails_iff)
  qed
  show ?thesis
    using r c unfolding lr [THEN eqTrueI] init_low_res
    by (cases "mk_SpyNet L sp") (auto simp: returns_def outcome_def events_def raise_def)
qed

section \<open>Shapes of the results of the primitives\<close>

lemma bshape_rev_same_length:
  "length a = length b \<Longrightarrow>
   bshape_rev a b =
     (if list_all2 (\<lambda>x y. x = y \<or> y = 1 \<or> x = 1) a b
      then Inr (map2 (\<lambda>x y. if x = y \<or> y = 1 then x else y) a b)
      else Inl (RuntimeError ''the sizes of the tensors must match''))"
proof (induction a b rule: list_induct2)
  case Nil
  then show ?case by simp
next
  case (Cons x xs y ys)
  then show ?case by auto
qed

lemma bshape_same_length:
  assumes "length a = length b"
  shows "bshape a b =
     (if list_all2 (\<lambda>x y. x = y \<or> y = 1 \<or> x = 1) a b
      then Inr (map2 (\<lambda>x y. if x = y \<or> y = 1 then x else y) a b)
      else Inl (RuntimeError ''the sizes of the tensors must match''))"
proof -
  have l: "length (rev a) = length (rev b)" using assms by simp
  have z: "zip (rev a) (rev b) = rev (zip a b)" using assms by (simp add: zip_rev)
  show ?thesis
    unfolding bshape_def bshape_rev_same_length [OF l]
    using assms by (simp add: z rev_map list_all2_rev)
qed

lemma bshape_Cons_same:
  assumes "length s = length s'" "bshape (a # s) (a # s') = Inr r"
  shows "\<exists>r'. r = a # r'"
  using assms by (simp add: bshape_same_length split: if_splits) blast

lemma map2_pick_same:
  "length a = length b \<Longrightarrow> map2 (\<lambda>x y. if x = y \<or> y = 1 then x else y) a b = a \<Longrightarrow>
   list_all2 (\<lambda>x y. x = y \<or> y = (1::nat)) a b"
  by (induction a b rule: list_induct2) (auto split: if_splits)

lemma bshape_inplace:
  assumes "length a = length b" "bshape a b = Inr a"
  shows "list_all2 (\<lambda>x y. x = y \<or> y = 1) a b"
  using assms map2_pick_same [OF assms(1)]
  by (simp add: bshape_same_length split: if_splits)

lemma returns_net_result:
  "returns (net_result n r xs) y \<Longrightarrow> \<exists>c h w. r = Inr [c, h, w] \<and> shape y = [n, c, h, w]"
  by (auto simp: net_result_def split: sum.splits list.splits)

lemma returns_apply_net1:
  "returns (apply_net1 f x) y \<Longrightarrow>
   \<exists>n s c h w. shape x = n # s \<and> oshape f [s] = Inr [c, h, w] \<and> shape y = [n, c, h, w]"
  by (auto simp: apply_net1_def split: list.splits dest!: returns_net_result)

lemma returns_apply_net2:
  "returns (apply_net2 f x x') y \<Longrightarrow>
   \<exists>n s s' c h w. shape x = n # s \<and> shape x' = n # s' \<and> shape y = [n, c, h, w]"
  by (auto simp: apply_net2_def split: list.splits if_splits dest!: returns_net_result)

lemma returns_apply_netF:
  "returns (apply_netF f x) y \<Longrightarrow>
   \<exists>n s c h w. shape x = n # s \<and> shape y = [n, c, h, w]"
  by (auto simp: apply_netF_def split: list.splits dest!: returns_net_result)

lemma returns_cat1:
  "returns (cat1 (x # xs)) y \<Longrightarrow>
   \<exists>n c r c'. shape x = n # c # r \<and> shape y = n # c' # r"
  by (auto simp: cat1_def split: list.splits if_splits)

lemma returns_stack1:
  "returns (stack1 xs) y \<Longrightarrow>
   \<exists>x rest n r. xs = x # rest \<and> shape x = n # r \<and> (\<forall>z \<in> set xs. shape z = shape x) \<and>
      shape y = n # length xs # r"
  by (auto simp: stack1_def list_all_iff split: list.splits if_splits)

lemma returns_select1:
  "returns (select1 i x) y \<Longrightarrow> \<exists>n t r. shape x = n # t # r \<and> shape y = n # r"
  by (auto simp: select1_def Let_def split: list.splits if_splits)

lemma returns_add4:
  "returns (add4 x y) z \<Longrightarrow> bshape (shape x) (shape y) = Inr (shape z)"
  by (auto simp: add4_def split: sum.splits)

lemma returns_iadd4:
  "returns (iadd4 x y) z \<Longrightarrow> bshape (shape x) (shape y) = Inr (shape x) \<and> shape z = shape x"
  by (auto simp: iadd4_def split: sum.splits if_splits)

lemma returns_py_index:
  "returns (py_index xs i) y \<Longrightarrow> y \<in> set xs"
  by (auto simp: py_index_def Let_def split: if_splits)

lemma returns_dict_get:
  "returns (dict_get d k) v \<longleftrightarrow> map_of d k = Some v"
  by (auto simp: dict_get_def split: option.splits)

lemma returns_get_cpu_cache:
  "returns (get_cpu_cache m) b \<longleftrightarrow> cpu_cache m = Some b"
  by (auto simp: get_cpu_cache_def split: option.splits)

lemma infer_size_explicit:
  "\<forall>d \<in> set dims. 0 \<le> d \<Longrightarrow> infer_size dims k = Inr s \<Longrightarrow> s = map nat dims"
  by (auto simp: infer_size_def list_ex_iff split: if_splits)

lemma infer_size_first:
  assumes "infer_size [- 1, int c, int h, int w] k = Inr s"
  shows "s = [k div (c * h * w), c, h, w] \<and> 0 < c * h * w \<and> k mod (c * h * w) = 0"
proof -
  have "nat (int c * (int h * int w)) = c * h * w"
    by (simp add: nat_mult_distrib mult.assoc flip: of_nat_mult)
  then show ?thesis
    using assms by (auto simp: infer_size_def Let_def split: if_splits)
qed

lemma returns_view54_merge:
  assumes "returns (view54 [- 1, int c, int h, int w] x) y" "shape x = [n, t, c, h, w]"
  shows "shape y = [n * t, c, h, w]"
proof -
  from assms obtain s where s: "infer_size [- 1, int c, int h, int w] (numel (shape x)) = Inr s"
    and y: "shape y = s"
    by (auto simp: view54_def split: sum.splits list.splits)
  from infer_size_first [OF s] have "s = [numel (shape x) div (c * h * w), c, h, w]"
    and p: "0 < c * h * w" by auto
  moreover have "numel (shape x) = (n * t) * (c * h * w)"
    using assms(2) by (simp add: numel_def)
  ultimately show ?thesis using y p by simp
qed

section \<open>The feature lists\<close>

lemma map_of_dict_set: "map_of (dict_set d k v) k' = (if k' = k then Some v else map_of d k')"
  by (induction d k v rule: dict_set.induct) auto

lemma keys_dict_set_known:
  "map_of d k = Some v' \<Longrightarrow> map fst (dict_set d k v) = map fst d"
  by (induction d k v rule: dict_set.induct) (auto split: if_splits)

lemma dict_set_new: "map_of d k = None \<Longrightarrow> dict_set d k v = d @ [(k, v)]"
  by (induction d k v rule: dict_set.induct) (auto split: if_splits)

lemma returns_fuse_stage:
  assumes "returns (fuse_stage L m cache fs name idx i fc fp) (fs', fp')"
  shows "\<exists>own. map_of fs name = Some own \<and> fs' = dict_set fs name (own @ [fp'])"
  using assms unfolding fuse_stage_def by (auto simp: returns_dict_get)

lemma returns_prop_step:
  assumes "returns (prop_step L m flows name mi fi ii (fs, fp)) (fs', fp')"
  shows "\<exists>own. map_of fs name = Some own \<and> fs' = dict_set fs name (own @ [fp'])"
  using assms unfolding prop_step_def
  by (cases ii) (auto dest!: returns_fuse_stage)

lemma returns_prop_loop:
  assumes "returns (prop_loop L m flows name mi fi steps (fs, fp)) (fs', fp')"
    and "map_of fs name = Some own"
  shows "\<exists>own'. map_of fs' name = Some own' \<and> length own' = length own + length steps \<and>
           (\<forall>k. k \<noteq> name \<longrightarrow> map_of fs' k = map_of fs k) \<and> map fst fs' = map fst fs"
  using assms
proof (induction steps arbitrary: fs fp own)
  case Nil
  then show ?case by simp
next
  case (Cons ii steps)
  from Cons.prems(1) obtain fs1 fp1 where
    1: "returns (prop_step L m flows name mi fi ii (fs, fp)) (fs1, fp1)" and
    2: "returns (prop_loop L m flows name mi fi steps (fs1, fp1)) (fs', fp')"
    by auto
  from returns_prop_step [OF 1] Cons.prems(2) have
    fs1: "fs1 = dict_set fs name (own @ [fp1])" by auto
  then have m1: "map_of fs1 name = Some (own @ [fp1])" by (simp add: map_of_dict_set)
  from Cons.IH [OF 2 m1] obtain own' where
    "map_of fs' name = Some own'" "length own' = length (own @ [fp1]) + length steps"
    "\<forall>k. k \<noteq> name \<longrightarrow> map_of fs' k = map_of fs1 k" "map fst fs' = map fst fs1"
    by blast
  then show ?case
    using fs1 Cons.prems(2) by (auto simp: map_of_dict_set keys_dict_set_known)
qed

lemma returns_propagate:
  assumes r: "returns (propagate L m fs flows name) fs'"
    and s: "shape flows = [n, t, c, h, w]"
    and o: "map_of fs name = Some own"
  shows "\<exists>own'. map_of fs' name = Some own' \<and> length own' = length own + t + 1 \<and>
           (\<forall>k. k \<noteq> name \<longrightarrow> map_of fs' k = map_of fs k) \<and> map fst fs' = map fst fs"
proof -
  from r s obtain sp mi fi steps fs1 fp1 where
    l: "returns (prop_loop L m flows name mi fi steps (fs, zeros4 n (mid_channels m) h w)) (fs1, fp1)"
    and st: "length steps = t + 1"
    and f: "fs' = fs1 \<or> (\<exists>own1. map_of fs1 name = Some own1 \<and> fs' = dict_set fs1 name (rev own1))"
    unfolding propagate_def
    by (auto simp: Let_def returns_dict_get enumerate_from_def split: if_splits)
  from returns_prop_loop [OF l o] obtain own' where
    p: "map_of fs1 name = Some own'" "length own' = length own + length steps"
    "\<forall>k. k \<noteq> name \<longrightarrow> map_of fs1 k = map_of fs k" "map fst fs1 = map fst fs"
    by blast
  from f show ?thesis
  proof
    assume "fs' = fs1"
    with p st show ?thesis by auto
  next
    assume "\<exists>own1. map_of fs1 name = Some own1 \<and> fs' = dict_set fs1 name (rev own1)"
    with p st show ?thesis by (auto simp: map_of_dict_set keys_dict_set_known)
  qed
qed

lemma returns_mapM:
  "returns (mapM f xs) ys \<Longrightarrow> list_all2 (\<lambda>x y. returns (f x) y) xs ys"
  by (induction xs arbitrary: ys) auto

text \<open>The first step of the loop stacks a spatial feature's backbone output on the zero
  state, so the spatial feature it reads has the batch size of the flows.\<close>

lemma first_step_batch:
  assumes r: "returns (prop_step L m flows name mi fi (0, idx) (fs, zeros4 n c h w)) st"
    and sp: "map_of fs ''spatial'' = Some sp"
  shows "\<exists>x \<in> set sp. \<exists>c' r. shape x = n # c' # r"
proof -
  from r sp obtain cache fc fc1 fp lf fc2 bb fc3 fc4 fp' y where
    a: "fc \<in> set sp" and b: "returns (cuda_if L cache fc) fc1"
    and c: "returns (cuda_if L cache (zeros4 n c h w)) fp"
    and d: "returns (cat1 (fc1 # lf)) fc2"
    and e: "returns (apply_net1 bb fc2) fc3"
    and f: "returns (cuda_if L cache fc3) fc4"
    and g: "returns (cuda_if L cache fp) fp'"
    and h: "returns (stack1 [fc4, fp']) y"
    unfolding prop_step_def fuse_stage_def
    by (auto simp: returns_dict_get align_stage_skipped dest!: returns_py_index)
  from b c f g have eq: "fc1 = fc" "fp = zeros4 n c h w" "fc4 = fc3" "fp' = fp"
    by (auto dest: returns_cuda_if)
  from returns_cat1 [OF d] obtain n0 c0 r0 c1 where
    s1: "shape fc1 = n0 # c0 # r0" "shape fc2 = n0 # c1 # r0" by blast
  from returns_apply_net1 [OF e] s1 obtain c2 h2 w2 where
    s3: "shape fc3 = [n0, c2, h2, w2]" by auto
  from returns_stack1 [OF h] have "shape fp' = shape fc4" by auto
  with eq s3 have "n0 = n" by (simp add: zeros4_def)
  with a s1 eq show ?thesis by auto
qed

lemma propagate_reads_spatial:
  assumes r: "returns (propagate L m fs flows name) fs'"
    and s: "shape flows = [n, t, c, h, w]"
    and sp: "map_of fs ''spatial'' = Some sp"
  shows "\<exists>x \<in> set sp. \<exists>c' r. shape x = n # c' # r"
proof -
  define frame_idx where "frame_idx =
    (if contains ''backward'' name then rev (map int [0..<Suc t]) else map int [0..<Suc t])"
  have "frame_idx \<noteq> []" by (simp add: frame_idx_def)
  then obtain idx rest where fi: "frame_idx = idx # rest" by (cases frame_idx) auto
  from r s sp obtain mi fi' st where
    "returns (prop_loop L m flows name mi fi' (enumerate_from 0 frame_idx)
        (fs, zeros4 n (mid_channels m) h w)) st"
    unfolding propagate_def frame_idx_def
    by (auto simp: Let_def returns_dict_get simp del: upt_Suc)
  then obtain st1 where
    "returns (prop_step L m flows name mi fi' (0, idx) (fs, zeros4 n (mid_channels m) h w)) st1"
    unfolding fi enumerate_from_Cons by auto
  from first_step_batch [OF this sp] show ?thesis .
qed

lemma bshape_rank4:
  assumes "bshape [a, b, c, d] [a, b', c', d'] = Inr r"
  shows "\<exists>k x y. r = [a, k, x, y]"
  using assms by (auto simp: bshape_same_length split: if_splits)

lemma returns_unpack2: "returns (unpack2 xs) p \<longleftrightarrow> xs = [fst p, snd p]"
  by (cases p) (auto simp: unpack2_def split: list.splits)

lemma returns_view45_rank:
  "returns (view45 dims x) y \<Longrightarrow> length (shape y) = 5"
  by (auto simp: view45_def split: sum.splits list.splits)

lemma returns_spatial_feature:
  assumes r: "returns (spatial_feature L m lqs c h w) y" and s: "shape lqs = [n, t, c, h, w]"
  shows "\<exists>k a b. shape y = [n * t, k, a, b]"
proof -
  from r obtain fe1 x1 f1 fe2 x2 f2 f2' where
    1: "returns (view54 [- 1, int c, int h, int w] lqs) x1"
    and 2: "returns (apply_net1 fe1 x1) f1"
    and 3: "returns (view54 [- 1, int c, int h, int w] lqs) x2"
    and 4: "returns (apply_net1 fe2 x2) f2"
    and 5: "returns (apply_net1 (interpolate_size L (drop 2 (shape f1))) f2) f2'"
    and 6: "returns (add4 f1 f2') y"
    unfolding spatial_feature_def by auto
  from returns_view54_merge [OF 1 s] returns_apply_net1 [OF 2] obtain c1 h1 w1 where
    f1: "shape f1 = [n * t, c1, h1, w1]" by auto
  from returns_view54_merge [OF 3 s] returns_apply_net1 [OF 4] obtain c2 h2 w2 where
    f2: "shape f2 = [n * t, c2, h2, w2]" by auto
  from returns_apply_net1 [OF 5] f2 obtain c3 h3 w3 where
    f3: "shape f2' = [n * t, c3, h3, w3]" by auto
  from returns_add4 [OF 6] f1 f3 show ?thesis
    using bshape_rank4 by auto
qed

lemma infer_size_third:
  assumes "infer_size [int n, int t, - 1, int h, int w] k = Inr s"
  shows "\<exists>q. s = [n, t, q, h, w]"
  using assms by (auto simp: infer_size_def Let_def split: if_splits)

lemma returns_spatial_features:
  assumes r: "returns (spatial_features L m cache lqs n t c h w) (sp, h', w')"
    and s: "shape lqs = [n, t, c, h, w]"
  shows "length sp = t \<and>
         (\<forall>x \<in> set sp. \<exists>k a b. shape x = [if cache then n * t else n, k, a, b])"
proof (cases cache)
  case True
  with r have "returns (mapM (\<lambda>i. spatial_feature L m lqs c h w) [0..<t]) sp"
    unfolding spatial_features_def by auto
  from returns_mapM [OF this] have
    l: "list_all2 (\<lambda>i y. returns (spatial_feature L m lqs c h w) y) [0..<t] sp" .
  then have "length sp = t" by (auto dest: list_all2_lengthD)
  moreover have "\<exists>k a b. shape x = [n * t, k, a, b]" if "x \<in> set sp" for x
  proof -
    from that l have "returns (spatial_feature L m lqs c h w) x"
      by (auto simp: list_all2_conv_all_nth in_set_conv_nth)
    from returns_spatial_feature [OF this s] show ?thesis .
  qed
  ultimately show ?thesis using True by auto
next
  case False
  with r obtain f f5 where
    1: "returns (spatial_feature L m lqs c h w) f"
    and 2: "returns (view45 [int n, int t, - 1, int h', int w'] f) f5"
    and 3: "returns (mapM (\<lambda>i. select1 (int i) f5) [0..<t]) sp"
    unfolding spatial_features_def by (auto simp: returns_unpack2)
  from 2 obtain q where f5: "shape f5 = [n, t, q, h', w']"
    by (auto simp: view45_def split: sum.splits list.splits dest!: infer_size_third)
  from returns_mapM [OF 3] have
    l: "list_all2 (\<lambda>i y. returns (select1 (int i) f5) y) [0..<t] sp" .
  then have "length sp = t" by (auto dest: list_all2_lengthD)
  moreover have "\<exists>k a b. shape x = [n, k, a, b]" if "x \<in> set sp" for x
  proof -
    from that l obtain i where "returns (select1 (int i) f5) x"
      by (auto simp: list_all2_conv_all_nth in_set_conv_nth)
    from returns_select1 [OF this] f5 show ?thesis by auto
  qed
  ultimately show ?thesis using False by auto
qed

lemma returns_view45_explicit:
  assumes "returns (view45 [int n, int t - 1, 2, int h, int w] x) y" "1 \<le> t"
  shows "shape y = [n, t - 1, 2, h, w]"
proof -
  from assms(1) obtain s where
    s: "infer_size [int n, int t - 1, 2, int h, int w] (numel (shape x)) = Inr s" and y: "shape y = s"
    by (auto simp: view45_def split: sum.splits list.splits)
  have "\<forall>d \<in> set [int n, int t - 1, 2, int h, int w]. 0 \<le> d" using assms(2) by simp
  from infer_size_explicit [OF this s] y assms(2) show ?thesis
    by (simp add: nat_diff_distrib)
qed

lemma returns_compute_flow:
  assumes r: "returns (compute_flow m lqs) (ff, fb)" and s: "shape lqs = [n, t, c, h, w]"
    and t: "1 \<le> t"
  shows "shape ff = [n, t - 1, 2, h, w] \<and> shape fb = [n, t - 1, 2, h, w]"
proof -
  from r s obtain x where
    1: "returns (view45 [int n, int t - 1, 2, int h, int w] x) fb"
    and 2: "returns (flip1 fb) ff \<or>
            (\<exists>y. returns (view45 [int n, int t - 1, 2, int h, int w] y) ff)"
    unfolding compute_flow_def by (auto split: if_splits)
  from returns_view45_explicit [OF 1 t] have fb: "shape fb = [n, t - 1, 2, h, w]" .
  from 2 have "shape ff = [n, t - 1, 2, h, w]"
  proof
    assume "returns (flip1 fb) ff"
    with fb show ?thesis by (auto simp: flip1_def)
  next
    assume "\<exists>y. returns (view45 [int n, int t - 1, 2, int h, int w] y) ff"
    then show ?thesis using returns_view45_explicit [OF _ t] by blast
  qed
  with fb show ?thesis by simp
qed

lemma returns_flip1: "returns (flip1 x) y \<Longrightarrow> shape y = shape x"
  by (auto simp: flip1_def split: list.splits)

lemma compute_flow_rank:
  assumes "returns (compute_flow m lqs) (ff, fb)"
  shows "length (shape fb) = 5 \<and> length (shape ff) = 5"
  using assms unfolding compute_flow_def
  by (auto split: list.splits if_splits dest!: returns_view45_rank returns_flip1)

lemma dict_two:
  assumes "map fst fs = [a, b]" "map_of fs a = Some x" "map_of fs b = Some y" "a \<noteq> b"
  shows "fs = [(a, x), (b, y)]"
proof -
  from assms(1) obtain x' y' where "fs = [(a, x'), (b, y')]"
    by (cases fs; cases "tl fs") auto
  with assms show ?thesis by auto
qed

lemma dict_three:
  assumes "map fst fs = [a, b, c]" "map_of fs a = Some x" "map_of fs b = Some y"
    "map_of fs c = Some z" "a \<noteq> b" "a \<noteq> c" "b \<noteq> c"
  shows "fs = [(a, x), (b, y), (c, z)]"
proof -
  from assms(1) obtain x' y' z' where "fs = [(a, x'), (b, y'), (c, z')]"
    by (cases fs; cases "tl fs"; cases "tl (tl fs)") auto
  with assms show ?thesis by auto
qed

lemma returns_propagate_all:
  assumes r: "returns (propagate_all L m [(''spatial'', sp)] ff fb) fs"
    and fb: "shape fb = [n, t, c, h, w]" and ff: "shape ff = [n', t', c', h', w']"
  shows "\<exists>bw fw. fs = [(''spatial'', sp), (''backward_1'', bw), (''forward_1'', fw)] \<and>
           length bw = t + 1 \<and> length fw = t' + 1 \<and>
           (\<exists>x \<in> set sp. \<exists>k r. shape x = n # k # r)"
proof -
  let ?d0 = "[(''spatial'', sp), (''backward_1'', [])]"
  from r obtain fs1 where
    1: "returns (propagate L m ?d0 fb ''backward_1'') fs1"
    and 2: "returns (propagate L m (dict_set fs1 ''forward_1'' []) ff ''forward_1'') fs"
    unfolding propagate_all_def by auto
  from returns_propagate [OF 1 fb, of "[]"] obtain bw where
    bw: "map_of fs1 ''backward_1'' = Some bw" "length bw = t + 1"
    and o1: "\<forall>k. k \<noteq> ''backward_1'' \<longrightarrow> map_of fs1 k = map_of ?d0 k"
    and k1: "map fst fs1 = map fst ?d0"
    by auto
  from o1 have s1: "map_of fs1 ''spatial'' = Some sp" by simp
  from k1 bw(1) s1 have fs1: "fs1 = [(''spatial'', sp), (''backward_1'', bw)]"
    by (intro dict_two) auto
  let ?d1 = "[(''spatial'', sp), (''backward_1'', bw), (''forward_1'', [])]"
  have d1: "dict_set fs1 ''forward_1'' [] = ?d1" unfolding fs1 by simp
  note 3 = 2 [unfolded d1]
  from returns_propagate [OF 3 ff, of "[]"] obtain fw where
    fw: "map_of fs ''forward_1'' = Some fw" "length fw = t' + 1"
    and o2: "\<forall>k. k \<noteq> ''forward_1'' \<longrightarrow> map_of fs k = map_of ?d1 k"
    and k2: "map fst fs = map fst ?d1"
    by auto
  from o2 have s2: "map_of fs ''spatial'' = Some sp" "map_of fs ''backward_1'' = Some bw"
    by simp_all
  from k2 s2 fw(1) have "fs = [(''spatial'', sp), (''backward_1'', bw), (''forward_1'', fw)]"
    by (intro dict_three) auto
  moreover from propagate_reads_spatial [OF 1 fb, of sp]
  have "\<exists>x \<in> set sp. \<exists>k r. shape x = n # k # r" by simp
  ultimately show ?thesis using bw(2) fw(2) by blast
qed

lemma returns_forward_feats:
  assumes r: "returns (forward_feats L m lqs lqsd n t c h w) fs"
    and s: "shape lqs = [n, t, c, h, w]" and sd: "shape lqsd = [n2, t, c2, h2, w2]"
  shows "1 \<le> t \<and> 64 \<le> h2 \<and> 64 \<le> w2 \<and>
         (\<exists>cache sp bw fw. cpu_cache m = Some cache \<and>
            fs = [(''spatial'', sp), (''backward_1'', bw), (''forward_1'', fw)] \<and>
            length sp = t \<and> length bw = t \<and> length fw = t \<and>
            (\<forall>x \<in> set sp. \<exists>k a b. shape x = [n2, k, a, b]) \<and>
            (cache \<longrightarrow> n * t = n2) \<and> (\<not> cache \<longrightarrow> n = n2))"
proof -
  from r obtain cache sp h' w' ff fb where
    1: "cpu_cache m = Some cache"
    and 2: "returns (spatial_features L m cache lqs n t c h w) (sp, h', w')"
    and 3: "returns (assert_low_res lqsd h' w') ()"
    and 4: "returns (compute_flow m lqsd) (ff, fb)"
    and 5: "returns (propagate_all L m [(''spatial'', sp)] ff fb) fs"
    unfolding forward_feats_def by (auto simp: returns_get_cpu_cache)
  from returns_spatial_features [OF 2 s] have
    lsp: "length sp = t"
    and ssp: "\<And>x. x \<in> set sp \<Longrightarrow> \<exists>k a b. shape x = [if cache then n * t else n, k, a, b]"
    by auto
  from 3 sd have hw: "64 \<le> h2" "64 \<le> w2"
    by (auto simp: assert_low_res_def split: if_splits)
  from compute_flow_rank [OF 4] obtain n1 t1 c1 h1 w1 n3 t3 c3 h3 w3 where
    fb0: "shape fb = [n1, t1, c1, h1, w1]" and ff0: "shape ff = [n3, t3, c3, h3, w3]"
    by (auto simp: length_Suc_conv eval_nat_numeral)
  from returns_propagate_all [OF 5 fb0 ff0] have "sp \<noteq> []" by auto
  with lsp have t: "1 \<le> t" by (cases t) auto
  from returns_compute_flow [OF 4 sd t] have
    ff: "shape ff = [n2, t - 1, 2, h2, w2]" and fb: "shape fb = [n2, t - 1, 2, h2, w2]" by auto
  from returns_propagate_all [OF 5 fb ff] t obtain bw fw x k r' where
    fs: "fs = [(''spatial'', sp), (''backward_1'', bw), (''forward_1'', fw)]"
    and l: "length bw = t" "length fw = t"
    and x: "x \<in> set sp" "shape x = n2 # k # r'"
    by auto
  from ssp [OF x(1)] x(2) have N: "(if cache then n * t else n) = n2" by auto
  with ssp have "\<forall>x \<in> set sp. \<exists>k a b. shape x = [n2, k, a, b]" by auto
  with t hw 1 fs lsp l N show ?thesis by auto
qed

lemma returns_pop0: "returns (pop0 xs) p \<longleftrightarrow> xs = fst p # snd p"
  by (cases p) (auto simp: pop0_def split: list.splits)

lemma returns_pop_all:
  "returns (pop_all [(''spatial'', sp), (''backward_1'', bw), (''forward_1'', fw)]) (xs, fs') \<longleftrightarrow>
   (\<exists>b bw' f fw'. bw = b # bw' \<and> fw = f # fw' \<and> xs = [b, f] \<and>
      fs' = [(''spatial'', sp), (''backward_1'', bw'), (''forward_1'', fw')])"
  by (auto simp: returns_pop0)

lemma returns_reconstruct:
  assumes "returns (reconstruct m x) y"
  shows "\<exists>n s c h w. shape x = n # s \<and> shape y = [n, c, h, w]"
proof -
  from assms obtain x1 x2 x3 x4 x5 x6 x7 x8 x9 where
    "returns (apply_net1 (reconstruction m) x) x1"
    "returns (apply_net1 (upconv1 m) x1) x2"
    "returns (apply_net1 (pixel_shuffle m) x2) x3"
    "returns (apply_net1 (lrelu m) x3) x4"
    "returns (apply_net1 (upconv2 m) x4) x5"
    "returns (apply_net1 (pixel_shuffle m) x5) x6"
    "returns (apply_net1 (lrelu m) x6) x7"
    "returns (apply_net1 (conv_hr m) x7) x8"
    "returns (apply_net1 (lrelu m) x8) x9"
    "returns (apply_net1 (conv_last m) x9) y"
    unfolding reconstruct_def by auto
  then show ?thesis by (auto dest!: returns_apply_net1)
qed

lemma returns_up_step:
  assumes r: "returns (up_step L m lqs mi i
      ([(''spatial'', sp), (''backward_1'', bw), (''forward_1'', fw)], outs)) (fs', outs')"
    and s: "shape lqs = [n, t, c, h, w]"
  shows "\<exists>b bw' f fw' hr s0 frame other B k r C H W.
      bw = b # bw' \<and> fw = f # fw' \<and>
      fs' = [(''spatial'', sp), (''backward_1'', bw'), (''forward_1'', fw')] \<and>
      outs' = outs @ [hr] \<and> s0 \<in> set sp \<and> shape s0 = B # k # r \<and> shape hr = [B, C, H, W] \<and>
      shape frame = [n, c, h, w] \<and>
      (if is_low_res_input m then returns (apply_net1 (img_upsample m) frame) other
       else other = frame) \<and>
      list_all2 (\<lambda>x y. x = y \<or> y = 1) [B, C, H, W] (shape other)"
proof -
  have "\<exists>b bw' f fw' j s0 hr0 cache hr1 hr2 frame hr other.
      (bw = b # bw' \<and> fw = f # fw' \<and>
       fs' = [(''spatial'', sp), (''backward_1'', bw'), (''forward_1'', fw')] \<and>
       outs' = outs @ [hr]) \<and>
      returns (py_index sp j) s0 \<and> returns (cat1 [s0, b, f]) hr0 \<and>
      returns (cuda_if L cache hr0) hr1 \<and> returns (reconstruct m hr1) hr2 \<and>
      returns (select1 (int i) lqs) frame \<and>
      (if is_low_res_input m then returns (apply_net1 (img_upsample m) frame) other
       else other = frame) \<and>
      returns (iadd4 hr2 other) hr"
  proof (cases "is_low_res_input m")
    case True
    with r show ?thesis unfolding up_step_def
      by (clarsimp simp: returns_pop0 returns_dict_get) blast
  next
    case False
    with r show ?thesis unfolding up_step_def
      by (clarsimp simp: returns_pop0 returns_dict_get) blast
  qed
  then obtain b bw' f fw' j s0 hr0 cache hr1 hr2 frame hr other where
    1: "bw = b # bw' \<and> fw = f # fw' \<and>
       fs' = [(''spatial'', sp), (''backward_1'', bw'), (''forward_1'', fw')] \<and>
       outs' = outs @ [hr]"
    and 2: "returns (py_index sp j) s0"
    and 3: "returns (cat1 [s0, b, f]) hr0"
    and 4: "returns (cuda_if L cache hr0) hr1"
    and 5: "returns (reconstruct m hr1) hr2"
    and 6: "returns (select1 (int i) lqs) frame"
    and o: "if is_low_res_input m then returns (apply_net1 (img_upsample m) frame) other
        else other = frame"
    and a: "returns (iadd4 hr2 other) hr"
    by blast
  from returns_py_index [OF 2] have s0: "s0 \<in> set sp" .
  from returns_cat1 [OF 3] obtain B k r k' where
    b: "shape s0 = B # k # r" "shape hr0 = B # k' # r" by auto
  from returns_cuda_if [OF 4] have "hr1 = hr0" .
  with returns_reconstruct [OF 5] b obtain C H W where h2: "shape hr2 = [B, C, H, W]" by auto
  from returns_select1 [OF 6] s have f: "shape frame = [n, c, h, w]" by auto
  have r4: "length (shape other) = 4"
  proof (cases "is_low_res_input m")
    case True
    with o returns_apply_net1 show ?thesis by fastforce
  next
    case False
    with o f show ?thesis by simp
  qed
  from returns_iadd4 [OF a] h2 have
    "bshape [B, C, H, W] (shape other) = Inr [B, C, H, W]" "shape hr = [B, C, H, W]" by auto
  with r4 bshape_inplace [of "[B, C, H, W]" "shape other"] have
    "list_all2 (\<lambda>x y. x = y \<or> y = 1) [B, C, H, W] (shape other)" "shape hr = [B, C, H, W]"
    by auto
  with 1 s0 b(1) f o show ?thesis by blast
qed


lemma returns_up_loop:
  assumes step: "\<And>i bw fw outs fs' outs'.
      returns (up_step L m lqs mi i
        ([(''spatial'', sp), (''backward_1'', bw), (''forward_1'', fw)], outs)) (fs', outs') \<Longrightarrow>
      \<exists>hr. outs' = outs @ [hr] \<and> P hr"
    and s: "shape lqs = [n, t, c, h, w]"
    and r: "returns (up_loop L m lqs mi steps
        ([(''spatial'', sp), (''backward_1'', bw), (''forward_1'', fw)], outs)) (fs', outs')"
  shows "fs' = [(''spatial'', sp), (''backward_1'', drop (length steps) bw),
                (''forward_1'', drop (length steps) fw)] \<and>
         length steps \<le> length bw \<and> length steps \<le> length fw \<and>
         (\<exists>new. outs' = outs @ new \<and> length new = length steps \<and> (\<forall>x \<in> set new. P x))"
  using r
proof (induction steps arbitrary: bw fw outs)
  case Nil
  then show ?case by simp
next
  case (Cons i rest)
  from Cons.prems obtain fs1 outs1 where
    1: "returns (up_step L m lqs mi i
          ([(''spatial'', sp), (''backward_1'', bw), (''forward_1'', fw)], outs)) (fs1, outs1)"
    and 2: "returns (up_loop L m lqs mi rest (fs1, outs1)) (fs', outs')"
    by auto
  from returns_up_step [OF 1 s] obtain b bw' f fw' where
    l: "bw = b # bw'" "fw = f # fw'"
       "fs1 = [(''spatial'', sp), (''backward_1'', bw'), (''forward_1'', fw')]"
    by blast
  from step [OF 1] obtain hr where hr: "outs1 = outs @ [hr]" "P hr" by blast
  from Cons.IH [OF 2 [unfolded l(3)]] obtain new where
    "fs' = [(''spatial'', sp), (''backward_1'', drop (length rest) bw'),
            (''forward_1'', drop (length rest) fw')]"
    "length rest \<le> length bw'" "length rest \<le> length fw'"
    "outs' = outs1 @ new" "length new = length rest" "\<forall>x \<in> set new. P x"
    by blast
  with l hr show ?case
    by (intro conjI exI [of _ "hr # new"]) auto
qed

lemma returns_upsample:
  assumes step: "\<And>i bw fw outs fs' outs'.
      returns (up_step L m lqs (mapping_index (length sp)) i
        ([(''spatial'', sp), (''backward_1'', bw), (''forward_1'', fw)], outs)) (fs', outs') \<Longrightarrow>
      \<exists>hr. outs' = outs @ [hr] \<and> P hr"
    and s: "shape lqs = [n, t, c, h, w]"
    and r: "returns (upsample L m lqs
        [(''spatial'', sp), (''backward_1'', bw), (''forward_1'', fw)]) (out, fs')"
  shows "fs' = [(''spatial'', sp), (''backward_1'', drop t bw), (''forward_1'', drop t fw)] \<and>
         t \<le> length bw \<and> t \<le> length fw \<and>
         (\<exists>outs. returns (stack1 outs) out \<and> length outs = t \<and> (\<forall>x \<in> set outs. P x))"
proof -
  from r s obtain outs where
    1: "returns (up_loop L m lqs (mapping_index (length sp)) [0..<t]
          ([(''spatial'', sp), (''backward_1'', bw), (''forward_1'', fw)], [])) (fs', outs)"
    and 2: "returns (stack1 outs) out"
    unfolding upsample_def by (auto simp: dict_get_def)
  from returns_up_loop [of L m lqs "mapping_index (length sp)" sp P, OF step s 1] 2
  show ?thesis by auto
qed

lemma returns_view45_sizes:
  assumes "returns (view45 [int a, int b, int c, int d, int e] x) y"
  shows "shape y = [a, b, c, d, e]"
proof -
  from assms obtain s where
    s: "infer_size [int a, int b, int c, int d, int e] (numel (shape x)) = Inr s" and y: "shape y = s"
    by (auto simp: view45_def split: sum.splits list.splits)
  have "\<forall>k \<in> set [int a, int b, int c, int d, int e]. 0 \<le> k" by simp
  from infer_size_explicit [OF this s] y show ?thesis by simp
qed

lemma returns_downsample:
  assumes "returns (downsample L m lqs n t c h w) y" "shape lqs = [n, t, c, h, w]"
  shows "\<exists>c' h' w'. shape y = [n, t, c', h', w'] \<and> (is_low_res_input m \<longrightarrow> y = lqs)"
  using assms unfolding downsample_def
  by (auto split: if_splits dest!: returns_view45_sizes)

lemma returns_forward:
  assumes s: "shape lqs = [n, t, c, h, w]" and r: "returns (snd (forward L m lqs)) out"
  shows "\<exists>lqsd fs fs'. returns (downsample L m lqs n t c h w) lqsd \<and>
     returns (forward_feats L (fst (forward L m lqs)) lqs lqsd n t c h w) fs \<and>
     returns (upsample L (fst (forward L m lqs)) lqs fs) (out, fs') \<and>
     cpu_cache (fst (forward L m lqs)) = Some (cpu_cache_length m < int t) \<and>
     is_low_res_input (fst (forward L m lqs)) = is_low_res_input m \<and>
     img_upsample (fst (forward L m lqs)) = img_upsample m"
proof -
  from forward_rank5 [OF s, of L] obtain b where
    f: "\<And>m. forward L m lqs =
       (let m1 = m\<lparr>cpu_cache := Some (cpu_cache_length m < int t)\<rparr>;
            m2 = (if b then m1\<lparr>is_mirror_extended := True\<rparr> else m1)
        in case downsample L m lqs n t c h w of
             (l, Inl e) \<Rightarrow> (m1, (l, Inl e))
           | (l, Inr lqs_downsample) \<Rightarrow>
               (m2, rbind (l, Inr ())
                      (\<lambda>_. rbind (forward_feats L m2 lqs lqs_downsample n t c h w) (\<lambda>fs.
                           rbind (upsample L m2 lqs fs) (\<lambda>(out, fs'). ret out)))))"
    by blast
  obtain l res where d: "downsample L m lqs n t c h w = (l, res)" by (cases "downsample L m lqs n t c h w")
  show ?thesis
  proof (cases res)
    case (Inl e)
    with r d show ?thesis by (simp add: f Let_def returns_def outcome_def)
  next
    case (Inr lqsd)
    have k: "\<And>R :: t5 res. returns (l @ fst R, snd R) out = returns R out"
      by (simp add: returns_def outcome_def)
    from r d Inr show ?thesis
      by (cases b)
         (simp_all add: f Let_def k returns_def [of "(l, Inr lqsd)"] outcome_def [of "(l, Inr lqsd)"])
  qed
qed

lemma forward_low_res:
  assumes "is_low_res_input m" "shape lqs = [n, t, c, h, w]"
    and "check_if_mirror_extended (m\<lparr>cpu_cache := Some (cpu_cache_length m < int t)\<rparr>) lqs = ret m2"
  shows "forward L m lqs =
    (m2, rbind (forward_feats L m2 lqs lqs n t c h w) (\<lambda>fs.
         rbind (upsample L m2 lqs fs) (\<lambda>(out, fs'). ret out)))"
  using assms by (simp add: forward_def downsample_def ret_def [of lqs] ret_def [of m2] ret_def [of "()"])

lemmas forward_stage_defs =
  compute_flow_def reconstruct_def up_step_def upsample_def spatial_feature_def
  spatial_features_def assert_low_res_def propagate_all_def forward_feats_def

lemma ex_spatial_features:
  assumes "shape x = [1, 2, 3, 64, 64]"
  shows "\<exists>s0 s1.
     returns (spatial_features (ex_library True)
        ((ex_model True 8 100)\<lparr>cpu_cache := Some False, is_mirror_extended := True\<rparr>)
        False x 1 2 3 64 64) ([s0, s1], 64, 64) \<and>
     shape s0 = [1, 8, 64, 64] \<and> shape s1 = [1, 8, 64, 64]"
  using assms by (simp add: forward_stage_defs eval_simps)

lemma ex_compute_flow:
  assumes "shape x = [1, 2, 3, 64, 64]"
  shows "\<exists>ff fb.
     returns (compute_flow
        ((ex_model True 8 100)\<lparr>cpu_cache := Some False, is_mirror_extended := True\<rparr>) x) (ff, fb) \<and>
     shape ff = [1, 1, 2, 64, 64] \<and> shape fb = [1, 1, 2, 64, 64]"
  using assms by (simp add: forward_stage_defs eval_simps)

lemma ex_propagate_backward:
  assumes "shape s0 = [1, 8, 64, 64]" "shape s1 = [1, 8, 64, 64]" "shape fl = [1, 1, 2, 64, 64]"
  shows "\<exists>b0 b1. returns (propagate (ex_library True)
        ((ex_model True 8 100)\<lparr>cpu_cache := Some False, is_mirror_extended := True\<rparr>)
        [(''spatial'', [s0, s1]), (''backward_1'', [])] fl ''backward_1'')
       [(''spatial'', [s0, s1]), (''backward_1'', [b0, b1])] \<and>
     shape b0 = [1, 8, 64, 64] \<and> shape b1 = [1, 8, 64, 64]"
  using assms by (simp add: eval_simps)

lemma ex_propagate_forward:
  assumes "shape s0 = [1, 8, 64, 64]" "shape s1 = [1, 8, 64, 64]" "shape fl = [1, 1, 2, 64, 64]"
    "shape b0 = [1, 8, 64, 64]" "shape b1 = [1, 8, 64, 64]"
  shows "\<exists>f0 f1. returns (propagate (ex_library True)
        ((ex_model True 8 100)\<lparr>cpu_cache := Some False, is_mirror_extended := True\<rparr>)
        [(''spatial'', [s0, s1]), (''backward_1'', [b0, b1]), (''forward_1'', [])] fl ''forward_1'')
       [(''spatial'', [s0, s1]), (''backward_1'', [b0, b1]), (''forward_1'', [f0, f1])] \<and>
     shape f0 = [1, 8, 64, 64] \<and> shape f1 = [1, 8, 64, 64]"
  using assms by (simp add: eval_simps)

lemma ex_upsample:
  assumes "shape x = [1, 2, 3, 64, 64]"
    "shape s0 = [1, 8, 64, 64]" "shape s1 = [1, 8, 64, 64]"
    "shape b0 = [1, 8, 64, 64]" "shape b1 = [1, 8, 64, 64]"
    "shape f0 = [1, 8, 64, 64]" "shape f1 = [1, 8, 64, 64]"
  shows "\<exists>out. returns (upsample (ex_library True)
        ((ex_model True 8 100)\<lparr>cpu_cache := Some False, is_mirror_extended := True\<rparr>) x
        [(''spatial'', [s0, s1]), (''backward_1'', [b0, b1]), (''forward_1'', [f0, f1])])
       (out, [(''spatial'', [s0, s1]), (''backward_1'', []), (''forward_1'', [])]) \<and>
     shape out = [1, 2, 3, 256, 256]"
  using assms by (simp add: forward_stage_defs eval_simps)

lemma returns_rbindI: "returns m x \<Longrightarrow> returns (f x) y \<Longrightarrow> returns (rbind m f) y"
  by auto

lemma ex_forward_feats:
  assumes x: "shape x = [1, 2, 3, 64, 64]"
  shows "\<exists>s0 s1 b0 b1 f0 f1.
     returns (forward_feats (ex_library True)
        ((ex_model True 8 100)\<lparr>cpu_cache := Some False, is_mirror_extended := True\<rparr>)
        x x 1 2 3 64 64)
       [(''spatial'', [s0, s1]), (''backward_1'', [b0, b1]), (''forward_1'', [f0, f1])] \<and>
     shape s0 = [1, 8, 64, 64] \<and> shape s1 = [1, 8, 64, 64] \<and>
     shape b0 = [1, 8, 64, 64] \<and> shape b1 = [1, 8, 64, 64] \<and>
     shape f0 = [1, 8, 64, 64] \<and> shape f1 = [1, 8, 64, 64]"
proof -
  let ?m = "(ex_model True 8 100)\<lparr>cpu_cache := Some False, is_mirror_extended := True\<rparr>"
  from ex_spatial_features [OF x] obtain s0 s1 where
    1: "returns (spatial_features (ex_library True) ?m False x 1 2 3 64 64) ([s0, s1], 64, 64)"
    and s: "shape s0 = [1, 8, 64, 64]" "shape s1 = [1, 8, 64, 64]" by blast
  from ex_compute_flow [OF x] obtain ff fb where
    2: "returns (compute_flow ?m x) (ff, fb)"
    and f: "shape ff = [1, 1, 2, 64, 64]" "shape fb = [1, 1, 2, 64, 64]" by blast
  from ex_propagate_backward [OF s f(2)] obtain b0 b1 where
    3: "returns (propagate (ex_library True) ?m
          [(''spatial'', [s0, s1]), (''backward_1'', [])] fb ''backward_1'')
          [(''spatial'', [s0, s1]), (''backward_1'', [b0, b1])]"
    and b: "shape b0 = [1, 8, 64, 64]" "shape b1 = [1, 8, 64, 64]" by blast
  from ex_propagate_forward [OF s f(1) b] obtain f0 f1 where
    4: "returns (propagate (ex_library True) ?m
          [(''spatial'', [s0, s1]), (''backward_1'', [b0, b1]), (''forward_1'', [])] ff ''forward_1'')
          [(''spatial'', [s0, s1]), (''backward_1'', [b0, b1]), (''forward_1'', [f0, f1])]"
    and g: "shape f0 = [1, 8, 64, 64]" "shape f1 = [1, 8, 64, 64]" by blast
  have 5: "returns (assert_low_res x 64 64) ()"
    using x by (simp add: assert_low_res_def)
  have d0: "dict_set [(''spatial'', [s0, s1])] ''backward_1'' [] =
      [(''spatial'', [s0, s1]), (''backward_1'', [])]" by simp
  have d1: "dict_set [(''spatial'', [s0, s1]), (''backward_1'', [b0, b1])] ''forward_1'' [] =
      [(''spatial'', [s0, s1]), (''backward_1'', [b0, b1]), (''forward_1'', [])]" by simp
  have 6: "returns (propagate_all (ex_library True) ?m [(''spatial'', [s0, s1])] ff fb)
          [(''spatial'', [s0, s1]), (''backward_1'', [b0, b1]), (''forward_1'', [f0, f1])]"
    unfolding propagate_all_def d0
    apply (rule returns_rbindI [OF 3])
    unfolding d1
    apply (rule 4)
    done
  have 0: "returns (get_cpu_cache ?m) False" by (simp add: returns_get_cpu_cache)
  have "returns (forward_feats (ex_library True) ?m x x 1 2 3 64 64)
          [(''spatial'', [s0, s1]), (''backward_1'', [b0, b1]), (''forward_1'', [f0, f1])]"
    unfolding forward_feats_def
    apply (rule returns_rbindI [OF 0])
    apply (rule returns_rbindI [OF 1])
    apply (simp only: prod.case)
    apply (rule returns_rbindI [OF 5])
    apply (rule returns_rbindI [OF 2])
    apply (simp only: prod.case)
    apply (rule 6)
    done
  with s b g show ?thesis by blast
qed

lemma zero_seq_mirrored:
  "check_if_mirror_extended m (zero_seq n 2 c h w) = ret (m\<lparr>is_mirror_extended := True\<rparr>)"
  by (rule check_palindrome [where n = n and t = 2 and r = "[c, h, w]"])
     (simp_all add: zero_seq_def zero_frames_def finite5_zero_seq [unfolded zero_seq_def zero_frames_def])

lemma ex_forward:
  "\<exists>out. forward (ex_library True) (ex_model True 8 100) (zero_seq 1 2 3 64 64) =
      ((ex_model True 8 100)\<lparr>cpu_cache := Some False, is_mirror_extended := True\<rparr>,
       snd (forward (ex_library True) (ex_model True 8 100) (zero_seq 1 2 3 64 64))) \<and>
     returns (snd (forward (ex_library True) (ex_model True 8 100) (zero_seq 1 2 3 64 64))) out \<and>
     shape out = [1, 2, 3, 256, 256]"
proof -
  let ?m = "(ex_model True 8 100)\<lparr>cpu_cache := Some False, is_mirror_extended := True\<rparr>"
  let ?x = "zero_seq 1 2 3 64 64"
  have x: "shape ?x = [1, 2, 3, 64, 64]" by (simp add: zero_seq_def)
  have c: "check_if_mirror_extended
      ((ex_model True 8 100)\<lparr>cpu_cache := Some (cpu_cache_length (ex_model True 8 100) < int 2)\<rparr>) ?x =
      ret ?m"
    by (simp add: zero_seq_mirrored)
  have l: "is_low_res_input (ex_model True 8 100)" by simp
  note f = forward_low_res [OF l x c, of "ex_library True"]
  from ex_forward_feats [OF x] obtain s0 s1 b0 b1 f0 f1 where
    1: "returns (forward_feats (ex_library True) ?m ?x ?x 1 2 3 64 64)
       [(''spatial'', [s0, s1]), (''backward_1'', [b0, b1]), (''forward_1'', [f0, f1])]"
    and s: "shape s0 = [1, 8, 64, 64]" "shape s1 = [1, 8, 64, 64]"
      "shape b0 = [1, 8, 64, 64]" "shape b1 = [1, 8, 64, 64]"
      "shape f0 = [1, 8, 64, 64]" "shape f1 = [1, 8, 64, 64]" by blast
  from ex_upsample [OF x s] obtain out where
    2: "returns (upsample (ex_library True) ?m ?x
        [(''spatial'', [s0, s1]), (''backward_1'', [b0, b1]), (''forward_1'', [f0, f1])])
       (out, [(''spatial'', [s0, s1]), (''backward_1'', []), (''forward_1'', [])])"
    and o: "shape out = [1, 2, 3, 256, 256]" by blast
  have "returns (snd (forward (ex_library True) (ex_model True 8 100) ?x)) out"
    unfolding f snd_conv
    apply (rule returns_rbindI [OF 1])
    apply (rule returns_rbindI [OF 2])
    apply (simp only: prod.case returns_ret)
    done
  moreover have "fst (forward (ex_library True) (ex_model True 8 100) ?x) = ?m"
    unfolding f by simp
  ultimately show ?thesis using o by (intro exI [of _ out]) (simp add: prod_eq_iff)
qed

lemma outcome_rbind_returns: "returns m x \<Longrightarrow> outcome (rbind m f) = outcome (f x)"
  by (cases m) (auto simp: returns_def outcome_def rbind_def split: sum.splits prod.splits)

lemma outcome_rbind_raises: "outcome m = Inl e \<Longrightarrow> outcome (rbind m f) = Inl e"
  by (cases m) (auto simp: outcome_def rbind_def split: sum.splits prod.splits)

lemma ex_cache_spatial_features:
  assumes "shape x = [1, 2, 3, 64, 64]"
  shows "\<exists>s0 s1.
     returns (spatial_features (ex_library True)
        ((ex_model True 8 1)\<lparr>cpu_cache := Some True, is_mirror_extended := True\<rparr>)
        True x 1 2 3 64 64) ([s0, s1], 64, 64) \<and>
     shape s0 = [2, 8, 64, 64] \<and> shape s1 = [2, 8, 64, 64]"
  using assms by (simp add: forward_stage_defs eval_simps)

lemma ex_cache_compute_flow:
  assumes "shape x = [1, 2, 3, 64, 64]"
  shows "\<exists>ff fb.
     returns (compute_flow
        ((ex_model True 8 1)\<lparr>cpu_cache := Some True, is_mirror_extended := True\<rparr>) x) (ff, fb) \<and>
     shape ff = [1, 1, 2, 64, 64] \<and> shape fb = [1, 1, 2, 64, 64]"
  using assms by (simp add: forward_stage_defs eval_simps)

lemma ex_cache_propagate:
  assumes "shape s0 = [2, 8, 64, 64]" "shape s1 = [2, 8, 64, 64]" "shape fl = [1, 1, 2, 64, 64]"
  shows "outcome (propagate (ex_library True)
        ((ex_model True 8 1)\<lparr>cpu_cache := Some True, is_mirror_extended := True\<rparr>)
        [(''spatial'', [s0, s1]), (''backward_1'', [])] fl ''backward_1'') =
     Inl (RuntimeError ''stack expects each tensor to be equal size'')"
  using assms by (simp add: eval_simps)

lemma ex_cache_forward:
  "outcome (snd (forward (ex_library True) (ex_model True 8 1) (zero_seq 1 2 3 64 64))) =
     Inl (RuntimeError ''stack expects each tensor to be equal size'')"
proof -
  let ?m = "(ex_model True 8 1)\<lparr>cpu_cache := Some True, is_mirror_extended := True\<rparr>"
  let ?x = "zero_seq 1 2 3 64 64"
  have x: "shape ?x = [1, 2, 3, 64, 64]" by (simp add: zero_seq_def)
  have c: "check_if_mirror_extended
      ((ex_model True 8 1)\<lparr>cpu_cache := Some (cpu_cache_length (ex_model True 8 1) < int 2)\<rparr>) ?x =
      ret ?m"
    by (simp add: zero_seq_mirrored)
  have l: "is_low_res_input (ex_model True 8 1)" by simp
  note f = forward_low_res [OF l x c, of "ex_library True"]
  from ex_cache_spatial_features [OF x] obtain s0 s1 where
    1: "returns (spatial_features (ex_library True) ?m True ?x 1 2 3 64 64) ([s0, s1], 64, 64)"
    and s: "shape s0 = [2, 8, 64, 64]" "shape s1 = [2, 8, 64, 64]" by blast
  from ex_cache_compute_flow [OF x] obtain ff fb where
    2: "returns (compute_flow ?m ?x) (ff, fb)"
    and fl: "shape ff = [1, 1, 2, 64, 64]" "shape fb = [1, 1, 2, 64, 64]" by blast
  note 3 = ex_cache_propagate [OF s fl(2)]
  have 5: "returns (assert_low_res ?x 64 64) ()"
    using x by (simp add: assert_low_res_def)
  have 0: "returns (get_cpu_cache ?m) True" by (simp add: returns_get_cpu_cache)
  have d0: "dict_set [(''spatial'', [s0, s1])] ''backward_1'' [] =
      [(''spatial'', [s0, s1]), (''backward_1'', [])]" by simp
  have 6: "outcome (propagate_all (ex_library True) ?m [(''spatial'', [s0, s1])] ff fb) =
      Inl (RuntimeError ''stack expects each tensor to be equal size'')"
    unfolding propagate_all_def d0 by (rule outcome_rbind_raises [OF 3])
  have "outcome (forward_feats (ex_library True) ?m ?x ?x 1 2 3 64 64) =
      Inl (RuntimeError ''stack expects each tensor to be equal size'')"
    unfolding forward_feats_def
    by (simp only: outcome_rbind_returns [OF 0] outcome_rbind_returns [OF 1]
        outcome_rbind_returns [OF 5] outcome_rbind_returns [OF 2] prod.case 6)
  then show ?thesis
    unfolding f snd_conv by (rule outcome_rbind_raises)
qed

lemma spatial_features_attrs:
  "spatial_features L (m\<lparr>cpu_cache := a\<rparr>) = spatial_features L m"
  "spatial_features L (m\<lparr>is_mirror_extended := b\<rparr>) = spatial_features L m"
  by (simp_all add: spatial_features_def spatial_feature_def fun_eq_iff)

lemma fails_rbind: "fails m \<Longrightarrow> fails (rbind m f)"
  by (cases m) (auto simp: fails_def outcome_def rbind_def split: sum.splits prod.splits)

lemma fails_outcome: "outcome m = Inl e \<Longrightarrow> fails m"
  by (simp add: fails_def)

lemma forward_feats_small:
  assumes s: "shape lqs = [n, t, c, h, w]" and c: "cpu_cache m = Some cache"
    and small: "h < 64 \<or> w < 64"
  shows "fails (forward_feats L m lqs lqs n t c h w)"
    and "returns (spatial_features L m cache lqs n t c h w) (sp, h', w') \<Longrightarrow>
         outcome (forward_feats L m lqs lqs n t c h w) = Inl (AssertionError (low_res_message h' w'))"
proof -
  have 0: "returns (get_cpu_cache m) cache" using c by (simp add: returns_get_cpu_cache)
  have a: "outcome (assert_low_res lqs h' w') = Inl (AssertionError (low_res_message h' w'))"
    for h' w'
    using s small by (auto simp: assert_low_res_def)
  show 2: "outcome (forward_feats L m lqs lqs n t c h w) = Inl (AssertionError (low_res_message h' w'))"
    if 1: "returns (spatial_features L m cache lqs n t c h w) (sp, h', w')" for sp h' w'
    unfolding forward_feats_def
    by (simp only: outcome_rbind_returns [OF 0] outcome_rbind_returns [OF 1] prod.case
        outcome_rbind_raises [OF a])
  show "fails (forward_feats L m lqs lqs n t c h w)"
  proof (cases "fails (spatial_features L m cache lqs n t c h w)")
    case True
    then obtain e where "outcome (spatial_features L m cache lqs n t c h w) = Inl e"
      by (cases "outcome (spatial_features L m cache lqs n t c h w)") (auto simp: fails_def)
    then have "outcome (forward_feats L m lqs lqs n t c h w) = Inl e"
      unfolding forward_feats_def
      by (simp only: outcome_rbind_returns [OF 0] outcome_rbind_raises)
    then show ?thesis by (rule fails_outcome)
  next
    case False
    then obtain sp h' w' where "returns (spatial_features L m cache lqs n t c h w) (sp, h', w')"
      by (auto simp: fails_iff)
    from 2 [OF this] show ?thesis by (rule fails_outcome)
  qed
qed

lemma ex_small_spatial_features:
  assumes "shape x = [1, 2, 3, 63, 63]"
  shows "\<exists>sp. returns (spatial_features (ex_library True) (ex_model True 8 100) False x 1 2 3 63 63)
     (sp, 63, 63)"
  using assms by (simp add: forward_stage_defs eval_simps)

section \<open>The flows on an instance with the flag\<close>

lemma quiet_frame_pairs [quiet_intros]: "quiet (frame_pairs lqs c h w)"
  unfolding frame_pairs_def by (auto intro!: quiet_rbind quiet_intros)

lemma compute_flow_frame_pairs:
  assumes "shape lqs = [n, t, c, h, w]"
  shows "compute_flow m lqs =
     rbind (frame_pairs lqs c h w) (\<lambda>(lqs_1, lqs_2).
     rbind (call_spynet m lqs_1 lqs_2) (\<lambda>fb.
     rbind (view45 [int n, int t - 1, 2, int h, int w] fb) (\<lambda>flows_backward.
     rbind (if is_mirror_extended m then flip1 flows_backward
            else rbind (call_spynet m lqs_2 lqs_1) (\<lambda>ff.
                 view45 [int n, int t - 1, 2, int h, int w] ff)) (\<lambda>flows_forward.
     rbind (get_cpu_cache m) (\<lambda>cache.
     ret (flows_forward, flows_backward))))))"
  using assms by (simp add: compute_flow_def frame_pairs_def rbind_assoc)

lemma calls_rbind:
  "filter is_spynet_call (events (rbind m f)) =
     filter is_spynet_call (events m) @
     (case outcome m of Inl e \<Rightarrow> [] | Inr x \<Rightarrow> filter is_spynet_call (events (f x)))"
  by (simp add: events_rbind split: sum.splits)

lemma events_rbind_quiet:
  "quiet m \<Longrightarrow> events (rbind m f) = (case outcome m of Inl e \<Rightarrow> [] | Inr x \<Rightarrow> events (f x))"
  by (simp add: events_rbind quiet_def split: sum.splits)

lemma events_rbind_quiet_tail:
  "(\<And>x. quiet (f x)) \<Longrightarrow> events (rbind m f) = events m"
  by (simp add: events_rbind quiet_def split: sum.splits)

lemma compute_flow_flagged_events:
  assumes f: "is_mirror_extended m" and s: "shape lqs = [n, t, c, h, w]"
  shows "events (compute_flow m lqs) = [] \<or>
     (\<exists>l1 l2. returns (frame_pairs lqs c h w) (l1, l2) \<and>
        events (compute_flow m lqs) = [Spynet_call l1 l2])"
proof (cases "outcome (frame_pairs lqs c h w)")
  case (Inl e)
  then show ?thesis
    unfolding compute_flow_frame_pairs [OF s]
    by (simp add: events_rbind_quiet quiet_frame_pairs)
next
  case (Inr p)
  obtain l1 l2 where p: "p = (l1, l2)" by (cases p)
  have q: "quiet (rbind (view45 [int n, int t - 1, 2, int h, int w] fb) (\<lambda>flows_backward.
     rbind (flip1 flows_backward) (\<lambda>flows_forward.
     rbind (get_cpu_cache m) (\<lambda>cache.
     ret (flows_forward, flows_backward)))))" for fb
    by (auto intro!: quiet_rbind quiet_intros)
  have "events (compute_flow m lqs) = [Spynet_call l1 l2]"
    unfolding compute_flow_frame_pairs [OF s]
    using Inr p f q by (simp add: events_rbind_quiet quiet_frame_pairs events_rbind_quiet_tail)
  moreover have "returns (frame_pairs lqs c h w) (l1, l2)"
    using Inr p by (simp add: returns_def)
  ultimately show ?thesis by blast
qed

lemma compute_flow_flagged_returns:
  assumes f: "is_mirror_extended m" and s: "shape lqs = [n, t, c, h, w]"
    and r: "returns (compute_flow m lqs) (ff, fb)"
  shows "\<exists>l1 l2 est. returns (frame_pairs lqs c h w) (l1, l2) \<and>
     events (compute_flow m lqs) = [Spynet_call l1 l2] \<and>
     returns (apply_net2 (spynet m) l1 l2) est \<and>
     returns (view45 [int n, int t - 1, 2, int h, int w] est) fb \<and>
     returns (flip1 fb) ff"
proof -
  from r f obtain l1 l2 est where
    1: "returns (frame_pairs lqs c h w) (l1, l2)"
    and 2: "returns (call_spynet m l1 l2) est"
    and 3: "returns (view45 [int n, int t - 1, 2, int h, int w] est) fb"
    and 4: "returns (flip1 fb) ff"
    unfolding compute_flow_frame_pairs [OF s] by auto
  from 2 have 5: "returns (apply_net2 (spynet m) l1 l2) est"
    by (simp add: call_spynet_def)
  from compute_flow_flagged_events [OF f s] have
    "events (compute_flow m lqs) = [Spynet_call l1 l2]"
  proof
    assume e: "events (compute_flow m lqs) = []"
    have "events (compute_flow m lqs) \<noteq> []"
      unfolding compute_flow_frame_pairs [OF s]
      using 1 by (simp add: events_rbind_quiet quiet_frame_pairs returns_def events_rbind)
    with e show ?thesis by simp
  next
    assume "\<exists>l1 l2. returns (frame_pairs lqs c h w) (l1, l2) \<and>
        events (compute_flow m lqs) = [Spynet_call l1 l2]"
    with 1 show ?thesis by (auto dest: returns_fun)
  qed
  with 1 3 4 5 show ?thesis by blast
qed

lemma outcome_rbind:
  "outcome (rbind m f) = (case outcome m of Inl e \<Rightarrow> Inl e | Inr x \<Rightarrow> outcome (f x))"
  by (cases m) (auto simp: outcome_def rbind_def split: sum.splits prod.splits)

lemma calls_quiet: "quiet m \<Longrightarrow> filter is_spynet_call (events m) = []"
  by (simp add: quiet_def)

lemma calls_propagate_all: "filter is_spynet_call (events (propagate_all L m fs ff fb)) = []"
  using spynet_calls_propagate_all [of L m fs ff fb] by (simp add: spynet_calls_def)

lemma calls_compute_flow_flagged:
  assumes "is_mirror_extended m" "shape d = [n, t, c, h, w]"
  shows "filter is_spynet_call (events (compute_flow m d)) = events (compute_flow m d)"
  using compute_flow_flagged_events [OF assms] by auto

lemma calls_forward_feats:
  assumes f: "is_mirror_extended m" and sd: "shape d = [n2, t2, c2, h2, w2]"
  shows "filter is_spynet_call (events (forward_feats L m lqs d n t c h w)) = [] \<or>
         filter is_spynet_call (events (forward_feats L m lqs d n t c h w)) =
           events (compute_flow m d)"
    and "returns (forward_feats L m lqs d n t c h w) fs \<Longrightarrow>
         filter is_spynet_call (events (forward_feats L m lqs d n t c h w)) =
           events (compute_flow m d) \<and>
         (\<exists>ff fb. returns (compute_flow m d) (ff, fb))"
proof -
  note c = calls_compute_flow_flagged [OF f sd]
  show "filter is_spynet_call (events (forward_feats L m lqs d n t c h w)) = [] \<or>
         filter is_spynet_call (events (forward_feats L m lqs d n t c h w)) =
           events (compute_flow m d)"
    unfolding forward_feats_def
    by (auto simp: calls_rbind calls_quiet quiet_intros calls_propagate_all c
        split: sum.splits prod.splits)
  show "filter is_spynet_call (events (forward_feats L m lqs d n t c h w)) =
           events (compute_flow m d) \<and>
         (\<exists>ff fb. returns (compute_flow m d) (ff, fb))"
    if "returns (forward_feats L m lqs d n t c h w) fs"
    using that unfolding forward_feats_def
    by (auto simp: calls_rbind calls_quiet quiet_intros calls_propagate_all c returns_def
        outcome_rbind split: sum.splits prod.splits)
qed

lemma forward_flagged_flows:
  assumes s: "shape lqs = [n, t, c, h, w]" and lr: "is_low_res_input m"
    and fl: "is_mirror_extended (fst (forward L m lqs))"
  shows "filter is_spynet_call (events (snd (forward L m lqs))) = [] \<or>
         (\<exists>l1 l2. returns (frame_pairs lqs c h w) (l1, l2) \<and>
            filter is_spynet_call (events (snd (forward L m lqs))) = [Spynet_call l1 l2])"
    and "returns (snd (forward L m lqs)) out \<Longrightarrow>
         \<exists>l1 l2 est ff fb. returns (frame_pairs lqs c h w) (l1, l2) \<and>
            filter is_spynet_call (events (snd (forward L m lqs))) = [Spynet_call l1 l2] \<and>
            returns (apply_net2 (spynet m) l1 l2) est \<and>
            returns (view45 [int n, int t - 1, 2, int h, int w] est) fb \<and>
            returns (flip1 fb) ff \<and>
            returns (compute_flow (fst (forward L m lqs)) lqs) (ff, fb)"
proof -
  let ?m1 = "m\<lparr>cpu_cache := Some (cpu_cache_length m < int t)\<rparr>"
  from forward_rank5 [OF s, of L] obtain b where
    "\<And>m. check_if_mirror_extended m lqs = ret (if b then m\<lparr>is_mirror_extended := True\<rparr> else m)"
    by blast
  then have "check_if_mirror_extended ?m1 lqs =
      ret (if b then ?m1\<lparr>is_mirror_extended := True\<rparr> else ?m1)" .
  note f = forward_low_res [OF lr s this, of L]
  let ?m2 = "if b then ?m1\<lparr>is_mirror_extended := True\<rparr> else ?m1"
  have m2: "fst (forward L m lqs) = ?m2" unfolding f by simp
  have sp: "spynet ?m2 = spynet m" by simp
  from fl have fl2: "is_mirror_extended ?m2" unfolding m2 .
  have ev: "filter is_spynet_call (events (snd (forward L m lqs))) =
      filter is_spynet_call (events (forward_feats L ?m2 lqs lqs n t c h w))"
    unfolding f snd_conv
    by (auto simp: calls_rbind calls_quiet quiet_intros split: sum.splits prod.splits)
  note cf = calls_forward_feats [OF fl2 s, of L lqs n t c h w]
  show "filter is_spynet_call (events (snd (forward L m lqs))) = [] \<or>
         (\<exists>l1 l2. returns (frame_pairs lqs c h w) (l1, l2) \<and>
            filter is_spynet_call (events (snd (forward L m lqs))) = [Spynet_call l1 l2])"
    unfolding ev using cf(1) compute_flow_flagged_events [OF fl2 s] by auto
  show "\<exists>l1 l2 est ff fb. returns (frame_pairs lqs c h w) (l1, l2) \<and>
            filter is_spynet_call (events (snd (forward L m lqs))) = [Spynet_call l1 l2] \<and>
            returns (apply_net2 (spynet m) l1 l2) est \<and>
            returns (view45 [int n, int t - 1, 2, int h, int w] est) fb \<and>
            returns (flip1 fb) ff \<and>
            returns (compute_flow (fst (forward L m lqs)) lqs) (ff, fb)"
    if r: "returns (snd (forward L m lqs)) out"
  proof -
    from r obtain fs where "returns (forward_feats L ?m2 lqs lqs n t c h w) fs"
      unfolding f snd_conv by auto
    from cf(2) [OF this] obtain ff fb where
      e: "filter is_spynet_call (events (forward_feats L ?m2 lqs lqs n t c h w)) =
           events (compute_flow ?m2 lqs)"
      and c: "returns (compute_flow ?m2 lqs) (ff, fb)" by blast
    from compute_flow_flagged_returns [OF fl2 s c] obtain l1 l2 est where
      "returns (frame_pairs lqs c h w) (l1, l2)"
      "events (compute_flow ?m2 lqs) = [Spynet_call l1 l2]"
      "returns (apply_net2 (spynet ?m2) l1 l2) est"
      "returns (view45 [int n, int t - 1, 2, int h, int w] est) fb"
      "returns (flip1 fb) ff"
      by blast
    with c show ?thesis unfolding ev e m2 sp by blast
  qed
qed

section \<open>A run on four frames\<close>

lemma ex4_spatial_features:
  assumes "shape x = [1, 4, 3, 64, 64]"
  shows "\<exists>s0 s1 s2 s3.
     returns (spatial_features (ex_library True) ((ex_model True 8 100)\<lparr>cpu_cache := Some False, is_mirror_extended := True\<rparr>) False x 1 4 3 64 64) ([s0, s1, s2, s3], 64, 64) \<and>
     shape s0 = [1, 8, 64, 64] \<and> shape s1 = [1, 8, 64, 64] \<and>
     shape s2 = [1, 8, 64, 64] \<and> shape s3 = [1, 8, 64, 64]"
  using assms by (simp add: forward_stage_defs eval_simps)

lemma ex4_compute_flow:
  assumes "shape x = [1, 4, 3, 64, 64]"
  shows "\<exists>ff fb. returns (compute_flow ((ex_model True 8 100)\<lparr>cpu_cache := Some False, is_mirror_extended := True\<rparr>) x) (ff, fb) \<and>
     shape ff = [1, 3, 2, 64, 64] \<and> shape fb = [1, 3, 2, 64, 64]"
  using assms by (simp add: forward_stage_defs eval_simps)

lemma ex4_bw_step0:
  assumes "shape s0 = [1, 8, 64, 64]" "shape s1 = [1, 8, 64, 64]" "shape s2 = [1, 8, 64, 64]" "shape s3 = [1, 8, 64, 64]"
    "shape fl = [1, 3, 2, 64, 64]" "shape fp = [1, 8, 64, 64]"
  shows "\<exists>y. returns (prop_step (ex_library True) ((ex_model True 8 100)\<lparr>cpu_cache := Some False, is_mirror_extended := True\<rparr>) fl ''backward_1'' [0, 1, 2, 3, 3, 2, 1, 0] [3, 2, 1, 0] (0, 3)
        ([(''spatial'', [s0, s1, s2, s3]), (''backward_1'', [])], fp))
       ([(''spatial'', [s0, s1, s2, s3]), (''backward_1'', [y])], y) \<and>
     shape y = [1, 8, 64, 64]"
  using assms by (simp add: eval_simps)

lemma ex4_bw_step1:
  assumes "shape s0 = [1, 8, 64, 64]" "shape s1 = [1, 8, 64, 64]" "shape s2 = [1, 8, 64, 64]" "shape s3 = [1, 8, 64, 64]"
    "shape fl = [1, 3, 2, 64, 64]" "shape fp = [1, 8, 64, 64]"
    "shape c0 = [1, 8, 64, 64]"
  shows "\<exists>y. returns (prop_step (ex_library True) ((ex_model True 8 100)\<lparr>cpu_cache := Some False, is_mirror_extended := True\<rparr>) fl ''backward_1'' [0, 1, 2, 3, 3, 2, 1, 0] [3, 2, 1, 0] (1, 2)
        ([(''spatial'', [s0, s1, s2, s3]), (''backward_1'', [c0])], fp))
       ([(''spatial'', [s0, s1, s2, s3]), (''backward_1'', [c0, y])], y) \<and>
     shape y = [1, 8, 64, 64]"
  using assms by (simp add: eval_simps)

lemma ex4_bw_step2:
  assumes "shape s0 = [1, 8, 64, 64]" "shape s1 = [1, 8, 64, 64]" "shape s2 = [1, 8, 64, 64]" "shape s3 = [1, 8, 64, 64]"
    "shape fl = [1, 3, 2, 64, 64]" "shape fp = [1, 8, 64, 64]"
    "shape c0 = [1, 8, 64, 64]" "shape c1 = [1, 8, 64, 64]"
  shows "\<exists>y. returns (prop_step (ex_library True) ((ex_model True 8 100)\<lparr>cpu_cache := Some False, is_mirror_extended := True\<rparr>) fl ''backward_1'' [0, 1, 2, 3, 3, 2, 1, 0] [3, 2, 1, 0] (2, 1)
        ([(''spatial'', [s0, s1, s2, s3]), (''backward_1'', [c0, c1])], fp))
       ([(''spatial'', [s0, s1, s2, s3]), (''backward_1'', [c0, c1, y])], y) \<and>
     shape y = [1, 8, 64, 64]"
  using assms by (simp add: eval_simps)

lemma ex4_bw_step3:
  assumes "shape s0 = [1, 8, 64, 64]" "shape s1 = [1, 8, 64, 64]" "shape s2 = [1, 8, 64, 64]" "shape s3 = [1, 8, 64, 64]"
    "shape fl = [1, 3, 2, 64, 64]" "shape fp = [1, 8, 64, 64]"
    "shape c0 = [1, 8, 64, 64]" "shape c1 = [1, 8, 64, 64]" "shape c2 = [1, 8, 64, 64]"
  shows "\<exists>y. returns (prop_step (ex_library True) ((ex_model True 8 100)\<lparr>cpu_cache := Some False, is_mirror_extended := True\<rparr>) fl ''backward_1'' [0, 1, 2, 3, 3, 2, 1, 0] [3, 2, 1, 0] (3, 0)
        ([(''spatial'', [s0, s1, s2, s3]), (''backward_1'', [c0, c1, c2])], fp))
       ([(''spatial'', [s0, s1, s2, s3]), (''backward_1'', [c0, c1, c2, y])], y) \<and>
     shape y = [1, 8, 64, 64]"
  using assms by (simp add: eval_simps)

lemma ex4_fw_step0:
  assumes "shape s0 = [1, 8, 64, 64]" "shape s1 = [1, 8, 64, 64]" "shape s2 = [1, 8, 64, 64]" "shape s3 = [1, 8, 64, 64]"
    "shape fl = [1, 3, 2, 64, 64]" "shape fp = [1, 8, 64, 64]"
    "shape b0 = [1, 8, 64, 64]" "shape b1 = [1, 8, 64, 64]" "shape b2 = [1, 8, 64, 64]" "shape b3 = [1, 8, 64, 64]"
  shows "\<exists>y. returns (prop_step (ex_library True) ((ex_model True 8 100)\<lparr>cpu_cache := Some False, is_mirror_extended := True\<rparr>) fl ''forward_1'' [0, 1, 2, 3, 3, 2, 1, 0] [- 1, 0, 1, 2] (0, 0)
        ([(''spatial'', [s0, s1, s2, s3]), (''backward_1'', [b0, b1, b2, b3]), (''forward_1'', [])], fp))
       ([(''spatial'', [s0, s1, s2, s3]), (''backward_1'', [b0, b1, b2, b3]), (''forward_1'', [y])], y) \<and>
     shape y = [1, 8, 64, 64]"
  using assms by (simp add: eval_simps)

lemma ex4_fw_step1:
  assumes "shape s0 = [1, 8, 64, 64]" "shape s1 = [1, 8, 64, 64]" "shape s2 = [1, 8, 64, 64]" "shape s3 = [1, 8, 64, 64]"
    "shape fl = [1, 3, 2, 64, 64]" "shape fp = [1, 8, 64, 64]"
    "shape b0 = [1, 8, 64, 64]" "shape b1 = [1, 8, 64, 64]" "shape b2 = [1, 8, 64, 64]" "shape b3 = [1, 8, 64, 64]"
    "shape c0 = [1, 8, 64, 64]"
  shows "\<exists>y. returns (prop_step (ex_library True) ((ex_model True 8 100)\<lparr>cpu_cache := Some False, is_mirror_extended := True\<rparr>) fl ''forward_1'' [0, 1, 2, 3, 3, 2, 1, 0] [- 1, 0, 1, 2] (1, 1)
        ([(''spatial'', [s0, s1, s2, s3]), (''backward_1'', [b0, b1, b2, b3]), (''forward_1'', [c0])], fp))
       ([(''spatial'', [s0, s1, s2, s3]), (''backward_1'', [b0, b1, b2, b3]), (''forward_1'', [c0, y])], y) \<and>
     shape y = [1, 8, 64, 64]"
  using assms by (simp add: eval_simps)

lemma ex4_fw_step2:
  assumes "shape s0 = [1, 8, 64, 64]" "shape s1 = [1, 8, 64, 64]" "shape s2 = [1, 8, 64, 64]" "shape s3 = [1, 8, 64, 64]"
    "shape fl = [1, 3, 2, 64, 64]" "shape fp = [1, 8, 64, 64]"
    "shape b0 = [1, 8, 64, 64]" "shape b1 = [1, 8, 64, 64]" "shape b2 = [1, 8, 64, 64]" "shape b3 = [1, 8, 64, 64]"
    "shape c0 = [1, 8, 64, 64]" "shape c1 = [1, 8, 64, 64]"
  shows "\<exists>y. returns (prop_step (ex_library True) ((ex_model True 8 100)\<lparr>cpu_cache := Some False, is_mirror_extended := True\<rparr>) fl ''forward_1'' [0, 1, 2, 3, 3, 2, 1, 0] [- 1, 0, 1, 2] (2, 2)
        ([(''spatial'', [s0, s1, s2, s3]), (''backward_1'', [b0, b1, b2, b3]), (''forward_1'', [c0, c1])], fp))
       ([(''spatial'', [s0, s1, s2, s3]), (''backward_1'', [b0, b1, b2, b3]), (''forward_1'', [c0, c1, y])], y) \<and>
     shape y = [1, 8, 64, 64]"
  using assms by (simp add: eval_simps)

lemma ex4_fw_step3:
  assumes "shape s0 = [1, 8, 64, 64]" "shape s1 = [1, 8, 64, 64]" "shape s2 = [1, 8, 64, 64]" "shape s3 = [1, 8, 64, 64]"
    "shape fl = [1, 3, 2, 64, 64]" "shape fp = [1, 8, 64, 64]"
    "shape b0 = [1, 8, 64, 64]" "shape b1 = [1, 8, 64, 64]" "shape b2 = [1, 8, 64, 64]" "shape b3 = [1, 8, 64, 64]"
    "shape c0 = [1, 8, 64, 64]" "shape c1 = [1, 8, 64, 64]" "shape c2 = [1, 8, 64, 64]"
  shows "\<exists>y. returns (prop_step (ex_library True) ((ex_model True 8 100)\<lparr>cpu_cache := Some False, is_mirror_extended := True\<rparr>) fl ''forward_1'' [0, 1, 2, 3, 3, 2, 1, 0] [- 1, 0, 1, 2] (3, 3)
        ([(''spatial'', [s0, s1, s2, s3]), (''backward_1'', [b0, b1, b2, b3]), (''forward_1'', [c0, c1, c2])], fp))
       ([(''spatial'', [s0, s1, s2, s3]), (''backward_1'', [b0, b1, b2, b3]), (''forward_1'', [c0, c1, c2, y])], y) \<and>
     shape y = [1, 8, 64, 64]"
  using assms by (simp add: eval_simps)

lemma ex4_propagate_backward:
  assumes s: "shape s0 = [1, 8, 64, 64]" "shape s1 = [1, 8, 64, 64]" "shape s2 = [1, 8, 64, 64]" "shape s3 = [1, 8, 64, 64]"
    and fl: "shape fl = [1, 3, 2, 64, 64]"
  shows "\<exists>b0 b1 b2 b3. returns (propagate (ex_library True) ((ex_model True 8 100)\<lparr>cpu_cache := Some False, is_mirror_extended := True\<rparr>)
        [(''spatial'', [s0, s1, s2, s3]), (''backward_1'', [])] fl ''backward_1'')
       [(''spatial'', [s0, s1, s2, s3]), (''backward_1'', [b0, b1, b2, b3])] \<and>
     shape b0 = [1, 8, 64, 64] \<and> shape b1 = [1, 8, 64, 64] \<and> shape b2 = [1, 8, 64, 64] \<and> shape b3 = [1, 8, 64, 64]"
proof -
  have z: "shape (zeros4 1 8 64 64) = [1, 8, 64, 64]" by (simp add: zeros4_def)
  from ex4_bw_step0 [OF s fl z] obtain c0 where
    0: "returns (prop_step (ex_library True) ((ex_model True 8 100)\<lparr>cpu_cache := Some False, is_mirror_extended := True\<rparr>) fl ''backward_1'' [0, 1, 2, 3, 3, 2, 1, 0] [3, 2, 1, 0] (0, 3)
        ([(''spatial'', [s0, s1, s2, s3]), (''backward_1'', [])], zeros4 1 8 64 64))
       ([(''spatial'', [s0, s1, s2, s3]), (''backward_1'', [c0])], c0)"
    and c0: "shape c0 = [1, 8, 64, 64]" by blast
  from ex4_bw_step1 [OF s fl c0 c0] obtain c1 where
    1: "returns (prop_step (ex_library True) ((ex_model True 8 100)\<lparr>cpu_cache := Some False, is_mirror_extended := True\<rparr>) fl ''backward_1'' [0, 1, 2, 3, 3, 2, 1, 0] [3, 2, 1, 0] (1, 2)
        ([(''spatial'', [s0, s1, s2, s3]), (''backward_1'', [c0])], c0))
       ([(''spatial'', [s0, s1, s2, s3]), (''backward_1'', [c0, c1])], c1)"
    and c1: "shape c1 = [1, 8, 64, 64]" by blast
  from ex4_bw_step2 [OF s fl c1 c0 c1] obtain c2 where
    2: "returns (prop_step (ex_library True) ((ex_model True 8 100)\<lparr>cpu_cache := Some False, is_mirror_extended := True\<rparr>) fl ''backward_1'' [0, 1, 2, 3, 3, 2, 1, 0] [3, 2, 1, 0] (2, 1)
        ([(''spatial'', [s0, s1, s2, s3]), (''backward_1'', [c0, c1])], c1))
       ([(''spatial'', [s0, s1, s2, s3]), (''backward_1'', [c0, c1, c2])], c2)"
    and c2: "shape c2 = [1, 8, 64, 64]" by blast
  from ex4_bw_step3 [OF s fl c2 c0 c1 c2] obtain c3 where
    3: "returns (prop_step (ex_library True) ((ex_model True 8 100)\<lparr>cpu_cache := Some False, is_mirror_extended := True\<rparr>) fl ''backward_1'' [0, 1, 2, 3, 3, 2, 1, 0] [3, 2, 1, 0] (3, 0)
        ([(''spatial'', [s0, s1, s2, s3]), (''backward_1'', [c0, c1, c2])], c2))
       ([(''spatial'', [s0, s1, s2, s3]), (''backward_1'', [c0, c1, c2, c3])], c3)"
    and c3: "shape c3 = [1, 8, 64, 64]" by blast
  have loop: "returns (prop_loop (ex_library True) ((ex_model True 8 100)\<lparr>cpu_cache := Some False, is_mirror_extended := True\<rparr>) fl ''backward_1'' [0, 1, 2, 3, 3, 2, 1, 0] [3, 2, 1, 0]
        [(0, 3), (1, 2), (2, 1), (3, 0)]
        ([(''spatial'', [s0, s1, s2, s3]), (''backward_1'', [])], zeros4 1 8 64 64))
       ([(''spatial'', [s0, s1, s2, s3]), (''backward_1'', [c0, c1, c2, c3])], c3)"
    apply (subst prop_loop.simps, rule returns_rbindI [OF 0])
    apply (subst prop_loop.simps, rule returns_rbindI [OF 1])
    apply (subst prop_loop.simps, rule returns_rbindI [OF 2])
    apply (subst prop_loop.simps, rule returns_rbindI [OF 3])
    apply (simp only: prop_loop.simps returns_ret)
    done
  have eq: "propagate (ex_library True) ((ex_model True 8 100)\<lparr>cpu_cache := Some False, is_mirror_extended := True\<rparr>)
        [(''spatial'', [s0, s1, s2, s3]), (''backward_1'', [])] fl ''backward_1'' =
      rbind (prop_loop (ex_library True) ((ex_model True 8 100)\<lparr>cpu_cache := Some False, is_mirror_extended := True\<rparr>) fl ''backward_1'' [0, 1, 2, 3, 3, 2, 1, 0] [3, 2, 1, 0]
        [(0, 3), (1, 2), (2, 1), (3, 0)]
        ([(''spatial'', [s0, s1, s2, s3]), (''backward_1'', [])], zeros4 1 8 64 64))
        (\<lambda>(fs', feat_prop). rbind (dict_get fs' ''backward_1'') (\<lambda>own.
          ret (dict_set fs' ''backward_1'' (rev own))))"
    using fl
    by (simp add: propagate_def dict_get_def mapping_index_def enumerate_from_Cons upt_conv_Cons
        Let_def numeral_2_eq_2 numeral_3_eq_3 del: prop_loop.simps)
  have "returns (propagate (ex_library True) ((ex_model True 8 100)\<lparr>cpu_cache := Some False, is_mirror_extended := True\<rparr>)
        [(''spatial'', [s0, s1, s2, s3]), (''backward_1'', [])] fl ''backward_1'')
       [(''spatial'', [s0, s1, s2, s3]), (''backward_1'', [c3, c2, c1, c0])]"
    unfolding eq
    apply (rule returns_rbindI [OF loop])
    apply (simp add: dict_get_def)
    done
  with c0 c1 c2 c3 show ?thesis by blast
qed

lemma ex4_propagate_forward:
  assumes s: "shape s0 = [1, 8, 64, 64]" "shape s1 = [1, 8, 64, 64]" "shape s2 = [1, 8, 64, 64]" "shape s3 = [1, 8, 64, 64]"
    and fl: "shape fl = [1, 3, 2, 64, 64]"
    and b: "shape b0 = [1, 8, 64, 64]" "shape b1 = [1, 8, 64, 64]" "shape b2 = [1, 8, 64, 64]" "shape b3 = [1, 8, 64, 64]"
  shows "\<exists>f0 f1 f2 f3. returns (propagate (ex_library True) ((ex_model True 8 100)\<lparr>cpu_cache := Some False, is_mirror_extended := True\<rparr>)
        [(''spatial'', [s0, s1, s2, s3]), (''backward_1'', [b0, b1, b2, b3]), (''forward_1'', [])] fl ''forward_1'')
       [(''spatial'', [s0, s1, s2, s3]), (''backward_1'', [b0, b1, b2, b3]), (''forward_1'', [f0, f1, f2, f3])] \<and>
     shape f0 = [1, 8, 64, 64] \<and> shape f1 = [1, 8, 64, 64] \<and> shape f2 = [1, 8, 64, 64] \<and> shape f3 = [1, 8, 64, 64]"
proof -
  have z: "shape (zeros4 1 8 64 64) = [1, 8, 64, 64]" by (simp add: zeros4_def)
  from ex4_fw_step0 [OF s fl z b] obtain c0 where
    0: "returns (prop_step (ex_library True) ((ex_model True 8 100)\<lparr>cpu_cache := Some False, is_mirror_extended := True\<rparr>) fl ''forward_1'' [0, 1, 2, 3, 3, 2, 1, 0] [- 1, 0, 1, 2] (0, 0)
        ([(''spatial'', [s0, s1, s2, s3]), (''backward_1'', [b0, b1, b2, b3]), (''forward_1'', [])], zeros4 1 8 64 64))
       ([(''spatial'', [s0, s1, s2, s3]), (''backward_1'', [b0, b1, b2, b3]), (''forward_1'', [c0])], c0)"
    and c0: "shape c0 = [1, 8, 64, 64]" by blast
  from ex4_fw_step1 [OF s fl c0 b c0] obtain c1 where
    1: "returns (prop_step (ex_library True) ((ex_model True 8 100)\<lparr>cpu_cache := Some False, is_mirror_extended := True\<rparr>) fl ''forward_1'' [0, 1, 2, 3, 3, 2, 1, 0] [- 1, 0, 1, 2] (1, 1)
        ([(''spatial'', [s0, s1, s2, s3]), (''backward_1'', [b0, b1, b2, b3]), (''forward_1'', [c0])], c0))
       ([(''spatial'', [s0, s1, s2, s3]), (''backward_1'', [b0, b1, b2, b3]), (''forward_1'', [c0, c1])], c1)"
    and c1: "shape c1 = [1, 8, 64, 64]" by blast
  from ex4_fw_step2 [OF s fl c1 b c0 c1] obtain c2 where
    2: "returns (prop_step (ex_library True) ((ex_model True 8 100)\<lparr>cpu_cache := Some False, is_mirror_extended := True\<rparr>) fl ''forward_1'' [0, 1, 2, 3, 3, 2, 1, 0] [- 1, 0, 1, 2] (2, 2)
        ([(''spatial'', [s0, s1, s2, s3]), (''backward_1'', [b0, b1, b2, b3]), (''forward_1'', [c0, c1])], c1))
       ([(''spatial'', [s0, s1, s2, s3]), (''backward_1'', [b0, b1, b2, b3]), (''forward_1'', [c0, c1, c2])], c2)"
    and c2: "shape c2 = [1, 8, 64, 64]" by blast
  from ex4_fw_step3 [OF s fl c2 b c0 c1 c2] obtain c3 where
    3: "returns (prop_step (ex_library True) ((ex_model True 8 100)\<lparr>cpu_cache := Some False, is_mirror_extended := True\<rparr>) fl ''forward_1'' [0, 1, 2, 3, 3, 2, 1, 0] [- 1, 0, 1, 2] (3, 3)
        ([(''spatial'', [s0, s1, s2, s3]), (''backward_1'', [b0, b1, b2, b3]), (''forward_1'', [c0, c1, c2])], c2))
       ([(''spatial'', [s0, s1, s2, s3]), (''backward_1'', [b0, b1, b2, b3]), (''forward_1'', [c0, c1, c2, c3])], c3)"
    and c3: "shape c3 = [1, 8, 64, 64]" by blast
  have loop: "returns (prop_loop (ex_library True) ((ex_model True 8 100)\<lparr>cpu_cache := Some False, is_mirror_extended := True\<rparr>) fl ''forward_1'' [0, 1, 2, 3, 3, 2, 1, 0] [- 1, 0, 1, 2]
        [(0, 0), (1, 1), (2, 2), (3, 3)]
        ([(''spatial'', [s0, s1, s2, s3]), (''backward_1'', [b0, b1, b2, b3]), (''forward_1'', [])], zeros4 1 8 64 64))
       ([(''spatial'', [s0, s1, s2, s3]), (''backward_1'', [b0, b1, b2, b3]), (''forward_1'', [c0, c1, c2, c3])], c3)"
    apply (subst prop_loop.simps, rule returns_rbindI [OF 0])
    apply (subst prop_loop.simps, rule returns_rbindI [OF 1])
    apply (subst prop_loop.simps, rule returns_rbindI [OF 2])
    apply (subst prop_loop.simps, rule returns_rbindI [OF 3])
    apply (simp only: prop_loop.simps returns_ret)
    done
  have eq: "propagate (ex_library True) ((ex_model True 8 100)\<lparr>cpu_cache := Some False, is_mirror_extended := True\<rparr>)
        [(''spatial'', [s0, s1, s2, s3]), (''backward_1'', [b0, b1, b2, b3]), (''forward_1'', [])] fl ''forward_1'' =
      rbind (prop_loop (ex_library True) ((ex_model True 8 100)\<lparr>cpu_cache := Some False, is_mirror_extended := True\<rparr>) fl ''forward_1'' [0, 1, 2, 3, 3, 2, 1, 0] [- 1, 0, 1, 2]
        [(0, 0), (1, 1), (2, 2), (3, 3)]
        ([(''spatial'', [s0, s1, s2, s3]), (''backward_1'', [b0, b1, b2, b3]), (''forward_1'', [])], zeros4 1 8 64 64))
        (\<lambda>(fs', feat_prop). ret fs')"
    using fl
    by (simp add: propagate_def dict_get_def mapping_index_def enumerate_from_Cons upt_conv_Cons
        Let_def numeral_2_eq_2 numeral_3_eq_3 del: prop_loop.simps)
  have "returns (propagate (ex_library True) ((ex_model True 8 100)\<lparr>cpu_cache := Some False, is_mirror_extended := True\<rparr>)
        [(''spatial'', [s0, s1, s2, s3]), (''backward_1'', [b0, b1, b2, b3]), (''forward_1'', [])] fl ''forward_1'')
       [(''spatial'', [s0, s1, s2, s3]), (''backward_1'', [b0, b1, b2, b3]), (''forward_1'', [c0, c1, c2, c3])]"
    unfolding eq
    apply (rule returns_rbindI [OF loop])
    apply (simp add: dict_get_def)
    done
  with c0 c1 c2 c3 show ?thesis by blast
qed

lemma ex4_upsample:
  assumes "shape x = [1, 4, 3, 64, 64]"
    "shape s0 = [1, 8, 64, 64]" "shape s1 = [1, 8, 64, 64]"
    "shape s2 = [1, 8, 64, 64]" "shape s3 = [1, 8, 64, 64]"
    "shape b0 = [1, 8, 64, 64]" "shape b1 = [1, 8, 64, 64]"
    "shape b2 = [1, 8, 64, 64]" "shape b3 = [1, 8, 64, 64]"
    "shape f0 = [1, 8, 64, 64]" "shape f1 = [1, 8, 64, 64]"
    "shape f2 = [1, 8, 64, 64]" "shape f3 = [1, 8, 64, 64]"
  shows "\<exists>out. returns (upsample (ex_library True) ((ex_model True 8 100)\<lparr>cpu_cache := Some False, is_mirror_extended := True\<rparr>) x
        [(''spatial'', [s0, s1, s2, s3]), (''backward_1'', [b0, b1, b2, b3]),
         (''forward_1'', [f0, f1, f2, f3])])
       (out, [(''spatial'', [s0, s1, s2, s3]), (''backward_1'', []), (''forward_1'', [])]) \<and>
     shape out = [1, 4, 3, 256, 256]"
  using assms by (simp add: forward_stage_defs eval_simps)

lemma ex4_forward_feats:
  assumes x: "shape x = [1, 4, 3, 64, 64]"
  shows "\<exists>s0 s1 s2 s3 b0 b1 b2 b3 f0 f1 f2 f3.
     returns (forward_feats (ex_library True) ((ex_model True 8 100)\<lparr>cpu_cache := Some False, is_mirror_extended := True\<rparr>) x x 1 4 3 64 64)
       [(''spatial'', [s0, s1, s2, s3]), (''backward_1'', [b0, b1, b2, b3]),
        (''forward_1'', [f0, f1, f2, f3])] \<and>
     (shape s0 = [1, 8, 64, 64] \<and> shape s1 = [1, 8, 64, 64] \<and>
      shape s2 = [1, 8, 64, 64] \<and> shape s3 = [1, 8, 64, 64]) \<and>
     (shape b0 = [1, 8, 64, 64] \<and> shape b1 = [1, 8, 64, 64] \<and>
      shape b2 = [1, 8, 64, 64] \<and> shape b3 = [1, 8, 64, 64]) \<and>
     (shape f0 = [1, 8, 64, 64] \<and> shape f1 = [1, 8, 64, 64] \<and>
      shape f2 = [1, 8, 64, 64] \<and> shape f3 = [1, 8, 64, 64])"
proof -
  let ?m = "((ex_model True 8 100)\<lparr>cpu_cache := Some False, is_mirror_extended := True\<rparr>)"
  from ex4_spatial_features [OF x] obtain s0 s1 s2 s3 where
    1: "returns (spatial_features (ex_library True) ?m False x 1 4 3 64 64)
          ([s0, s1, s2, s3], 64, 64)"
    and s: "shape s0 = [1, 8, 64, 64]" "shape s1 = [1, 8, 64, 64]"
      "shape s2 = [1, 8, 64, 64]" "shape s3 = [1, 8, 64, 64]" by blast
  from ex4_compute_flow [OF x] obtain ff fb where
    2: "returns (compute_flow ?m x) (ff, fb)"
    and f: "shape ff = [1, 3, 2, 64, 64]" "shape fb = [1, 3, 2, 64, 64]" by blast
  from ex4_propagate_backward [OF s f(2)] obtain b0 b1 b2 b3 where
    3: "returns (propagate (ex_library True) ?m
          [(''spatial'', [s0, s1, s2, s3]), (''backward_1'', [])] fb ''backward_1'')
          [(''spatial'', [s0, s1, s2, s3]), (''backward_1'', [b0, b1, b2, b3])]"
    and b: "shape b0 = [1, 8, 64, 64]" "shape b1 = [1, 8, 64, 64]"
      "shape b2 = [1, 8, 64, 64]" "shape b3 = [1, 8, 64, 64]" by blast
  from ex4_propagate_forward [OF s f(1) b] obtain f0 f1 f2 f3 where
    4: "returns (propagate (ex_library True) ?m
          [(''spatial'', [s0, s1, s2, s3]), (''backward_1'', [b0, b1, b2, b3]),
           (''forward_1'', [])] ff ''forward_1'')
          [(''spatial'', [s0, s1, s2, s3]), (''backward_1'', [b0, b1, b2, b3]),
           (''forward_1'', [f0, f1, f2, f3])]"
    and g: "shape f0 = [1, 8, 64, 64]" "shape f1 = [1, 8, 64, 64]"
      "shape f2 = [1, 8, 64, 64]" "shape f3 = [1, 8, 64, 64]" by blast
  have 5: "returns (assert_low_res x 64 64) ()"
    using x by (simp add: assert_low_res_def)
  have d0: "dict_set [(''spatial'', [s0, s1, s2, s3])] ''backward_1'' [] =
      [(''spatial'', [s0, s1, s2, s3]), (''backward_1'', [])]" by simp
  have d1: "dict_set [(''spatial'', [s0, s1, s2, s3]), (''backward_1'', [b0, b1, b2, b3])]
        ''forward_1'' [] =
      [(''spatial'', [s0, s1, s2, s3]), (''backward_1'', [b0, b1, b2, b3]),
       (''forward_1'', [])]" by simp
  have 6: "returns (propagate_all (ex_library True) ?m [(''spatial'', [s0, s1, s2, s3])] ff fb)
          [(''spatial'', [s0, s1, s2, s3]), (''backward_1'', [b0, b1, b2, b3]),
           (''forward_1'', [f0, f1, f2, f3])]"
    unfolding propagate_all_def d0
    apply (rule returns_rbindI [OF 3])
    unfolding d1
    apply (rule 4)
    done
  have 0: "returns (get_cpu_cache ?m) False" by (simp add: returns_get_cpu_cache)
  have "returns (forward_feats (ex_library True) ?m x x 1 4 3 64 64)
          [(''spatial'', [s0, s1, s2, s3]), (''backward_1'', [b0, b1, b2, b3]),
           (''forward_1'', [f0, f1, f2, f3])]"
    unfolding forward_feats_def
    apply (rule returns_rbindI [OF 0])
    apply (rule returns_rbindI [OF 1])
    apply (simp only: prod.case)
    apply (rule returns_rbindI [OF 5])
    apply (rule returns_rbindI [OF 2])
    apply (simp only: prod.case)
    apply (rule 6)
    done
  with s b g show ?thesis by blast
qed

text \<open>
  A run of \<open>forward\<close> on four frames of 64 by 64 pixels that the mirror check leaves
  with the flag set.
\<close>

lemma ex4_forward_run:
  assumes x: "shape x = [1, 4, 3, 64, 64]" and l: "is_low_res_input m"
    and c: "check_if_mirror_extended (m\<lparr>cpu_cache := Some (cpu_cache_length m < int 4)\<rparr>) x =
      ret ((ex_model True 8 100)\<lparr>cpu_cache := Some False, is_mirror_extended := True\<rparr>)"
  shows "\<exists>out. fst (forward (ex_library True) m x) = ((ex_model True 8 100)\<lparr>cpu_cache := Some False, is_mirror_extended := True\<rparr>) \<and>
     returns (snd (forward (ex_library True) m x)) out \<and> shape out = [1, 4, 3, 256, 256]"
proof -
  let ?m = "((ex_model True 8 100)\<lparr>cpu_cache := Some False, is_mirror_extended := True\<rparr>)"
  note f = forward_low_res [OF l x c, of "ex_library True"]
  from ex4_forward_feats [OF x] obtain s0 s1 s2 s3 b0 b1 b2 b3 f0 f1 f2 f3 where
    1: "returns (forward_feats (ex_library True) ?m x x 1 4 3 64 64)
       [(''spatial'', [s0, s1, s2, s3]), (''backward_1'', [b0, b1, b2, b3]),
        (''forward_1'', [f0, f1, f2, f3])]"
    and s: "shape s0 = [1, 8, 64, 64]" "shape s1 = [1, 8, 64, 64]"
      "shape s2 = [1, 8, 64, 64]" "shape s3 = [1, 8, 64, 64]"
      "shape b0 = [1, 8, 64, 64]" "shape b1 = [1, 8, 64, 64]"
      "shape b2 = [1, 8, 64, 64]" "shape b3 = [1, 8, 64, 64]"
      "shape f0 = [1, 8, 64, 64]" "shape f1 = [1, 8, 64, 64]"
      "shape f2 = [1, 8, 64, 64]" "shape f3 = [1, 8, 64, 64]" by blast
  from ex4_upsample [OF x s] obtain out where
    2: "returns (upsample (ex_library True) ?m x
        [(''spatial'', [s0, s1, s2, s3]), (''backward_1'', [b0, b1, b2, b3]),
         (''forward_1'', [f0, f1, f2, f3])])
       (out, [(''spatial'', [s0, s1, s2, s3]), (''backward_1'', []), (''forward_1'', [])])"
    and o: "shape out = [1, 4, 3, 256, 256]" by blast
  have "returns (snd (forward (ex_library True) m x)) out"
    unfolding f snd_conv
    apply (rule returns_rbindI [OF 1])
    apply (rule returns_rbindI [OF 2])
    apply (simp only: prod.case returns_ret)
    done
  moreover have "fst (forward (ex_library True) m x) = ?m"
    unfolding f by simp
  ultimately show ?thesis using o by blast
qed

section \<open>The offsets of the alignment module\<close>

lemma concat_replicate_nth:
  "k < m * length xs \<Longrightarrow> concat (replicate m xs) ! k = xs ! (k mod length xs)"
proof (induction m arbitrary: k)
  case 0
  then show ?case by simp
next
  case (Suc m)
  show ?case
  proof (cases "k < length xs")
    case True
    then show ?thesis by (simp add: nth_append)
  next
    case False
    with Suc.prems have "k - length xs < m * length xs" by simp
    from Suc.IH [OF this] False show ?thesis
      by (simp add: nth_append le_mod_geq)
  qed
qed

lemma bzip_nth:
  "length xs = length ys \<Longrightarrow> i < length xs \<Longrightarrow> bzip f xs ys ! i = f (xs ! i) (ys ! i)"
  by (simp add: bzip_def)

lemma wf4D:
  assumes "wf4 x" "shape x = [n, c, h, w]"
  shows "length (elems x) = n"
    and "b < n \<Longrightarrow> length (elems x ! b) = c"
    and "b < n \<Longrightarrow> k < c \<Longrightarrow> length (elems x ! b ! k) = h"
    and "b < n \<Longrightarrow> k < c \<Longrightarrow> i < h \<Longrightarrow> length (elems x ! b ! k ! i) = w"
  using assms by (auto simp: wf4_def list_all_length)

lemma abs_scaled_tanh: "\<bar>M * tanh (v::real)\<bar> \<le> \<bar>M\<bar>"
proof -
  have "\<bar>tanh v\<bar> \<le> 1"
    using tanh_real_lt_1 [of v] tanh_real_gt_neg1 [of v] by (simp add: abs_le_iff)
  then have "\<bar>M\<bar> * \<bar>tanh v\<bar> \<le> \<bar>M\<bar> * 1"
    by (intro mult_left_mono) simp_all
  then show ?thesis by (simp add: abs_mult)
qed

lemma fmul_ftanh:
  "(u = NaN \<and> fmul (Fin M) (ftanh u) = NaN) \<or>
   (u \<noteq> NaN \<and> (\<exists>x. fmul (Fin M) (ftanh u) = Fin x \<and> \<bar>x\<bar> \<le> \<bar>M\<bar>))"
  using abs_scaled_tanh [of M] by (cases u) (simp_all add: fmul_def)

lemma vals4_map4: "vals4 (map4 f x) = f ` vals4 x"
  by (auto simp: vals4_def map4_def map_elems_def)

lemma vals4_chunk1:
  assumes "returns (chunk1 k x) cs" "y \<in> set cs"
  shows "vals4 y \<subseteq> vals4 x"
proof -
  have "vals4 \<lparr>shape = s, elems = chunk_elems sz j (elems x)\<rparr> \<subseteq> vals4 x" for s sz j
    by (auto simp: vals4_def chunk_elems_def dest!: in_set_takeD in_set_dropD)
  with assms show ?thesis
    by (auto simp: chunk1_def Let_def split: list.splits if_splits)
qed

lemma soda_residual_bounded:
  assumes "returns (soda_residual al extra_feat flow_1 flow_2) (res_1, res_2, msk)"
    and "v \<in> vals4 res_1 \<union> vals4 res_2"
  shows "\<exists>u. v = fmul (Fin (max_residue_magnitude al)) (ftanh u) \<and>
     ((u = NaN \<and> v = NaN) \<or>
      (u \<noteq> NaN \<and> (\<exists>x. v = Fin x \<and> \<bar>x\<bar> \<le> \<bar>max_residue_magnitude al\<bar>)))"
proof -
  from assms(1) obtain o12 cs where
    c: "returns (chunk1 2 (map4 (\<lambda>v. fmul (Fin (max_residue_magnitude al)) (ftanh v)) o12)) cs"
    and u: "cs = [res_1, res_2]"
    unfolding soda_residual_def by (auto simp: returns_unpack2)
  from vals4_chunk1 [OF c] u have
    "vals4 res_1 \<union> vals4 res_2 \<subseteq>
       vals4 (map4 (\<lambda>v. fmul (Fin (max_residue_magnitude al)) (ftanh v)) o12)"
    by simp
  with assms(2) obtain u where "v = fmul (Fin (max_residue_magnitude al)) (ftanh u)"
    by (auto simp: vals4_map4)
  with fmul_ftanh [of u "max_residue_magnitude al"] show ?thesis by auto
qed

lemma add_flow_entry:
  assumes r: "returns (add_flow res flow) y"
    and s: "shape res = [n, c, h, w]" "shape flow = [n, 2, h, w]" and e: "even c"
    and wf: "wf4 res" "wf4 flow"
    and i: "b < n" "k < c" "i < h" "j < w"
  shows "at4 y b k i j = fadd (at4 res b k i j) (at4 flow b (1 - k mod 2) i j)"
proof -
  let ?rp = "map (\<lambda>s. concat (replicate (c div 2) (rev s))) (elems flow)"
  from r s have y: "elems y = ew4 fadd (elems res) ?rp"
    by (auto simp: add_flow_def flip1_def repeat1_def add4_def repeat_elems_def comp_def
        split: sum.splits)
  note R = wf4D [OF wf(1) s(1)] and F = wf4D [OF wf(2) s(2)]
  have km: "k mod 2 < 2" "1 - k mod 2 < 2" by simp_all
  have c2: "c div 2 * 2 = c" using e by simp
  have l1: "length (elems res) = length ?rp" using R(1) F(1) by simp
  have rp: "?rp ! b = concat (replicate (c div 2) (rev (elems flow ! b)))"
    using i(1) F(1) by simp
  have l2: "length (elems res ! b) = length (?rp ! b)"
    unfolding rp using R(2) [OF i(1)] F(2) [OF i(1)] c2
    by (simp add: length_concat sum_list_replicate)
  have "k < c div 2 * length (rev (elems flow ! b))" using i(2) F(2) [OF i(1)] c2 by simp
  from concat_replicate_nth [OF this] have
    "?rp ! b ! k = rev (elems flow ! b) ! (k mod 2)"
    unfolding rp using F(2) [OF i(1)] by simp
  also have "\<dots> = elems flow ! b ! (1 - k mod 2)"
  proof -
    have "2 - Suc (k mod 2) = 1 - k mod 2" by simp
    then show ?thesis using F(2) [OF i(1)] km by (simp add: rev_nth)
  qed
  finally have rk: "?rp ! b ! k = elems flow ! b ! (1 - k mod 2)" .
  have l3: "length (elems res ! b ! k) = length (?rp ! b ! k)"
    unfolding rk using R(3) [OF i(1,2)] F(3) [OF i(1) km(2)] by simp
  have l4: "length (elems res ! b ! k ! i) = length (?rp ! b ! k ! i)"
    unfolding rk using R(4) [OF i(1,2,3)] F(4) [OF i(1) km(2) i(3)] by simp
  have "elems y ! b ! k ! i ! j =
      fadd (elems res ! b ! k ! i ! j) (?rp ! b ! k ! i ! j)"
    unfolding y ew4_def
    using l1 l2 l3 l4 i R(1) R(2) [OF i(1)] R(3) [OF i(1,2)] R(4) [OF i(1,2,3)]
    by (simp add: bzip_nth)
  then show ?thesis unfolding at4_def rk .
qed

subsection \<open>The offsets on an example\<close>

lemmas data_defs =
  cat_elems_def chunk_elems_def map_elems_def repeat_elems_def ew4_def bzip_def

lemma replicate_two: "replicate 2 x = [x, x]"
  by (simp add: numeral_2_eq_2)

lemma ex_soda_residual:
  "soda_residual ex_soda ex_feat ex_flow_1 ex_flow_2 =
     ret (\<lparr>shape = [1, 4, 1, 1],
           elems = [[[[Fin (10 * tanh 1)]], [[Fin (10 * tanh 2)]], [[Fin (10 * tanh 3)]],
                     [[Fin (10 * tanh 4)]]]]\<rparr>,
          \<lparr>shape = [1, 4, 1, 1],
           elems = [[[[Fin (10 * tanh 5)]], [[Fin (10 * tanh 6)]], [[Fin (10 * tanh 7)]],
                     [[Fin (10 * tanh 8)]]]]\<rparr>,
          \<lparr>shape = [1, 4, 1, 1],
           elems = [[[[Fin 9]], [[Fin 10]], [[Fin 11]], [[Fin 12]]]]\<rparr>)"
  by (simp add: soda_residual_def ex_soda_def ex_conv_offset_def ex_feat_def ex_flow_1_def
      ex_flow_2_def tensor_defs data_defs upt_conv_Cons Let_def fmul_def)

lemma ex_soda_nan_residual:
  "soda_residual ex_soda_nan ex_feat ex_flow_1 ex_flow_2 =
     ret (\<lparr>shape = [1, 4, 1, 1],
           elems = [[[[NaN]], [[Fin (10 * tanh 2)]], [[Fin (10 * tanh 3)]],
                     [[Fin (10 * tanh 4)]]]]\<rparr>,
          \<lparr>shape = [1, 4, 1, 1],
           elems = [[[[Fin (10 * tanh 5)]], [[Fin (10 * tanh 6)]], [[Fin (10 * tanh 7)]],
                     [[Fin (10 * tanh 8)]]]]\<rparr>,
          \<lparr>shape = [1, 4, 1, 1],
           elems = [[[[Fin 9]], [[Fin 10]], [[Fin 11]], [[Fin 12]]]]\<rparr>)"
  by (simp add: soda_residual_def ex_soda_nan_def ex_conv_offset_nan_def ex_feat_def
      ex_flow_1_def ex_flow_2_def tensor_defs data_defs upt_conv_Cons Let_def fmul_def)

lemma ex_add_flow_1:
  "add_flow \<lparr>shape = [1, 4, 1, 1],
           elems = [[[[Fin (10 * tanh 1)]], [[Fin (10 * tanh 2)]], [[Fin (10 * tanh 3)]],
                     [[Fin (10 * tanh 4)]]]]\<rparr> ex_flow_1 =
     ret \<lparr>shape = [1, 4, 1, 1],
           elems = [[[[Fin (10 * tanh 1 + 14)]], [[Fin (10 * tanh 2 + 13)]],
                     [[Fin (10 * tanh 3 + 14)]], [[Fin (10 * tanh 4 + 13)]]]]\<rparr>"
  by (simp add: add_flow_def ex_flow_1_def tensor_defs data_defs upt_conv_Cons Let_def
      replicate_two)

lemma ex_add_flow_2:
  "add_flow \<lparr>shape = [1, 4, 1, 1],
           elems = [[[[Fin (10 * tanh 5)]], [[Fin (10 * tanh 6)]], [[Fin (10 * tanh 7)]],
                     [[Fin (10 * tanh 8)]]]]\<rparr> ex_flow_2 =
     ret \<lparr>shape = [1, 4, 1, 1],
           elems = [[[[Fin (10 * tanh 5 + 16)]], [[Fin (10 * tanh 6 + 15)]],
                     [[Fin (10 * tanh 7 + 16)]], [[Fin (10 * tanh 8 + 15)]]]]\<rparr>"
  by (simp add: add_flow_def ex_flow_2_def tensor_defs data_defs upt_conv_Cons Let_def
      replicate_two)

lemma ex_soda_offsets:
  "soda_offsets ex_soda ex_feat ex_flow_1 ex_flow_2 =
     ret (\<lparr>shape = [1, 8, 1, 1],
           elems = [[[[Fin (10 * tanh 1 + 14)]], [[Fin (10 * tanh 2 + 13)]],
                     [[Fin (10 * tanh 3 + 14)]], [[Fin (10 * tanh 4 + 13)]],
                     [[Fin (10 * tanh 5 + 16)]], [[Fin (10 * tanh 6 + 15)]],
                     [[Fin (10 * tanh 7 + 16)]], [[Fin (10 * tanh 8 + 15)]]]]\<rparr>,
          \<lparr>shape = [1, 4, 1, 1],
           elems = [[[[Fin 9]], [[Fin 10]], [[Fin 11]], [[Fin 12]]]]\<rparr>)"
  apply (simp only: soda_offsets_def ex_soda_residual rbind_ret prod.case ex_add_flow_1
      ex_add_flow_2)
  apply (simp add: cat1_def cat_elems_def upt_conv_Cons)
  done

section \<open>Claims\<close>

text \<open>
  C4. Running \<open>forward\<close> twice on the same input, the second time on the instance as the
  first call left it, gives the same result: the same output or exception, the same
  events, and the same instance. The sub-networks are functions (identical weights, no
  randomness), so the only thing that could make the runs differ is what the first call
  wrote to the instance, \<open>cpu_cache\<close> and \<open>is_mirror_extended\<close>.
\<close>

theorem forward_twice: "forward L (fst (forward L m lqs)) lqs = forward L m lqs"
proof (cases "\<exists>n t c h w. shape lqs = [n, t, c, h, w]")
  case False
  then show ?thesis by (simp add: forward_other_rank)
next
  case True
  then obtain n t c h w where s: "shape lqs = [n, t, c, h, w]" by blast
  from forward_rank5 [OF s, of L] obtain b where
    "\<And>m. check_if_mirror_extended m lqs =
       ret (if b then m\<lparr>is_mirror_extended := True\<rparr> else m)" and
    f: "\<And>m. forward L m lqs =
       (let m1 = m\<lparr>cpu_cache := Some (cpu_cache_length m < int t)\<rparr>;
            m2 = (if b then m1\<lparr>is_mirror_extended := True\<rparr> else m1)
        in case downsample L m lqs n t c h w of
             (l, Inl e) \<Rightarrow> (m1, (l, Inl e))
           | (l, Inr lqs_downsample) \<Rightarrow>
               (m2, rbind (l, Inr ())
                      (\<lambda>_. rbind (forward_feats L m2 lqs lqs_downsample n t c h w) (\<lambda>fs.
                           rbind (upsample L m2 lqs fs) (\<lambda>(out, fs'). ret out)))))"
    by blast
  show ?thesis
    by (cases "downsample L m lqs n t c h w")
       (auto simp: f Let_def split: sum.splits)
qed

theorem forward_twice_witness:
  "forward (ex_library True)
     (fst (forward (ex_library True) (ex_model True 64 100) (zero_seq 1 2 3 64 64)))
     (zero_seq 1 2 3 64 64) =
   forward (ex_library True) (ex_model True 64 100) (zero_seq 1 2 3 64 64)"
  by (rule forward_twice)

text \<open>
  C10. Constructing the model with \<open>is_low_res_input = False\<close> always fails: when the
  flow estimator has been built, the exception is the \<open>NameError\<close> for
  \<open>MultiScaleAttention\<close>. So every instance \<open>init\<close> returns is one for low-resolution
  input and has \<open>feat_extract1\<close> and \<open>feat_extract2\<close>; without these attributes the
  feature extraction of \<open>forward\<close> raises.
\<close>

theorem init_high_res_fails:
  "fails (init L mid nb mrm False sp ccl) \<and>
   (\<forall>spy. mk_SpyNet L sp = Inr spy \<longrightarrow>
      outcome (init L mid nb mrm False sp ccl) = Inl (NameError ''MultiScaleAttention'')) \<and>
   (\<forall>m. returns (init L mid nb mrm low_res sp ccl) m \<longrightarrow>
      low_res \<and> is_low_res_input m \<and> feat_extract1 m \<noteq> None \<and> feat_extract2 m \<noteq> None) \<and>
   (\<forall>m. feat_extract1 m = None \<or> feat_extract2 m = None \<longrightarrow>
      fails (spatial_feature L m lqs c h w))"
proof -
  have 1: "fails (init L mid nb mrm False sp ccl)"
    by (simp add: fails_def init_high split: sum.splits)
  have 2: "outcome (init L mid nb mrm False sp ccl) = Inl (NameError ''MultiScaleAttention'')"
    if "mk_SpyNet L sp = Inr spy" for spy
    using that by (simp add: init_high)
  have 3: "low_res \<and> is_low_res_input m \<and> feat_extract1 m \<noteq> None \<and> feat_extract2 m \<noteq> None"
    if r: "returns (init L mid nb mrm low_res sp ccl) m" for m
  proof -
    have lr: low_res
    proof (rule ccontr)
      assume "\<not> low_res"
      then have "fails (init L mid nb mrm low_res sp ccl)"
        by (simp add: fails_def init_high split: sum.splits)
      with r show False by (simp add: fails_iff)
    qed
    from r lr have
      "is_low_res_input m \<and> feat_extract1 m \<noteq> None \<and> feat_extract2 m \<noteq> None"
      by (auto simp: init_def init_feat_extract_def resolve_def module_names_def Let_def
          split: if_splits)
    with lr show ?thesis by simp
  qed
  have 4: "fails (spatial_feature L m lqs c h w)"
    if "feat_extract1 m = None \<or> feat_extract2 m = None" for m :: mfrsr
    using that by (auto simp: fails_iff spatial_feature_def get_attr_def)
  from 1 2 3 4 show ?thesis by blast
qed

theorem init_high_res_fails_witness:
  "fails (init (ex_library True) 64 7 10 False None 100) \<and>
   outcome (init (ex_library True) 64 7 10 False None 100) = Inl (NameError ''MultiScaleAttention'') \<and>
   returns (init (ex_library True) 64 7 10 True None 100) (ex_model True 64 100) \<and>
   is_low_res_input (ex_model True 64 100) \<and>
   feat_extract1 (ex_model True 64 100) \<noteq> None \<and>
   feat_extract2 (ex_model True 64 100) \<noteq> None \<and>
   fails (spatial_feature (ex_library True) ((ex_model True 64 100)\<lparr>feat_extract1 := None\<rparr>)
            (zero_seq 1 2 3 64 64) 3 64 64)"
proof -
  have r: "returns (init (ex_library True) 64 7 10 True None 100) (ex_model True 64 100)"
    by (simp add: init_ex returns_def outcome_def)
  have s: "mk_SpyNet (ex_library True) None = Inr (zero_net2 spynet_rule)"
    by (simp add: ex_library_def)
  have n: "feat_extract1 ((ex_model True 64 100)\<lparr>feat_extract1 := None\<rparr>) = None \<or>
           feat_extract2 ((ex_model True 64 100)\<lparr>feat_extract1 := None\<rparr>) = None"
    by simp
  from init_high_res_fails [of "ex_library True" 64 7 10 None 100 True "zero_seq 1 2 3 64 64" 3 64 64]
  show ?thesis using r s n by blast
qed

text \<open>
  C5. In the loop of \<open>propagate\<close>, for every branch and input, the alignment module is
  called only at steps \<open>i \<ge> 1\<close> and only on an instance with alignment modules; the
  propagated state that enters the fusion stage at step 0 is the zero initialisation; at
  step 0, and at every step of an instance without alignment modules, the alignment stage
  returns the propagated state as it is. Without CUDA, \<open>init\<close> warns once and builds an
  instance without alignment modules.
\<close>

theorem alignment_only_after_first_step:
  assumes s: "shape flows = [n, t, c, h, w]"
  shows "(\<forall>name' i. Align_call name' i \<in> set (events (propagate L m fs flows name)) \<longrightarrow>
            name' = name \<and> 1 \<le> i \<and> is_with_alignment m) \<and>
         (\<forall>name' x. Fusion_call name' 0 x \<in> set (events (propagate L m fs flows name)) \<longrightarrow>
            x = zeros4 n (mid_channels m) h w) \<and>
         (\<forall>cache fs' flow_idx i fc fp. i = 0 \<or> \<not> is_with_alignment m \<longrightarrow>
            align_stage L m cache fs' flows name flow_idx i fc fp = ret fp) \<and>
         (\<forall>m0. \<not> torch_cuda_is_available L \<and> returns (init L mid nb mrm lr sp ccl) m0 \<longrightarrow>
            \<not> is_with_alignment m0 \<and> events (init L mid nb mrm lr sp ccl) = [Warn alignment_warning])"
proof -
  note e = events_propagate [OF s, of L m fs name]
  have 1: "name' = name \<and> 1 \<le> i \<and> is_with_alignment m"
    if "Align_call name' i \<in> set (events (propagate L m fs flows name))" for name' i
    using e that by auto
  have 2: "x = zeros4 n (mid_channels m) h w"
    if "Fusion_call name' 0 x \<in> set (events (propagate L m fs flows name))" for name' x
    using e that by auto
  have 3: "align_stage L m cache fs' flows name flow_idx i fc fp = ret fp"
    if "i = 0 \<or> \<not> is_with_alignment m" for cache fs' flow_idx i fc fp
    using that by (rule align_stage_skipped)
  have 4: "\<not> is_with_alignment m0 \<and> events (init L mid nb mrm lr sp ccl) = [Warn alignment_warning]"
    if "\<not> torch_cuda_is_available L \<and> returns (init L mid nb mrm lr sp ccl) m0" for m0
    using init_without_cuda [of L mid nb mrm lr sp ccl m0] that by simp
  from 1 2 3 4 show ?thesis by blast
qed

theorem alignment_only_after_first_step_witness:
  "Align_call ''backward_1'' 1 \<in> set (events (propagate (ex_library True)
      ((ex_model True 8 100)\<lparr>cpu_cache := Some False\<rparr>)
      [(''spatial'', [zeros4 1 8 64 64, zeros4 1 8 64 64]), (''backward_1'', [])]
      (zero_seq 1 1 2 64 64) ''backward_1'')) \<and>
   (1::nat) \<le> 1 \<and> is_with_alignment ((ex_model True 8 100)\<lparr>cpu_cache := Some False\<rparr>) \<and>
   Fusion_call ''backward_1'' 0 (zeros4 1 8 64 64) \<in> set (events (propagate (ex_library True)
      ((ex_model True 8 100)\<lparr>cpu_cache := Some False\<rparr>)
      [(''spatial'', [zeros4 1 8 64 64, zeros4 1 8 64 64]), (''backward_1'', [])]
      (zero_seq 1 1 2 64 64) ''backward_1'')) \<and>
   align_stage (ex_library True) ((ex_model True 8 100)\<lparr>cpu_cache := Some False\<rparr>) False
      [(''spatial'', [zeros4 1 8 64 64, zeros4 1 8 64 64]), (''backward_1'', [])]
      (zero_seq 1 1 2 64 64) ''backward_1'' [1, 0] 0 (zeros4 1 8 64 64) (zeros4 1 8 64 64) =
     ret (zeros4 1 8 64 64) \<and>
   returns (init (ex_library False) 8 7 10 True None 100) (ex_model False 8 100) \<and>
   \<not> is_with_alignment (ex_model False 8 100) \<and>
   events (init (ex_library False) 8 7 10 True None 100) = [Warn alignment_warning]"
proof -
  have s: "shape (zero_seq 1 1 2 64 64) = [1, 1, 2, 64, 64]" by (simp add: zero_seq_def)
  have z: "shape (zeros4 1 8 64 64) = [1, 8, 64, 64]" by (simp add: zeros4_def)
  from ex_propagate_events [OF z z s] obtain y where
    ev: "events (propagate (ex_library True) ((ex_model True 8 100)\<lparr>cpu_cache := Some False\<rparr>)
           [(''spatial'', [zeros4 1 8 64 64, zeros4 1 8 64 64]), (''backward_1'', [])]
           (zero_seq 1 1 2 64 64) ''backward_1'') =
         [Fusion_call ''backward_1'' 0 (zeros4 1 8 64 64), Align_call ''backward_1'' 1,
          Fusion_call ''backward_1'' 1 y]"
    by blast
  have r: "returns (init (ex_library False) 8 7 10 True None 100) (ex_model False 8 100)"
    by (simp add: init_ex returns_def outcome_def)
  have c: "\<not> torch_cuda_is_available (ex_library False)" by simp
  note t = alignment_only_after_first_step [OF s,
      of "ex_library True" "(ex_model True 8 100)\<lparr>cpu_cache := Some False\<rparr>"
         "[(''spatial'', [zeros4 1 8 64 64, zeros4 1 8 64 64]), (''backward_1'', [])]"
         "''backward_1''"]
  note t' = alignment_only_after_first_step [OF s,
      of "ex_library False" _ _ _ 8 7 10 True None 100]
  have a: "Align_call ''backward_1'' 1 \<in> set (events (propagate (ex_library True)
      ((ex_model True 8 100)\<lparr>cpu_cache := Some False\<rparr>)
      [(''spatial'', [zeros4 1 8 64 64, zeros4 1 8 64 64]), (''backward_1'', [])]
      (zero_seq 1 1 2 64 64) ''backward_1''))"
    unfolding ev by simp
  have f: "Fusion_call ''backward_1'' 0 (zeros4 1 8 64 64) \<in> set (events (propagate (ex_library True)
      ((ex_model True 8 100)\<lparr>cpu_cache := Some False\<rparr>)
      [(''spatial'', [zeros4 1 8 64 64, zeros4 1 8 64 64]), (''backward_1'', [])]
      (zero_seq 1 1 2 64 64) ''backward_1''))"
    unfolding ev by simp
  from t a have "is_with_alignment ((ex_model True 8 100)\<lparr>cpu_cache := Some False\<rparr>)"
    by blast
  moreover from t have "align_stage (ex_library True) ((ex_model True 8 100)\<lparr>cpu_cache := Some False\<rparr>) False
      [(''spatial'', [zeros4 1 8 64 64, zeros4 1 8 64 64]), (''backward_1'', [])]
      (zero_seq 1 1 2 64 64) ''backward_1'' [1, 0] 0 (zeros4 1 8 64 64) (zeros4 1 8 64 64) =
     ret (zeros4 1 8 64 64)"
    by blast
  moreover from t' r c have "\<not> is_with_alignment (ex_model False 8 100) \<and>
     events (init (ex_library False) 8 7 10 True None 100) = [Warn alignment_warning]"
    by blast
  ultimately show ?thesis using a f r by simp
qed

text \<open>
  C7. On every input of \<open>t\<close> frames that \<open>forward\<close> takes to its result, the dictionary
  that the propagation stage hands to \<open>upsample\<close> (line 436) has the keys \<open>spatial\<close>,
  \<open>backward_1\<close> and \<open>forward_1\<close>, the lists of the two directions hold exactly \<open>t\<close>
  features, and \<open>upsample\<close>, which pops the first feature of each direction once per
  frame, leaves both lists empty and \<open>spatial\<close> as it was.
\<close>

theorem feature_lists_drained:
  assumes s: "shape lqs = [n, t, c, h, w]" and r: "returns (snd (forward L m lqs)) out"
  shows "\<exists>lqsd sp bw fw.
     returns (downsample L m lqs n t c h w) lqsd \<and>
     returns (forward_feats L (fst (forward L m lqs)) lqs lqsd n t c h w)
       [(''spatial'', sp), (''backward_1'', bw), (''forward_1'', fw)] \<and>
     length bw = t \<and> length fw = t \<and>
     returns (upsample L (fst (forward L m lqs)) lqs
        [(''spatial'', sp), (''backward_1'', bw), (''forward_1'', fw)])
       (out, [(''spatial'', sp), (''backward_1'', []), (''forward_1'', [])])"
proof -
  let ?m = "fst (forward L m lqs)"
  from returns_forward [OF s r] obtain lqsd fs fs' where
    d: "returns (downsample L m lqs n t c h w) lqsd"
    and f: "returns (forward_feats L ?m lqs lqsd n t c h w) fs"
    and u: "returns (upsample L ?m lqs fs) (out, fs')"
    by blast
  from returns_downsample [OF d s] obtain c' h' w' where
    sd: "shape lqsd = [n, t, c', h', w']" by blast
  from returns_forward_feats [OF f s sd] obtain sp bw fw where
    fs: "fs = [(''spatial'', sp), (''backward_1'', bw), (''forward_1'', fw)]"
    and l: "length bw = t" "length fw = t"
    by blast
  have "fs' = [(''spatial'', sp), (''backward_1'', drop t bw), (''forward_1'', drop t fw)]"
    using returns_upsample [where P = "\<lambda>_. True", OF _ s u [unfolded fs]]
      returns_up_step [OF _ s]
    by blast
  with l have "fs' = [(''spatial'', sp), (''backward_1'', []), (''forward_1'', [])]" by simp
  with d f u fs l show ?thesis by blast
qed

theorem feature_lists_drained_witness:
  "\<exists>out lqsd sp bw fw.
     returns (snd (forward (ex_library True) (ex_model True 8 100) (zero_seq 1 2 3 64 64))) out \<and>
     returns (downsample (ex_library True) (ex_model True 8 100) (zero_seq 1 2 3 64 64)
        1 2 3 64 64) lqsd \<and>
     returns (forward_feats (ex_library True)
        (fst (forward (ex_library True) (ex_model True 8 100) (zero_seq 1 2 3 64 64)))
        (zero_seq 1 2 3 64 64) lqsd 1 2 3 64 64)
       [(''spatial'', sp), (''backward_1'', bw), (''forward_1'', fw)] \<and>
     length bw = 2 \<and> length fw = 2 \<and>
     returns (upsample (ex_library True)
        (fst (forward (ex_library True) (ex_model True 8 100) (zero_seq 1 2 3 64 64)))
        (zero_seq 1 2 3 64 64)
        [(''spatial'', sp), (''backward_1'', bw), (''forward_1'', fw)])
       (out, [(''spatial'', sp), (''backward_1'', []), (''forward_1'', [])])"
proof -
  have x: "shape (zero_seq 1 2 3 64 64) = [1, 2, 3, 64, 64]" by (simp add: zero_seq_def)
  from ex_forward obtain out where
    r: "returns (snd (forward (ex_library True) (ex_model True 8 100) (zero_seq 1 2 3 64 64))) out"
    by blast
  from feature_lists_drained [OF x r] r show ?thesis by blast
qed

text \<open>
  C3. On an instance for low-resolution input (the only kind \<open>init\<close> returns) whose
  \<open>img_upsample\<close> quadruples height and width, as \<open>nn.Upsample(scale_factor=4)\<close> does,
  every input of shape \<open>(n, t, 3, h, w)\<close> that \<open>forward\<close> accepts gives an output of shape
  \<open>(n, t, 3, 4h, 4w)\<close>: the in-place addition of the upsampled frame at line 363 fixes the
  shape of every reconstructed frame, whatever the other sub-networks are.
\<close>

theorem output_shape:
  assumes s: "shape lqs = [n, t, 3, h, w]" and low: "is_low_res_input m"
    and up: "oshape (img_upsample m) [[3, h, w]] = Inr [3, 4 * h, 4 * w]"
    and r: "returns (snd (forward L m lqs)) out"
  shows "shape out = [n, t, 3, 4 * h, 4 * w]"
proof -
  let ?m = "fst (forward L m lqs)"
  from returns_forward [OF s r] obtain lqsd fs fs' where
    d: "returns (downsample L m lqs n t 3 h w) lqsd"
    and f: "returns (forward_feats L ?m lqs lqsd n t 3 h w) fs"
    and u: "returns (upsample L ?m lqs fs) (out, fs')"
    and a: "is_low_res_input ?m = is_low_res_input m" "img_upsample ?m = img_upsample m"
    by blast
  from returns_downsample [OF d s] low have lqsd: "lqsd = lqs" by blast
  from returns_forward_feats [OF f [unfolded lqsd] s s] obtain sp bw fw where
    fs: "fs = [(''spatial'', sp), (''backward_1'', bw), (''forward_1'', fw)]"
    and sp: "\<forall>x \<in> set sp. \<exists>k a b. shape x = [n, k, a, b]"
    by blast
  have step: "\<exists>hr. outs' = outs @ [hr] \<and> shape hr = [n, 3, 4 * h, 4 * w]"
    if st: "returns (up_step L ?m lqs (mapping_index (length sp)) i
        ([(''spatial'', sp), (''backward_1'', bw), (''forward_1'', fw)], outs)) (fs', outs')"
    for i bw fw outs fs' outs'
  proof -
    from returns_up_step [OF st s] low a obtain hr s0 frame other B k r C H W where
      o: "outs' = outs @ [hr]" and s0: "s0 \<in> set sp" "shape s0 = B # k # r"
      and hr: "shape hr = [B, C, H, W]" and fr: "shape frame = [n, 3, h, w]"
      and ot: "returns (apply_net1 (img_upsample m) frame) other"
      and la: "list_all2 (\<lambda>x y. x = y \<or> y = 1) [B, C, H, W] (shape other)"
      by auto
    from sp s0 have B: "B = n" by auto
    from returns_apply_net1 [OF ot] fr up have "shape other = [n, 3, 4 * h, 4 * w]" by auto
    with la have "C = 3" "H = 4 * h" "W = 4 * w" by auto
    with o hr B show ?thesis by simp
  qed
  have "fs' = [(''spatial'', sp), (''backward_1'', drop t bw), (''forward_1'', drop t fw)] \<and>
      t \<le> length bw \<and> t \<le> length fw \<and>
      (\<exists>outs. returns (stack1 outs) out \<and> length outs = t \<and>
         (\<forall>x \<in> set outs. shape x = [n, 3, 4 * h, 4 * w]))"
  proof (rule returns_upsample [where P = "\<lambda>hr. shape hr = [n, 3, 4 * h, 4 * w]",
        OF _ s u [unfolded fs]])
    fix i bw fw outs fs' outs'
    assume "returns (up_step L ?m lqs (mapping_index (length sp)) i
        ([(''spatial'', sp), (''backward_1'', bw), (''forward_1'', fw)], outs)) (fs', outs')"
    then show "\<exists>hr. outs' = outs @ [hr] \<and> shape hr = [n, 3, 4 * h, 4 * w]" by (rule step)
  qed
  then obtain outs where
    st: "returns (stack1 outs) out" and l: "length outs = t"
    and P: "\<forall>x \<in> set outs. shape x = [n, 3, 4 * h, 4 * w]"
    by blast
  from returns_stack1 [OF st] P l show ?thesis by auto
qed

theorem output_shape_witness:
  "shape (zero_seq 1 2 3 64 64) = [1, 2, 3, 64, 64] \<and>
   is_low_res_input (ex_model True 8 100) \<and>
   oshape (img_upsample (ex_model True 8 100)) [[3, 64, 64]] = Inr [3, 4 * 64, 4 * 64] \<and>
   (\<exists>out. returns (snd (forward (ex_library True) (ex_model True 8 100) (zero_seq 1 2 3 64 64))) out \<and>
      shape out = [1, 2, 3, 4 * 64, 4 * 64])"
proof -
  have x: "shape (zero_seq 1 2 3 64 64) = [1, 2, 3, 64, 64]" by (simp add: zero_seq_def)
  have l: "is_low_res_input (ex_model True 8 100)" by simp
  have u: "oshape (img_upsample (ex_model True 8 100)) [[3, 64, 64]] = Inr [3, 4 * 64, 4 * 64]"
    by (simp add: upsample_rule_def)
  from ex_forward obtain out where
    r: "returns (snd (forward (ex_library True) (ex_model True 8 100) (zero_seq 1 2 3 64 64))) out"
    by blast
  from output_shape [OF x l u r] r x l u show ?thesis by blast
qed

text \<open>
  C1. In the source the branch taken when \<open>t\<close> exceeds \<open>cpu_cache_length\<close> (lines 396 to
  404) does not index the frames: every entry of \<open>feats['spatial']\<close> is the feature of all
  \<open>n * t\<close> frames, where the other branch stores the features of frame \<open>i\<close>. So with at
  least two frames and a non-empty batch the call raises in the first propagation step,
  where the other branch returns an output.
\<close>

theorem cache_branch_fails:
  assumes s: "shape lqs = [n, t, c, h, w]" and c: "cpu_cache_length m < int t"
    and t: "2 \<le> t" and n: "1 \<le> n"
  shows "fails (snd (forward L m lqs))"
proof (rule ccontr)
  let ?m = "fst (forward L m lqs)"
  assume "\<not> fails (snd (forward L m lqs))"
  then obtain out where r: "returns (snd (forward L m lqs)) out" by (auto simp: fails_iff)
  from returns_forward [OF s r] obtain lqsd fs where
    d: "returns (downsample L m lqs n t c h w) lqsd"
    and f: "returns (forward_feats L ?m lqs lqsd n t c h w) fs"
    and cc: "cpu_cache ?m = Some (cpu_cache_length m < int t)"
    by blast
  from returns_downsample [OF d s] obtain c' h' w' where
    sd: "shape lqsd = [n, t, c', h', w']" by blast
  from returns_forward_feats [OF f s sd] cc c have "n * t = n" by auto
  with t n show False by auto
qed

theorem cache_branch_fails_witness:
  "shape (zero_seq 1 2 3 64 64) = [1, 2, 3, 64, 64] \<and>
   cpu_cache_length (ex_model True 8 1) < int 2 \<and> (2::nat) \<le> 2 \<and> (1::nat) \<le> 1 \<and>
   fails (snd (forward (ex_library True) (ex_model True 8 1) (zero_seq 1 2 3 64 64))) \<and>
   outcome (snd (forward (ex_library True) (ex_model True 8 1) (zero_seq 1 2 3 64 64))) =
     Inl (RuntimeError ''stack expects each tensor to be equal size'') \<and>
   \<not> cpu_cache_length (ex_model True 8 100) < int 2 \<and>
   (\<exists>out. returns (snd (forward (ex_library True) (ex_model True 8 100) (zero_seq 1 2 3 64 64))) out \<and>
      shape out = [1, 2, 3, 256, 256])"
proof -
  have x: "shape (zero_seq 1 2 3 64 64) = [1, 2, 3, 64, 64]" by (simp add: zero_seq_def)
  have c: "cpu_cache_length (ex_model True 8 1) < int 2" by simp
  have t: "(2::nat) \<le> 2" by simp
  have n: "(1::nat) \<le> 1" by simp
  have c': "\<not> cpu_cache_length (ex_model True 8 100) < int 2" by simp
  from ex_forward obtain out where
    r: "returns (snd (forward (ex_library True) (ex_model True 8 100) (zero_seq 1 2 3 64 64))) out"
      "shape out = [1, 2, 3, 256, 256]"
    by blast
  from cache_branch_fails [OF x c t n, of "ex_library True"] ex_cache_forward r x c t n c'
  show ?thesis by blast
qed

text \<open>
  C6. On an instance for low-resolution input, a call whose height or width is below 64
  always fails, and with the assertion of lines 415 to 417 whenever the feature
  extraction that runs before it (lines 396 to 412) returns; the message reports
  \<open>h\<close> and \<open>w\<close> as they are bound at that point. With height and width at least 64 the
  assertion passes.
\<close>

theorem low_res_assertion:
  assumes s: "shape lqs = [n, t, c, h, w]" and low: "is_low_res_input m"
  shows "(h < 64 \<or> w < 64 \<longrightarrow>
            fails (snd (forward L m lqs)) \<and>
            (\<forall>sp h' w'.
               returns (spatial_features L m (cpu_cache_length m < int t) lqs n t c h w) (sp, h', w') \<longrightarrow>
               outcome (snd (forward L m lqs)) = Inl (AssertionError (low_res_message h' w')))) \<and>
         (64 \<le> h \<and> 64 \<le> w \<longrightarrow> (\<forall>h' w'. assert_low_res lqs h' w' = ret ()))"
proof -
  let ?m1 = "m\<lparr>cpu_cache := Some (cpu_cache_length m < int t)\<rparr>"
  from forward_rank5 [OF s, of L] obtain b where
    "\<And>m. check_if_mirror_extended m lqs = ret (if b then m\<lparr>is_mirror_extended := True\<rparr> else m)"
    by blast
  then have "check_if_mirror_extended ?m1 lqs =
      ret (if b then ?m1\<lparr>is_mirror_extended := True\<rparr> else ?m1)" .
  note f = forward_low_res [OF low s this, of L]
  let ?m2 = "if b then ?m1\<lparr>is_mirror_extended := True\<rparr> else ?m1"
  have c: "cpu_cache ?m2 = Some (cpu_cache_length m < int t)" by simp
  have sf: "spatial_features L ?m2 = spatial_features L m"
    by (simp add: spatial_features_attrs)
  have 1: "fails (snd (forward L m lqs))" if "h < 64 \<or> w < 64"
    unfolding f snd_conv by (rule fails_rbind, rule forward_feats_small (1) [OF s c that])
  have 2: "outcome (snd (forward L m lqs)) = Inl (AssertionError (low_res_message h' w'))"
    if "h < 64 \<or> w < 64"
      "returns (spatial_features L m (cpu_cache_length m < int t) lqs n t c h w) (sp, h', w')"
    for sp h' w'
  proof -
    from that(2) have "returns (spatial_features L ?m2 (cpu_cache_length m < int t) lqs n t c h w)
        (sp, h', w')"
      by (simp only: sf)
    from forward_feats_small (2) [OF s c that(1) this] show ?thesis
      unfolding f snd_conv by (rule outcome_rbind_raises)
  qed
  have 3: "assert_low_res lqs h' w' = ret ()" if "64 \<le> h \<and> 64 \<le> w" for h' w'
    using s that by (simp add: assert_low_res_def)
  from 1 2 3 show ?thesis by blast
qed

theorem low_res_assertion_witness:
  "shape (zero_seq 1 2 3 63 63) = [1, 2, 3, 63, 63] \<and> is_low_res_input (ex_model True 8 100) \<and>
   ((63::nat) < 64 \<or> (63::nat) < 64) \<and>
   fails (snd (forward (ex_library True) (ex_model True 8 100) (zero_seq 1 2 3 63 63))) \<and>
   (\<exists>sp. returns (spatial_features (ex_library True) (ex_model True 8 100)
             (cpu_cache_length (ex_model True 8 100) < int 2) (zero_seq 1 2 3 63 63) 1 2 3 63 63)
             (sp, 63, 63)) \<and>
   outcome (snd (forward (ex_library True) (ex_model True 8 100) (zero_seq 1 2 3 63 63))) =
     Inl (AssertionError (low_res_message 63 63)) \<and>
   shape (zero_seq 1 2 3 64 64) = [1, 2, 3, 64, 64] \<and> (64::nat) \<le> 64 \<and>
   assert_low_res (zero_seq 1 2 3 64 64) 64 64 = ret ()"
proof -
  have x: "shape (zero_seq 1 2 3 63 63) = [1, 2, 3, 63, 63]" by (simp add: zero_seq_def)
  have y: "shape (zero_seq 1 2 3 64 64) = [1, 2, 3, 64, 64]" by (simp add: zero_seq_def)
  have l: "is_low_res_input (ex_model True 8 100)" by simp
  have c: "(cpu_cache_length (ex_model True 8 100) < int 2) = False" by simp
  from ex_small_spatial_features [OF x] obtain sp where
    sp: "returns (spatial_features (ex_library True) (ex_model True 8 100)
             (cpu_cache_length (ex_model True 8 100) < int 2) (zero_seq 1 2 3 63 63) 1 2 3 63 63)
             (sp, 63, 63)"
    unfolding c by blast
  have k: "(63::nat) < 64 \<or> (63::nat) < 64" by simp
  have k': "(64::nat) \<le> 64 \<and> (64::nat) \<le> 64" by simp
  from low_res_assertion [OF x l, of "ex_library True"] k sp
    low_res_assertion [OF y l, of "ex_library True"] k' x y l
  show ?thesis by blast
qed

theorem low_res_assertion_counterexample:
  "shape (zero_seq 1 2 3 0 64) = [1, 2, 3, 0, 64] \<and> (0::nat) < 64 \<and>
   outcome (snd (forward (ex_library True) (ex_model True 8 100) (zero_seq 1 2 3 0 64))) =
     Inl (RuntimeError ''cannot infer the unspecified dimension'')"
proof -
  let ?m = "(ex_model True 8 100)\<lparr>cpu_cache := Some False, is_mirror_extended := True\<rparr>"
  let ?x = "zero_seq 1 2 3 0 64"
  have x: "shape ?x = [1, 2, 3, 0, 64]" by (simp add: zero_seq_def)
  have c: "check_if_mirror_extended
      ((ex_model True 8 100)\<lparr>cpu_cache := Some (cpu_cache_length (ex_model True 8 100) < int 2)\<rparr>) ?x =
      ret ?m"
    by (simp add: zero_seq_mirrored)
  have l: "is_low_res_input (ex_model True 8 100)" by simp
  note f = forward_low_res [OF l x c, of "ex_library True"]
  have "outcome (forward_feats (ex_library True) ?m ?x ?x 1 2 3 0 64) =
      Inl (RuntimeError ''cannot infer the unspecified dimension'')"
    using x by (simp add: forward_stage_defs eval_simps)
  then have "outcome (snd (forward (ex_library True) (ex_model True 8 100) ?x)) =
      Inl (RuntimeError ''cannot infer the unspecified dimension'')"
    unfolding f snd_conv by (rule outcome_rbind_raises)
  with x show ?thesis by simp
qed

text \<open>
  C2. For a rank-five input with an even number \<open>t\<close> of frames whose second half is its
  first half reversed in time, the check compares the two halves exactly (the norm of
  their difference, one of them flipped, with zero) and sets the flag exactly when every
  value is finite. On an instance for low-resolution input with such a finite input,
  \<open>forward\<close> leaves the instance with the flag set; its only possible call of the flow
  estimator is the one on \<open>(lqs_1, lqs_2)\<close>, and on a run that returns this call is made,
  the backward flow is its reshaped result and the forward flow is the backward flow
  flipped along the time axis.
\<close>

theorem mirror_sets_flag:
  assumes s: "shape lqs = [n, t, c, h, w]" and e: "even t"
    and p: "\<forall>s \<in> set (elems lqs). length s = t \<and> drop (t div 2) s = rev (take (t div 2) s)"
    and lr: "is_low_res_input m"
  shows "check_if_mirror_extended m lqs =
           ret (if finite5 lqs then m\<lparr>is_mirror_extended := True\<rparr> else m) \<and>
         (finite5 lqs \<longrightarrow>
            fst (forward L m lqs) =
              m\<lparr>cpu_cache := Some (cpu_cache_length m < int t), is_mirror_extended := True\<rparr> \<and>
            (filter is_spynet_call (events (snd (forward L m lqs))) = [] \<or>
             (\<exists>l1 l2. returns (frame_pairs lqs c h w) (l1, l2) \<and>
                filter is_spynet_call (events (snd (forward L m lqs))) = [Spynet_call l1 l2])) \<and>
            (\<forall>out. returns (snd (forward L m lqs)) out \<longrightarrow>
               (\<exists>l1 l2 est ff fb. returns (frame_pairs lqs c h w) (l1, l2) \<and>
                  filter is_spynet_call (events (snd (forward L m lqs))) = [Spynet_call l1 l2] \<and>
                  returns (apply_net2 (spynet m) l1 l2) est \<and>
                  returns (view45 [int n, int t - 1, 2, int h, int w] est) fb \<and>
                  returns (flip1 fb) ff \<and>
                  returns (compute_flow (fst (forward L m lqs)) lqs) (ff, fb))) \<and>
            (\<forall>ff fb. returns (compute_flow (fst (forward L m lqs)) lqs) (ff, fb) \<longrightarrow>
               (\<exists>l1 l2 est. returns (frame_pairs lqs c h w) (l1, l2) \<and>
                  events (compute_flow (fst (forward L m lqs)) lqs) = [Spynet_call l1 l2] \<and>
                  returns (apply_net2 (spynet m) l1 l2) est \<and>
                  returns (view45 [int n, int t - 1, 2, int h, int w] est) fb \<and>
                  returns (flip1 fb) ff)))"
proof -
  have chk: "check_if_mirror_extended m' lqs =
      ret (if finite5 lqs then m'\<lparr>is_mirror_extended := True\<rparr> else m')" for m'
    using s e p by (intro check_palindrome_iff) auto
  let ?m1 = "m\<lparr>cpu_cache := Some (cpu_cache_length m < int t)\<rparr>"
  let ?m2 = "m\<lparr>cpu_cache := Some (cpu_cache_length m < int t), is_mirror_extended := True\<rparr>"
  have rest: "fst (forward L m lqs) = ?m2 \<and>
            (filter is_spynet_call (events (snd (forward L m lqs))) = [] \<or>
             (\<exists>l1 l2. returns (frame_pairs lqs c h w) (l1, l2) \<and>
                filter is_spynet_call (events (snd (forward L m lqs))) = [Spynet_call l1 l2])) \<and>
            (\<forall>out. returns (snd (forward L m lqs)) out \<longrightarrow>
               (\<exists>l1 l2 est ff fb. returns (frame_pairs lqs c h w) (l1, l2) \<and>
                  filter is_spynet_call (events (snd (forward L m lqs))) = [Spynet_call l1 l2] \<and>
                  returns (apply_net2 (spynet m) l1 l2) est \<and>
                  returns (view45 [int n, int t - 1, 2, int h, int w] est) fb \<and>
                  returns (flip1 fb) ff \<and>
                  returns (compute_flow (fst (forward L m lqs)) lqs) (ff, fb))) \<and>
            (\<forall>ff fb. returns (compute_flow (fst (forward L m lqs)) lqs) (ff, fb) \<longrightarrow>
               (\<exists>l1 l2 est. returns (frame_pairs lqs c h w) (l1, l2) \<and>
                  events (compute_flow (fst (forward L m lqs)) lqs) = [Spynet_call l1 l2] \<and>
                  returns (apply_net2 (spynet m) l1 l2) est \<and>
                  returns (view45 [int n, int t - 1, 2, int h, int w] est) fb \<and>
                  returns (flip1 fb) ff))"
    if fin: "finite5 lqs"
  proof -
    have c: "check_if_mirror_extended ?m1 lqs = ret ?m2"
      using fin by (simp add: chk)
    have m2: "fst (forward L m lqs) = ?m2"
      by (simp add: forward_low_res [OF lr s c])
    have fl: "is_mirror_extended (fst (forward L m lqs))" unfolding m2 by simp
    have sp: "spynet ?m2 = spynet m" by simp
    note a = forward_flagged_flows [OF s lr fl]
    have d: "\<exists>l1 l2 est. returns (frame_pairs lqs c h w) (l1, l2) \<and>
                  events (compute_flow (fst (forward L m lqs)) lqs) = [Spynet_call l1 l2] \<and>
                  returns (apply_net2 (spynet m) l1 l2) est \<and>
                  returns (view45 [int n, int t - 1, 2, int h, int w] est) fb \<and>
                  returns (flip1 fb) ff"
      if "returns (compute_flow (fst (forward L m lqs)) lqs) (ff, fb)" for ff fb
      using compute_flow_flagged_returns [OF fl s that] unfolding m2 sp .
    from m2 a(1) a(2) d show ?thesis by blast
  qed
  from chk [of m] rest show ?thesis by blast
qed

theorem mirror_sets_flag_witness:
  "shape ex_mirror_seq = [1, 4, 3, 64, 64] \<and> even (4::nat) \<and>
   elems ex_mirror_seq = [[ex_frame 1, ex_frame 5, ex_frame 5, ex_frame 1]] \<and>
   finite5 ex_mirror_seq \<and> is_low_res_input (ex_model True 8 100) \<and>
   check_if_mirror_extended (ex_model True 8 100) ex_mirror_seq =
     ret ((ex_model True 8 100)\<lparr>is_mirror_extended := True\<rparr>) \<and>
   fst (forward (ex_library True) (ex_model True 8 100) ex_mirror_seq) =
     (ex_model True 8 100)\<lparr>cpu_cache := Some False, is_mirror_extended := True\<rparr> \<and>
   (\<exists>out l1 l2 est ff fb.
      returns (snd (forward (ex_library True) (ex_model True 8 100) ex_mirror_seq)) out \<and>
      returns (frame_pairs ex_mirror_seq 3 64 64) (l1, l2) \<and>
      filter is_spynet_call
        (events (snd (forward (ex_library True) (ex_model True 8 100) ex_mirror_seq))) =
        [Spynet_call l1 l2] \<and>
      returns (apply_net2 (spynet (ex_model True 8 100)) l1 l2) est \<and>
      returns (view45 [int 1, int 4 - 1, 2, int 64, int 64] est) fb \<and>
      returns (flip1 fb) ff \<and>
      returns (compute_flow
        (fst (forward (ex_library True) (ex_model True 8 100) ex_mirror_seq)) ex_mirror_seq)
        (ff, fb) \<and>
      events (compute_flow
        (fst (forward (ex_library True) (ex_model True 8 100) ex_mirror_seq)) ex_mirror_seq) =
        [Spynet_call l1 l2])"
proof -
  let ?m = "ex_model True 8 100"
  let ?L = "ex_library True"
  have s: "shape ex_mirror_seq = [1, 4, 3, 64, 64]" by (simp add: ex_mirror_seq_def)
  have el: "elems ex_mirror_seq = [[ex_frame 1, ex_frame 5, ex_frame 5, ex_frame 1]]"
    by (simp add: ex_mirror_seq_def)
  have lr: "is_low_res_input ?m" by simp
  have e: "even (4::nat)" by simp
  note t = mirror_sets_flag [OF s e ex_mirror_palindrome lr, of ?L]
  from t ex_mirror_finite have
    c: "check_if_mirror_extended ?m ex_mirror_seq = ret (?m\<lparr>is_mirror_extended := True\<rparr>)"
    by simp
  from t ex_mirror_finite have
    f: "fst (forward ?L ?m ex_mirror_seq) =
          ?m\<lparr>cpu_cache := Some False, is_mirror_extended := True\<rparr>"
    by simp
  have c1: "check_if_mirror_extended (?m\<lparr>cpu_cache := Some (cpu_cache_length ?m < int 4)\<rparr>)
      ex_mirror_seq = ret (?m\<lparr>cpu_cache := Some False, is_mirror_extended := True\<rparr>)"
    using check_palindrome [OF s e ex_mirror_palindrome ex_mirror_finite] by simp
  from ex4_forward_run [OF s lr c1] obtain out where
    r: "returns (snd (forward ?L ?m ex_mirror_seq)) out" by blast
  from t ex_mirror_finite r obtain l1 l2 est ff fb where
    1: "returns (frame_pairs ex_mirror_seq 3 64 64) (l1, l2)"
      "filter is_spynet_call (events (snd (forward ?L ?m ex_mirror_seq))) = [Spynet_call l1 l2]"
      "returns (apply_net2 (spynet ?m) l1 l2) est"
      "returns (view45 [int 1, int 4 - 1, 2, int 64, int 64] est) fb"
      "returns (flip1 fb) ff"
      "returns (compute_flow (fst (forward ?L ?m ex_mirror_seq)) ex_mirror_seq) (ff, fb)"
    by blast
  from t ex_mirror_finite 1(6) obtain l1' l2' where
    2: "returns (frame_pairs ex_mirror_seq 3 64 64) (l1', l2')"
      "events (compute_flow (fst (forward ?L ?m ex_mirror_seq)) ex_mirror_seq) =
         [Spynet_call l1' l2']"
    by blast
  from returns_fun [OF 1(1) 2(1)] 2(2) have
    3: "events (compute_flow (fst (forward ?L ?m ex_mirror_seq)) ex_mirror_seq) =
         [Spynet_call l1 l2]"
    by simp
  from s e el ex_mirror_finite lr c f r 1 3 show ?thesis by blast
qed

theorem mirror_sets_flag_counterexample:
  "shape ex_inf_seq = [1, 2, 3, 64, 64] \<and>
   elems ex_inf_seq = [[const_image PInf 3 64 64, const_image PInf 3 64 64]] \<and>
   check_if_mirror_extended (ex_model True 8 100) ex_inf_seq = ret (ex_model True 8 100) \<and>
   is_mirror_extended (fst (forward (ex_library True) (ex_model True 8 100) ex_inf_seq)) = False"
proof -
  let ?m = "ex_model True 8 100"
  have s: "shape ex_inf_seq = [1, 2, 3, 64, 64]" by (simp add: ex_inf_seq_def)
  have el: "elems ex_inf_seq = [[const_image PInf 3 64 64, const_image PInf 3 64 64]]"
    by (simp add: ex_inf_seq_def)
  have e: "even (2::nat)" by simp
  have c: "check_if_mirror_extended m ex_inf_seq = ret m" for m
    using check_palindrome_iff [OF s e ex_inf_palindrome, of m] ex_inf_not_finite by simp
  have lr: "is_low_res_input ?m" by simp
  have "fst (forward (ex_library True) ?m ex_inf_seq) =
      ?m\<lparr>cpu_cache := Some (cpu_cache_length ?m < int 2)\<rparr>"
    by (simp add: forward_low_res [OF lr s c])
  then have "is_mirror_extended (fst (forward (ex_library True) ?m ex_inf_seq)) = False"
    by simp
  with s el c [of ?m] show ?thesis by simp
qed






end
